(* ===== verification/Prelude.thy ===== *)
theory Prelude
  imports Main "HOL-Library.Multiset" "HOL-Library.Char_ord" "HOL-Library.List_Lexorder"
    "HOL-Library.Product_Lexorder"
begin

text \<open>
  Shared vocabulary of the development.  Peer identities and resource names are
  Python strings (\<open>string\<close>, a \<open>char list\<close>); Python compares strings by code
  point, which \<open>Char_ord\<close> and \<open>List_Lexorder\<close> reproduce on ASCII, and compares
  tuples lexicographically, which \<open>Product_Lexorder\<close> reproduces on pairs.  The
  lemma collections \<open>clock_simps\<close> and \<open>outbox_simps\<close> gather the facts the component
  proofs rewrite with; the generic lemmas on lists and multisets below are the ones the
  network proofs share.
\<close>

named_theorems clock_simps "facts about the Lamport clock of a process"
named_theorems outbox_simps "facts about the messages an operation sends"

type_synonym peer = string
type_synonym resource = string

subsection \<open>Python tuple comparison\<close>

text \<open>
  \<open>(a, x) > (b, y)\<close> compares the first components first; when they differ the
  second components are never looked at.
\<close>

lemma pair_gt_fst [simp]:
  fixes a b :: "'a::linorder" and x y :: "'b::linorder"
  shows "b < a \<Longrightarrow> (b, y) < (a, x)"
  by simp

lemma pair_gt_fst_eq:
  fixes a b :: "'a::linorder" and x y :: "'b::linorder"
  shows "a \<noteq> b \<Longrightarrow> ((b, y) < (a, x)) = (b < a)"
  by auto

subsection \<open>Counting in multisets built from lists\<close>

lemma size_filter_mset_mset [simp]:
  "size (filter_mset P (mset xs)) = length (filter P xs)"
  by (simp flip: mset_filter)

lemma length_filter_eq_distinct:
  "distinct xs \<Longrightarrow> length (filter ((=) a) xs) = (if a \<in> set xs then 1 else 0)"
  by (induction xs) auto

lemma size_filter_mset_add [simp]:
  "size (filter_mset P (M + N)) = size (filter_mset P M) + size (filter_mset P N)"
  by simp

lemma size_filter_mset_remove:
  "x \<in># M \<Longrightarrow>
     size (filter_mset P (M - {#x#})) = size (filter_mset P M) - (if P x then 1 else 0)"
  by (induction M) (auto simp: size_Diff_submset)

lemma size_filter_mset_diff_le:
  "size (filter_mset P (M - N)) \<le> size (filter_mset P M)"
  by (rule size_mset_mono) (simp add: multiset_filter_mono)

lemma size_filter_mset_pos:
  "x \<in># M \<Longrightarrow> P x \<Longrightarrow> 0 < size (filter_mset P M)"
  by (metis (mono_tags) count_filter_mset gr0I size_eq_0_iff_empty count_eq_zero_iff
      empty_iff set_mset_empty)

lemma size_filter_mset_zero:
  "size (filter_mset P M) = 0 \<longleftrightarrow> (\<forall>x \<in># M. \<not> P x)"
  by auto

subsection \<open>Lists\<close>

lemma concat_map_if_single:
  "concat (map (\<lambda>d. if d \<noteq> x then [(d, m)] else []) xs) = map (\<lambda>d. (d, m)) (filter (\<lambda>d. d \<noteq> x) xs)"
  by (induction xs) auto

lemma map_nth_upt [simp]: "map (\<lambda>i. f (xs ! i)) [0..<length xs] = map f xs"
  by (rule nth_equalityI) simp_all

end
