(* ===== verification/Clock.thy ===== *)
theory Clock
  imports Prelude
begin

text \<open>
  The Lamport clock of a process: the global \<open>relogio_local\<close> (a Python \<open>int\<close>,
  hence \<open>int\<close> here) of \<^verbatim>\<open>src/p1.py\<close>.  It is advanced in two ways:
  \<^item> \<open>atualizar_relogio\<close> (p1.py lines 53--55) on every received message:
    the clock becomes \<open>max(relogio_local, timestamp) + 1\<close>;
  \<^item> \<open>relogio_local += 1\<close> inline, before each message the process sends
    (in \<open>multicast_requisicao\<close>, \<open>enviar_ack\<close> and \<open>enviar_nack\<close>), modelled with the
    process state in theory \<open>Process\<close>.
  A run of the clock over the timestamps it receives is \<open>observar_todos\<close>.
\<close>

definition atualizar_relogio :: "int \<Rightarrow> int \<Rightarrow> int" where
  "atualizar_relogio relogio_local timestamp_recebido = max relogio_local timestamp_recebido + 1"

text \<open>The clock after receiving a sequence of timestamps, one call per message.\<close>

fun observar_todos :: "int \<Rightarrow> int list \<Rightarrow> int" where
  "observar_todos c [] = c"
| "observar_todos c (t # ts) = observar_todos (atualizar_relogio c t) ts"

lemma atualizar_relogio_gt_clock [clock_simps]: "c < atualizar_relogio c t"
  by (simp add: atualizar_relogio_def)

lemma atualizar_relogio_gt_ts [clock_simps]: "t < atualizar_relogio c t"
  by (simp add: atualizar_relogio_def)

lemma observar_todos_mono: "c \<le> observar_todos c ts"
proof (induction ts arbitrary: c)
  case Nil
  then show ?case by simp
next
  case (Cons t ts)
  have "c < atualizar_relogio c t" by (rule atualizar_relogio_gt_clock)
  also have "atualizar_relogio c t \<le> observar_todos (atualizar_relogio c t) ts" by (rule Cons.IH)
  finally show ?case by simp
qed

text \<open>One observation sets the clock past both the old value and the received timestamp,
  and to exactly the larger of the two plus one.\<close>

theorem atualizar_relogio_spec:
  "atualizar_relogio c t = max c t + 1 \<and> c < atualizar_relogio c t \<and> t + 1 \<le> atualizar_relogio c t"
  by (simp add: atualizar_relogio_def)

text \<open>C29: Over a whole sequence of received messages the clock strictly grows by at least the number
  of messages, and it ends strictly above every timestamp it has seen.\<close>

theorem observar_todos_monotone:
  "c + int (length ts) \<le> observar_todos c ts \<and> (\<forall>t \<in> set ts. t < observar_todos c ts)"
proof (induction ts arbitrary: c)
  case Nil
  then show ?case by simp
next
  case (Cons t ts)
  let ?c' = "atualizar_relogio c t"
  have IH: "?c' + int (length ts) \<le> observar_todos ?c' ts \<and> (\<forall>u \<in> set ts. u < observar_todos ?c' ts)"
    by (rule Cons.IH)
  have "c < ?c'" and "t < ?c'" by (rule atualizar_relogio_gt_clock, rule atualizar_relogio_gt_ts)
  moreover have "?c' \<le> observar_todos ?c' ts" by (rule observar_todos_mono)
  ultimately show ?case using IH by auto
qed

theorem observar_todos_monotone_exemplo:
  "observar_todos 2 [3, 1, 7] = 8 \<and> 2 + int (length [3, 1, 7::int]) \<le> 8 \<and>
   (3::int) < 8 \<and> (1::int) < 8 \<and> (7::int) < 8"
  using observar_todos_monotone[of 2 "[3, 1, 7]"]
  by (simp add: atualizar_relogio_def)

end
