(* ===== verification/Message.thy ===== *)
theory Message
  imports Prelude
begin

text \<open>
  Messages and their wire format.  A message is the Python dict built in
  \<open>multicast_requisicao\<close>, \<open>enviar_ack\<close> and \<open>enviar_nack\<close> of \<^verbatim>\<open>src/p1.py\<close> and
  \<^verbatim>\<open>src/p2.py\<close>: four fields \<open>tipo\<close> (\<open>''requisicao''\<close>, \<open>''ack''\<close> or
  \<open>''nack''\<close>), \<open>recurso\<close>, \<open>timestamp\<close> and \<open>id\<close> (the sender), modelled as the
  record \<open>msg\<close> (the field \<open>id\<close> is \<open>id_msg\<close>, since \<open>id\<close> is the identity function
  of HOL).  On the wire it is a JSON object, here an association list of field names and
  JSON values (\<open>json_obj\<close>), strings or integers; \<open>mensagem_json\<close> is the dict the sender
  builds.  \<open>ler_campos\<close> is the four reads \<open>mensagem["tipo"]\<close> \dots
  \<open>mensagem["timestamp"]\<close> at the start of \<open>processar_mensagem\<close> (p1.py lines 149--152):
  a missing key raises \<open>KeyError\<close>, and Python checks no type, so \<open>tipo\<close> and
  \<open>timestamp\<close> are kept as the JSON values they are and the handler compares and converts
  them as the source does (theory \<open>MensagemBruta\<close>).  \<open>recurso\<close> and \<open>id\<close> are the
  resource and peer names of the model, strings: an object whose \<open>recurso\<close> or \<open>id\<close> is
  an integer is outside the model, and \<open>ler_campos\<close> stops on it with \<open>TypeError\<close>
  (p1.py would carry the integer on).  No sender of the repository writes one.  JSON text
  itself (\<open>json.dumps\<close>, \<open>json.loads\<close>) is the library's and is not modelled.
\<close>

record msg =
  tipo :: string
  recurso :: resource
  timestamp :: int
  id_msg :: peer

datatype jval = JStr string | JInt int

type_synonym json_obj = "(string \<times> jval) list"

datatype py_error = KeyError string | TypeError | ValueError

definition requisicao :: "resource \<Rightarrow> int \<Rightarrow> peer \<Rightarrow> msg" where
  "requisicao r t p = \<lparr>tipo = ''requisicao'', recurso = r, timestamp = t, id_msg = p\<rparr>"

definition ack_msg :: "resource \<Rightarrow> int \<Rightarrow> peer \<Rightarrow> msg" where
  "ack_msg r t p = \<lparr>tipo = ''ack'', recurso = r, timestamp = t, id_msg = p\<rparr>"

definition nack_msg :: "resource \<Rightarrow> int \<Rightarrow> peer \<Rightarrow> msg" where
  "nack_msg r t p = \<lparr>tipo = ''nack'', recurso = r, timestamp = t, id_msg = p\<rparr>"

definition mensagem_json :: "msg \<Rightarrow> json_obj" where
  "mensagem_json m =
     [(''tipo'', JStr (tipo m)), (''recurso'', JStr (recurso m)),
      (''timestamp'', JInt (timestamp m)), (''id'', JStr (id_msg m))]"

text \<open>\<open>mensagem[k]\<close>: \<open>KeyError\<close> when the key is absent.\<close>

definition campo :: "json_obj \<Rightarrow> string \<Rightarrow> py_error + jval" where
  "campo obj k = (case map_of obj k of None \<Rightarrow> Inl (KeyError k) | Some v \<Rightarrow> Inr v)"

text \<open>A read of \<open>recurso\<close> or \<open>id\<close>: a string, or outside the model.\<close>

definition campo_str :: "json_obj \<Rightarrow> string \<Rightarrow> py_error + string" where
  "campo_str obj k =
     (case campo obj k of Inl e \<Rightarrow> Inl e | Inr (JStr s) \<Rightarrow> Inr s | Inr (JInt _) \<Rightarrow> Inl TypeError)"

text \<open>The reads in the order of the source: \<open>tipo\<close>, \<open>recurso\<close>, \<open>id\<close>,
  \<open>timestamp\<close>; the first missing key is the one reported.\<close>

definition ler_campos :: "json_obj \<Rightarrow> py_error + (jval \<times> resource \<times> peer \<times> jval)" where
  "ler_campos obj =
     (case campo obj ''tipo'' of Inl e \<Rightarrow> Inl e | Inr tp \<Rightarrow>
      case campo_str obj ''recurso'' of Inl e \<Rightarrow> Inl e | Inr rc \<Rightarrow>
      case campo_str obj ''id'' of Inl e \<Rightarrow> Inl e | Inr rm \<Rightarrow>
      case campo obj ''timestamp'' of Inl e \<Rightarrow> Inl e | Inr v \<Rightarrow> Inr (tp, rc, rm, v))"

lemmas msg_defs = requisicao_def ack_msg_def nack_msg_def

lemma msg_fields [simp]:
  "tipo (requisicao r t p) = ''requisicao''" "recurso (requisicao r t p) = r"
  "timestamp (requisicao r t p) = t" "id_msg (requisicao r t p) = p"
  "tipo (ack_msg r t p) = ''ack''" "recurso (ack_msg r t p) = r"
  "timestamp (ack_msg r t p) = t" "id_msg (ack_msg r t p) = p"
  "tipo (nack_msg r t p) = ''nack''" "recurso (nack_msg r t p) = r"
  "timestamp (nack_msg r t p) = t" "id_msg (nack_msg r t p) = p"
  by (simp_all add: msg_defs)

lemma ler_campos_json [simp]:
  "ler_campos (mensagem_json m) = Inr (JStr (tipo m), recurso m, id_msg m, JInt (timestamp m))"
  by (simp add: ler_campos_def mensagem_json_def campo_str_def campo_def)

text \<open>C30: A message without a \<open>recurso\<close> field, whatever its \<open>tipo\<close>, raises
  \<open>KeyError\<close> on the read of \<open>mensagem["recurso"]\<close>.\<close>

theorem ler_campos_sem_recurso:
  assumes "map_of obj ''tipo'' \<noteq> None" and "map_of obj ''recurso'' = None"
  shows "ler_campos obj = Inl (KeyError ''recurso'')"
  using assms by (auto simp: ler_campos_def campo_str_def campo_def)

theorem ler_campos_sem_recurso_exemplo:
  "map_of [(''tipo'', JInt 7), (''timestamp'', JInt 3), (''id'', JStr ''p2'')] ''tipo'' \<noteq> None \<and>
   map_of [(''tipo'', JInt 7), (''timestamp'', JInt 3), (''id'', JStr ''p2'')] ''recurso'' = None \<and>
   ler_campos [(''tipo'', JInt 7), (''timestamp'', JInt 3), (''id'', JStr ''p2'')]
     = Inl (KeyError ''recurso'')"
  using ler_campos_sem_recurso[of "[(''tipo'', JInt 7), (''timestamp'', JInt 3), (''id'', JStr ''p2'')]"]
  by simp

end
