(* ===== verification/Process.thy ===== *)
theory Process
  imports Clock Message "HOL-Library.While_Combinator"
begin

text \<open>
  One peer of the protocol, as \<^verbatim>\<open>src/p1.py\<close> writes it (\<^verbatim>\<open>src/processo2.py\<close>
  is the same code with another identity).  The module-level globals (p1.py lines 41--45)
  are the record \<open>pstate\<close>; the configuration \<open>ID_PROCESSO\<close>/\<open>PROCESSOS\<close>
  (lines 28--34) is the record \<open>config\<close> (peer names in the dict's order; the
  addresses belong to the transport).  Every function of the source that changes the globals
  takes the state and returns the new state together with its \<^emph>\<open>outbox\<close>: the list of
  \<open>(destination, message)\<close> pairs it hands to \<open>enviar_mensagem\<close>, in the order it
  sends them.  Whether a send reaches its destination is the network's business (theory
  \<open>Network\<close>); the \<open>KeyError\<close> that \<open>PROCESSOS[destino]\<close> raises for a destination
  that is not a member is modelled where it can happen, in the server loop (theory
  \<open>Server\<close>): peers only ever send to members.  The busy-wait \<open>while respostas_esperadas[recurso]: sleep\<close> of
  \<open>entrar_recurso_critico\<close> is split: \<open>entrar_recurso_critico\<close> is the code up to
  the broadcast and \<open>conceder_recurso\<close> the loop exit and the grant.  The drain loop of
  \<open>sair_recurso_critico\<close> is \<open>drenar_fila\<close> (recursion with a measure) and, round by
  round as the source writes it, \<open>drenar_fila_while\<close> (\<open>while_option\<close>); the two
  agree, so the loop always stops.
\<close>

record config =
  id_processo :: peer
  processos :: "peer list"

record pstate =
  recurso_ocupado :: bool
  fila_recurso :: "msg list"
  respostas_esperadas :: "resource \<rightharpoonup> peer set"
  relogio_local :: int
  esperando_recurso :: "resource option"

type_synonym outbox = "(peer \<times> msg) list"

definition estado_inicial :: pstate where
  "estado_inicial = \<lparr>recurso_ocupado = False, fila_recurso = [], respostas_esperadas = Map.empty,
     relogio_local = 0, esperando_recurso = None\<rparr>"

definition enviar_mensagem :: "peer \<Rightarrow> msg \<Rightarrow> outbox" where
  "enviar_mensagem destino mensagem = [(destino, mensagem)]"

definition multicast_requisicao :: "config \<Rightarrow> resource \<Rightarrow> pstate \<Rightarrow> pstate \<times> outbox" where
  "multicast_requisicao c r s =
     (let t = relogio_local s + 1;
          m = requisicao r t (id_processo c)
      in (s\<lparr>relogio_local := t,
            respostas_esperadas := (respostas_esperadas s)(r \<mapsto> set (processos c) - {id_processo c})\<rparr>,
          concat (map (\<lambda>d. if d \<noteq> id_processo c then enviar_mensagem d m else []) (processos c))))"

definition enviar_ack :: "config \<Rightarrow> peer \<Rightarrow> resource \<Rightarrow> pstate \<Rightarrow> pstate \<times> outbox" where
  "enviar_ack c destino r s =
     (let t = relogio_local s + 1
      in (s\<lparr>relogio_local := t\<rparr>, enviar_mensagem destino (ack_msg r t (id_processo c))))"

text \<open>The outcome of \<open>entrar_recurso_critico\<close>: the operator gave up, chose to wait
  (option ``1'', which busy-waits on \<open>recurso_ocupado\<close> and calls the function again),
  or the request was broadcast.\<close>

datatype entrar_res = Desistiu | AguardaLiberacao | Requisitou "pstate \<times> outbox"

definition entrar_recurso_critico ::
    "config \<Rightarrow> resource \<Rightarrow> string \<Rightarrow> pstate \<Rightarrow> entrar_res" where
  "entrar_recurso_critico c r escolha s =
     (if recurso_ocupado s then (if escolha = ''1'' then AguardaLiberacao else Desistiu)
      else Requisitou (multicast_requisicao c r (s\<lparr>esperando_recurso := Some r\<rparr>)))"

text \<open>The exit of \<open>while respostas_esperadas[recurso]\<close> and \<open>recurso_ocupado = True\<close>:
  \<open>None\<close> while the loop still spins.\<close>

definition conceder_recurso :: "resource \<Rightarrow> pstate \<Rightarrow> pstate option" where
  "conceder_recurso r s =
     (case respostas_esperadas s r of
        Some ps \<Rightarrow> (if ps = {} then Some (s\<lparr>recurso_ocupado := True\<rparr>) else None)
      | None \<Rightarrow> None)"

text \<open>\<open>while fila_recurso: requisicao = fila_recurso.pop(0); enviar_ack(...)\<close>: each round
  pops the head of the global queue and acknowledges its sender for the resource being
  released.\<close>

function drenar_fila :: "config \<Rightarrow> resource \<Rightarrow> pstate \<Rightarrow> pstate \<times> outbox" where
  "drenar_fila c r s =
     (case fila_recurso s of
        [] \<Rightarrow> (s, [])
      | m # ms \<Rightarrow>
          (let (s1, o1) = enviar_ack c (id_msg m) r (s\<lparr>fila_recurso := ms\<rparr>);
               (s2, o2) = drenar_fila c r s1
           in (s2, o1 @ o2)))"
  by pat_completeness auto
termination
  by (relation "measure (\<lambda>(c, r, s). length (fila_recurso s))") (auto simp: enviar_ack_def Let_def)

declare drenar_fila.simps [simp del]

text \<open>The same loop as the source writes it, one round at a time on the pair of the globals
  and the messages sent so far, iterated by \<open>while_option\<close> while \<open>fila_recurso\<close> is
  non-empty (\<open>None\<close> if it never stops).\<close>

definition drenar_passo :: "config \<Rightarrow> resource \<Rightarrow> pstate \<times> outbox \<Rightarrow> pstate \<times> outbox" where
  "drenar_passo c r =
     (\<lambda>(s, out). case fila_recurso s of
        [] \<Rightarrow> (s, out)
      | m # ms \<Rightarrow> (case enviar_ack c (id_msg m) r (s\<lparr>fila_recurso := ms\<rparr>) of
                    (s1, o1) \<Rightarrow> (s1, out @ o1)))"

definition drenar_fila_while :: "config \<Rightarrow> resource \<Rightarrow> pstate \<Rightarrow> (pstate \<times> outbox) option" where
  "drenar_fila_while c r s =
     while_option (\<lambda>(s, _). fila_recurso s \<noteq> []) (drenar_passo c r) (s, [])"

definition sair_recurso_critico :: "config \<Rightarrow> resource \<Rightarrow> pstate \<Rightarrow> pstate \<times> outbox" where
  "sair_recurso_critico c r s =
     (if recurso_ocupado s \<and> esperando_recurso s = Some r
      then drenar_fila c r (s\<lparr>recurso_ocupado := False, esperando_recurso := None\<rparr>)
      else (s, []))"

text \<open>\<open>processar_mensagem\<close>: observe the timestamp, then dispatch on \<open>tipo\<close>.  The
  priority test compares \<open>(relogio_local, ID_PROCESSO)\<close> \<^emph>\<open>after\<close> the observation
  with \<open>(timestamp, remetente)\<close>, as Python tuples.  Any other \<open>tipo\<close>, \<open>''nack''\<close>
  included, only advances the clock.\<close>

definition processar_mensagem :: "config \<Rightarrow> msg \<Rightarrow> pstate \<Rightarrow> pstate \<times> outbox" where
  "processar_mensagem c m s =
     (let s1 = s\<lparr>relogio_local := atualizar_relogio (relogio_local s) (timestamp m)\<rparr>
      in if tipo m = ''requisicao'' then
           (if recurso_ocupado s1 \<or>
               (esperando_recurso s1 = Some (recurso m) \<and>
                (timestamp m, id_msg m) < (relogio_local s1, id_processo c))
            then (s1\<lparr>fila_recurso := fila_recurso s1 @ [m]\<rparr>, [])
            else enviar_ack c (id_msg m) (recurso m) s1)
         else if tipo m = ''ack'' then
           (case respostas_esperadas s1 (recurso m) of
              Some ps \<Rightarrow> (s1\<lparr>respostas_esperadas :=
                             (respostas_esperadas s1)(recurso m \<mapsto> ps - {id_msg m})\<rparr>, [])
            | None \<Rightarrow> (s1, []))
         else (s1, []))"

text \<open>A three-peer configuration, the one of the source's \<open>PROCESSOS\<close>, used by the
  concrete instances below.\<close>

definition cfg_p1 :: config where
  "cfg_p1 = \<lparr>id_processo = ''p1'', processos = [''p1'', ''p2'', ''p3'']\<rparr>"

text \<open>Peer \<open>p1\<close> waiting for the acknowledgements of its request for \<open>r1\<close>, stamped 5;
  and \<open>p1\<close> holding \<open>r1\<close> with two deferred requests, the second for another resource.\<close>

definition estado_requisitando :: pstate where
  "estado_requisitando = \<lparr>recurso_ocupado = False, fila_recurso = [],
     respostas_esperadas = [''r1'' \<mapsto> {''p2'', ''p3''}], relogio_local = 5,
     esperando_recurso = Some ''r1''\<rparr>"

definition estado_detendo :: pstate where
  "estado_detendo = \<lparr>recurso_ocupado = True,
     fila_recurso = [requisicao ''r1'' 3 ''p2'', requisicao ''r2'' 4 ''p3''],
     respostas_esperadas = [''r1'' \<mapsto> {}], relogio_local = 5, esperando_recurso = Some ''r1''\<rparr>"

subsection \<open>Sending\<close>

lemma enviar_ack_simps [simp]:
  "enviar_ack c d r s = (s\<lparr>relogio_local := relogio_local s + 1\<rparr>,
     [(d, ack_msg r (relogio_local s + 1) (id_processo c))])"
  by (simp add: enviar_ack_def enviar_mensagem_def Let_def)

lemma multicast_requisicao_out [outbox_simps]:
  "snd (multicast_requisicao c r s) =
     map (\<lambda>d. (d, requisicao r (relogio_local s + 1) (id_processo c)))
       (filter (\<lambda>d. d \<noteq> id_processo c) (processos c))"
  unfolding multicast_requisicao_def enviar_mensagem_def Let_def by (simp add: concat_map_if_single)

lemma multicast_requisicao_state [simp]:
  "fst (multicast_requisicao c r s) =
     s\<lparr>relogio_local := relogio_local s + 1,
       respostas_esperadas := (respostas_esperadas s)(r \<mapsto> set (processos c) - {id_processo c})\<rparr>"
  by (simp add: multicast_requisicao_def Let_def)

subsection \<open>Draining the deferred queue\<close>

text \<open>The whole loop at once: the queue ends empty, the clock advances once per entry, and the
  \<open>i\<close>-th entry's sender receives an \<open>ack\<close> for the released resource stamped with the
  clock plus \<open>i + 1\<close>.\<close>

lemma drenar_fila_eq:
  "drenar_fila c r s =
     (s\<lparr>fila_recurso := [], relogio_local := relogio_local s + int (length (fila_recurso s))\<rparr>,
      map (\<lambda>i. (id_msg (fila_recurso s ! i), ack_msg r (relogio_local s + int i + 1) (id_processo c)))
        [0..<length (fila_recurso s)])"
proof (induction c r s rule: drenar_fila.induct)
  case (1 c r s)
  show ?case
  proof (cases "fila_recurso s")
    case Nil
    then show ?thesis by (simp add: drenar_fila.simps)
  next
    case (Cons m ms)
    let ?s1 = "s\<lparr>fila_recurso := ms, relogio_local := relogio_local s + 1\<rparr>"
    have IH: "drenar_fila c r ?s1 =
      (?s1\<lparr>fila_recurso := [], relogio_local := relogio_local ?s1 + int (length ms)\<rparr>,
       map (\<lambda>i. (id_msg (ms ! i), ack_msg r (relogio_local ?s1 + int i + 1) (id_processo c)))
         [0..<length ms])"
      using "1.IH"[OF Cons, of "(?s1, _)"] by (simp add: Cons)
    show ?thesis
      by (simp add: drenar_fila.simps[of c r s] Cons IH map_upt_Suc del: upt_Suc)
  qed
qed

lemma drenar_while_acc:
  "while_option (\<lambda>(s, _). fila_recurso s \<noteq> []) (drenar_passo c r) (s, acc) =
     Some (fst (drenar_fila c r s), acc @ snd (drenar_fila c r s))"
proof (induction c r s arbitrary: acc rule: drenar_fila.induct)
  case (1 c r s)
  show ?case
  proof (cases "fila_recurso s")
    case Nil
    then show ?thesis by (simp add: while_option_unfold[of _ _ "(s, acc)"] drenar_fila.simps)
  next
    case (Cons m ms)
    let ?s1 = "s\<lparr>fila_recurso := ms, relogio_local := relogio_local s + 1\<rparr>"
    let ?o1 = "[(id_msg m, ack_msg r (relogio_local s + 1) (id_processo c))]"
    have IH: "while_option (\<lambda>(s, _). fila_recurso s \<noteq> []) (drenar_passo c r) (?s1, acc @ ?o1) =
        Some (fst (drenar_fila c r ?s1), (acc @ ?o1) @ snd (drenar_fila c r ?s1))"
      using "1.IH"[OF Cons, of "(?s1, ?o1)" ?s1 ?o1] by simp
    have P: "drenar_passo c r (s, acc) = (?s1, acc @ ?o1)"
      by (simp add: drenar_passo_def Cons)
    show ?thesis
      by (simp add: while_option_unfold[of _ _ "(s, acc)"] P Cons IH drenar_fila.simps[of c r s]
          split: prod.splits)
  qed
qed

text \<open>C12: Termination of the drain loop: \<open>while fila_recurso: ...pop(0)...\<close> of
  \<open>sair_recurso_critico\<close>, run round by round with \<open>while_option\<close>, always stops, and its
  result is \<open>drenar_fila\<close>: each round pops one entry, so the queue length decreases.\<close>

theorem drenar_fila_while_termina:
  "drenar_fila_while c r s = Some (drenar_fila c r s)"
  using drenar_while_acc[of c r s "[]"] by (simp add: drenar_fila_while_def)

subsection \<open>Receiving\<close>

text \<open>C5: On a request, the receiver defers (queues it, sends nothing) exactly when it holds
  some resource or is itself requesting the same resource, whatever the two timestamps and
  identities are; otherwise it acknowledges at once with its clock advanced twice.  The tuple
  comparison of the source never decides anything: after \<open>atualizar_relogio\<close> the local
  clock is always above the incoming timestamp.\<close>

theorem processar_mensagem_requisicao:
  assumes "tipo m = ''requisicao''"
  shows "processar_mensagem c m s =
    (let t = atualizar_relogio (relogio_local s) (timestamp m)
     in if recurso_ocupado s \<or> esperando_recurso s = Some (recurso m)
        then (s\<lparr>relogio_local := t, fila_recurso := fila_recurso s @ [m]\<rparr>, [])
        else (s\<lparr>relogio_local := t + 1\<rparr>, [(id_msg m, ack_msg (recurso m) (t + 1) (id_processo c))]))"
  using assms by (simp add: processar_mensagem_def Let_def clock_simps)

text \<open>C23: An \<open>ack\<close> that changes no pending set (its resource has no entry in
  \<open>respostas_esperadas\<close>, or its sender was already removed) only advances the clock:
  nothing else changes and nothing is sent.\<close>

theorem processar_mensagem_ack_sem_efeito:
  assumes "tipo m = ''ack''"
    and "case respostas_esperadas s (recurso m) of None \<Rightarrow> True | Some ps \<Rightarrow> id_msg m \<notin> ps"
  shows "processar_mensagem c m s =
           (s\<lparr>relogio_local := atualizar_relogio (relogio_local s) (timestamp m)\<rparr>, [])"
  using assms by (auto simp: processar_mensagem_def fun_upd_idem split: option.splits)

text \<open>C24: Delivering the same \<open>ack\<close> twice has the effect of delivering it once, apart from
  the clock; neither delivery sends anything.\<close>

theorem processar_mensagem_ack_idempotente:
  assumes "tipo m = ''ack''"
    and "processar_mensagem c m s = (s1, o1)" and "processar_mensagem c m s1 = (s2, o2)"
  shows "s2 = s1\<lparr>relogio_local := atualizar_relogio (relogio_local s1) (timestamp m)\<rparr> \<and> o1 = [] \<and> o2 = []"
  using assms by (auto simp: processar_mensagem_def Let_def fun_upd_idem_iff split: option.splits)

text \<open>C25: Receiving a message moves the clock strictly past its old value and past the message's
  timestamp, and every message sent in reply carries a timestamp above both.\<close>

theorem processar_mensagem_relogio:
  assumes "processar_mensagem c m s = (s', out)"
  shows "relogio_local s < relogio_local s' \<and> timestamp m < relogio_local s' \<and>
         (\<forall>(d, m') \<in> set out. timestamp m < timestamp m' \<and> relogio_local s < timestamp m')"
proof -
  have "relogio_local s < atualizar_relogio (relogio_local s) (timestamp m)"
   and "timestamp m < atualizar_relogio (relogio_local s) (timestamp m)"
    by (rule atualizar_relogio_gt_clock, rule atualizar_relogio_gt_ts)
  then show ?thesis using assms
    by (auto simp: processar_mensagem_def Let_def split: if_splits option.splits)
qed

text \<open>C22: A message whose \<open>tipo\<close> is neither \<open>requisicao\<close> nor \<open>ack\<close> (a
  \<open>nack\<close>, or any unknown kind) is not rejected: it still advances the clock past its
  timestamp, and changes nothing else.\<close>

theorem processar_mensagem_outro:
  assumes "tipo m \<noteq> ''requisicao''" and "tipo m \<noteq> ''ack''"
  shows "processar_mensagem c m s =
           (s\<lparr>relogio_local := atualizar_relogio (relogio_local s) (timestamp m)\<rparr>, [])"
  using assms by (simp add: processar_mensagem_def)

subsection \<open>Releasing\<close>

text \<open>C6: Releasing the held resource clears the flag and the requested resource, empties the
  global queue and sends one \<open>ack\<close> per queued request, oldest first, all for the resource
  being released (whatever resource each queued request named).\<close>

theorem sair_recurso_critico_liberado:
  assumes "recurso_ocupado s" and "esperando_recurso s = Some r"
  shows "sair_recurso_critico c r s =
    (s\<lparr>recurso_ocupado := False, esperando_recurso := None, fila_recurso := [],
        relogio_local := relogio_local s + int (length (fila_recurso s))\<rparr>,
     map (\<lambda>i. (id_msg (fila_recurso s ! i), ack_msg r (relogio_local s + int i + 1) (id_processo c)))
       [0..<length (fila_recurso s)])"
  using assms by (simp add: sair_recurso_critico_def drenar_fila_eq)

text \<open>C26: \<open>liberar r\<close> for a resource the process does not hold does nothing at all: no
  state change, no message, and no error reported.\<close>

theorem sair_recurso_critico_nao_detido:
  assumes "\<not> (recurso_ocupado s \<and> esperando_recurso s = Some r)"
  shows "sair_recurso_critico c r s = (s, [])"
  unfolding sair_recurso_critico_def by (rule if_not_P[OF assms])

subsection \<open>Instances\<close>

text \<open>\<open>p1\<close> requested \<open>r1\<close> at time 5; \<open>p2\<close>'s request for \<open>r1\<close> stamped 2 is
  older, so the Ricart--Agrawala order gives \<open>p2\<close> priority, yet \<open>p1\<close> defers it.\<close>

theorem processar_mensagem_requisicao_exemplo:
  "tipo (requisicao ''r1'' 2 ''p2'') = ''requisicao'' \<and>
   processar_mensagem cfg_p1 (requisicao ''r1'' 2 ''p2'') estado_requisitando =
     (estado_requisitando\<lparr>relogio_local := 6, fila_recurso := [requisicao ''r1'' 2 ''p2'']\<rparr>, [])"
  using processar_mensagem_requisicao[of "requisicao ''r1'' 2 ''p2''" cfg_p1 estado_requisitando]
  by (simp add: estado_requisitando_def atualizar_relogio_def)

theorem processar_mensagem_ack_sem_efeito_exemplo:
  "tipo (ack_msg ''r9'' 4 ''p2'') = ''ack'' \<and>
   (case respostas_esperadas estado_requisitando (recurso (ack_msg ''r9'' 4 ''p2'')) of
      None \<Rightarrow> True | Some ps \<Rightarrow> id_msg (ack_msg ''r9'' 4 ''p2'') \<notin> ps) \<and>
   processar_mensagem cfg_p1 (ack_msg ''r9'' 4 ''p2'') estado_requisitando =
     (estado_requisitando\<lparr>relogio_local := 6\<rparr>, [])"
  using processar_mensagem_ack_sem_efeito[of "ack_msg ''r9'' 4 ''p2''" estado_requisitando cfg_p1]
  by (simp add: estado_requisitando_def atualizar_relogio_def)

theorem processar_mensagem_ack_idempotente_exemplo:
  "tipo (ack_msg ''r1'' 4 ''p2'') = ''ack'' \<and>
   (let (s1, o1) = processar_mensagem cfg_p1 (ack_msg ''r1'' 4 ''p2'') estado_requisitando;
        (s2, o2) = processar_mensagem cfg_p1 (ack_msg ''r1'' 4 ''p2'') s1
    in s2 = s1\<lparr>relogio_local := 7\<rparr> \<and> o1 = [] \<and> o2 = [])"
proof -
  obtain s1 o1 where e1: "processar_mensagem cfg_p1 (ack_msg ''r1'' 4 ''p2'') estado_requisitando = (s1, o1)"
    by (cases "processar_mensagem cfg_p1 (ack_msg ''r1'' 4 ''p2'') estado_requisitando")
  obtain s2 o2 where e2: "processar_mensagem cfg_p1 (ack_msg ''r1'' 4 ''p2'') s1 = (s2, o2)"
    by (cases "processar_mensagem cfg_p1 (ack_msg ''r1'' 4 ''p2'') s1")
  have c1: "relogio_local s1 = 6"
    using e1 by (auto simp: processar_mensagem_def estado_requisitando_def atualizar_relogio_def)
  show ?thesis
    using processar_mensagem_ack_idempotente[OF _ e1 e2] e1 e2 c1
    by (simp add: atualizar_relogio_def)
qed

theorem processar_mensagem_relogio_exemplo:
  "processar_mensagem cfg_p1 (requisicao ''r2'' 9 ''p3'') estado_requisitando =
     (estado_requisitando\<lparr>relogio_local := 11\<rparr>, [(''p3'', ack_msg ''r2'' 11 ''p1'')]) \<and>
   relogio_local estado_requisitando < 11 \<and> 9 < (11::int)"
proof -
  have e: "processar_mensagem cfg_p1 (requisicao ''r2'' 9 ''p3'') estado_requisitando =
     (estado_requisitando\<lparr>relogio_local := 11\<rparr>, [(''p3'', ack_msg ''r2'' 11 ''p1'')])"
    by (simp add: processar_mensagem_def estado_requisitando_def atualizar_relogio_def cfg_p1_def)
  show ?thesis using processar_mensagem_relogio[OF e] e by simp
qed

theorem processar_mensagem_outro_exemplo:
  "tipo \<lparr>tipo = ''ping'', recurso = ''r1'', timestamp = 40, id_msg = ''p9''\<rparr> \<noteq> ''requisicao'' \<and>
   tipo \<lparr>tipo = ''ping'', recurso = ''r1'', timestamp = 40, id_msg = ''p9''\<rparr> \<noteq> ''ack'' \<and>
   processar_mensagem cfg_p1 \<lparr>tipo = ''ping'', recurso = ''r1'', timestamp = 40, id_msg = ''p9''\<rparr>
     estado_requisitando = (estado_requisitando\<lparr>relogio_local := 41\<rparr>, [])"
  using processar_mensagem_outro[of "\<lparr>tipo = ''ping'', recurso = ''r1'', timestamp = 40, id_msg = ''p9''\<rparr>"
      cfg_p1 estado_requisitando]
  by (simp add: estado_requisitando_def atualizar_relogio_def)

theorem sair_recurso_critico_liberado_exemplo:
  "recurso_ocupado estado_detendo \<and> esperando_recurso estado_detendo = Some ''r1'' \<and>
   sair_recurso_critico cfg_p1 ''r1'' estado_detendo =
     (estado_detendo\<lparr>recurso_ocupado := False, esperando_recurso := None, fila_recurso := [],
        relogio_local := 7\<rparr>,
      [(''p2'', ack_msg ''r1'' 6 ''p1''), (''p3'', ack_msg ''r1'' 7 ''p1'')])"
  using sair_recurso_critico_liberado[of estado_detendo "''r1''" cfg_p1]
  by (simp add: estado_detendo_def cfg_p1_def upt_rec)

theorem sair_recurso_critico_nao_detido_exemplo:
  "\<not> (recurso_ocupado estado_requisitando \<and> esperando_recurso estado_requisitando = Some ''r1'') \<and>
   sair_recurso_critico cfg_p1 ''r1'' estado_requisitando = (estado_requisitando, [])"
  using sair_recurso_critico_nao_detido[of estado_requisitando "''r1''" cfg_p1]
  by (simp add: estado_requisitando_def)

end
