(* ===== verification/Network.thy ===== *)
theory Network
  imports Process
begin

text \<open>
  The whole system: every peer runs the code of \<^verbatim>\<open>src/p1.py\<close> with its own identity and
  the same \<open>PROCESSOS\<close> list.  A system state (\<open>sistema\<close>) holds each peer's globals,
  the messages in flight, and where each peer's operator thread (\<open>interface_usuario\<close>,
  p1.py lines 197--209) stands:
  \<^item> \<open>UiPronta\<close>: reading the next command;
  \<^item> \<open>UiAguardaLiberacao r\<close>: it answered ``1'' in \<open>entrar_recurso_critico\<close> while
    \<open>recurso_ocupado\<close> was set and now spins in \<open>while recurso_ocupado\<close> (lines
    110--113) before calling \<open>entrar_recurso_critico(r)\<close> again;
  \<^item> blocked in the acknowledgement wait of lines 123--124, which is not a separate value: it is
    \<open>bloqueado\<close>, \<open>esperando_recurso\<close> set and \<open>recurso_ocupado\<close> clear.
  Every \<open>enviar_mensagem\<close> opens a fresh TCP connection, so messages in flight form a
  multiset of \<open>(destination, message)\<close> pairs with no order; the server thread
  (\<open>servidor\<close>) handles one connection at a time, so a delivery runs
  \<open>processar_mensagem\<close> atomically.  A failed send (\<open>except Exception\<close> in
  \<open>enviar_mensagem\<close>) loses the message, which is the step \<open>perder\<close>.  The source takes
  no lock (\<open>lock\<close> and \<open>cond_fila\<close> are never used); the model runs each handler
  atomically, which is what the Python interpreter lock gives for the bytecode-level races the
  model does not cover.

  \<open>passo\<close> is the step relation, one rule per kind of step; \<open>passo_exec\<close> is the same
  steps as an executable function of an event, used to run concrete scenarios.
\<close>

datatype ui_estado = UiPronta | UiAguardaLiberacao resource

record sistema =
  procs :: "peer \<Rightarrow> pstate"
  rede :: "(peer \<times> msg) multiset"
  ui :: "peer \<Rightarrow> ui_estado"

definition cfg_de :: "peer list \<Rightarrow> peer \<Rightarrow> config" where
  "cfg_de ps p = \<lparr>id_processo = p, processos = ps\<rparr>"

definition sistema_inicial :: sistema where
  "sistema_inicial = \<lparr>procs = (\<lambda>_. estado_inicial), rede = {#}, ui = (\<lambda>_. UiPronta)\<rparr>"

definition bloqueado :: "pstate \<Rightarrow> bool" where
  "bloqueado s \<longleftrightarrow> esperando_recurso s \<noteq> None \<and> \<not> recurso_ocupado s"

definition detem :: "pstate \<Rightarrow> resource \<Rightarrow> bool" where
  "detem s r \<longleftrightarrow> recurso_ocupado s \<and> esperando_recurso s = Some r"

definition atualiza :: "sistema \<Rightarrow> peer \<Rightarrow> pstate \<Rightarrow> outbox \<Rightarrow> sistema" where
  "atualiza S p s' out = S\<lparr>procs := (procs S)(p := s'), rede := rede S + mset out\<rparr>"

inductive passo :: "peer list \<Rightarrow> sistema \<Rightarrow> sistema \<Rightarrow> bool" for ps where
  solicitar:
    "\<lbrakk>p \<in> set ps; ui S p = UiPronta; \<not> bloqueado (procs S p);
      entrar_recurso_critico (cfg_de ps p) r escolha (procs S p) = Requisitou (s', out)\<rbrakk>
     \<Longrightarrow> passo ps S (atualiza S p s' out)"
| aguardar:
    "\<lbrakk>p \<in> set ps; ui S p = UiPronta; \<not> bloqueado (procs S p);
      entrar_recurso_critico (cfg_de ps p) r escolha (procs S p) = AguardaLiberacao\<rbrakk>
     \<Longrightarrow> passo ps S (S\<lparr>ui := (ui S)(p := UiAguardaLiberacao r)\<rparr>)"
| retomar:
    "\<lbrakk>p \<in> set ps; ui S p = UiAguardaLiberacao r; \<not> recurso_ocupado (procs S p);
      entrar_recurso_critico (cfg_de ps p) r escolha (procs S p) = Requisitou (s', out)\<rbrakk>
     \<Longrightarrow> passo ps S ((atualiza S p s' out)\<lparr>ui := (ui S)(p := UiPronta)\<rparr>)"
| conceder:
    "\<lbrakk>p \<in> set ps; bloqueado (procs S p); esperando_recurso (procs S p) = Some r;
      conceder_recurso r (procs S p) = Some s'\<rbrakk>
     \<Longrightarrow> passo ps S (atualiza S p s' [])"
| liberar:
    "\<lbrakk>p \<in> set ps; ui S p = UiPronta; \<not> bloqueado (procs S p);
      sair_recurso_critico (cfg_de ps p) r (procs S p) = (s', out)\<rbrakk>
     \<Longrightarrow> passo ps S (atualiza S p s' out)"
| entregar:
    "\<lbrakk>(p, m) \<in># rede S; processar_mensagem (cfg_de ps p) m (procs S p) = (s', out)\<rbrakk>
     \<Longrightarrow> passo ps S (atualiza (S\<lparr>rede := rede S - {#(p, m)#}\<rparr>) p s' out)"
| perder:
    "x \<in># rede S \<Longrightarrow> passo ps S (S\<lparr>rede := rede S - {#x#}\<rparr>)"

inductive alcancavel :: "peer list \<Rightarrow> sistema \<Rightarrow> bool" for ps where
  inicio: "alcancavel ps sistema_inicial"
| passo: "alcancavel ps S \<Longrightarrow> passo ps S S' \<Longrightarrow> alcancavel ps S'"

text \<open>The steps as a function of an event; \<open>None\<close> when the event cannot happen.\<close>

datatype evento =
    Solicitar peer resource string
  | Retomar peer string
  | Conceder peer
  | Liberar peer resource
  | Entregar peer msg
  | Perder peer msg

fun passo_exec :: "peer list \<Rightarrow> evento \<Rightarrow> sistema \<Rightarrow> sistema option" where
  "passo_exec ps (Solicitar p r escolha) S =
     (if p \<in> set ps \<and> ui S p = UiPronta \<and> \<not> bloqueado (procs S p) then
        (case entrar_recurso_critico (cfg_de ps p) r escolha (procs S p) of
           Desistiu \<Rightarrow> Some S
         | AguardaLiberacao \<Rightarrow> Some (S\<lparr>ui := (ui S)(p := UiAguardaLiberacao r)\<rparr>)
         | Requisitou (s', out) \<Rightarrow> Some (atualiza S p s' out))
      else None)"
| "passo_exec ps (Retomar p escolha) S =
     (case ui S p of
        UiPronta \<Rightarrow> None
      | UiAguardaLiberacao r \<Rightarrow>
          (if p \<in> set ps \<and> \<not> recurso_ocupado (procs S p) then
             (case entrar_recurso_critico (cfg_de ps p) r escolha (procs S p) of
                Requisitou (s', out) \<Rightarrow> Some ((atualiza S p s' out)\<lparr>ui := (ui S)(p := UiPronta)\<rparr>)
              | _ \<Rightarrow> None)
           else None))"
| "passo_exec ps (Conceder p) S =
     (case esperando_recurso (procs S p) of
        None \<Rightarrow> None
      | Some r \<Rightarrow>
          (if p \<in> set ps \<and> bloqueado (procs S p) then
             map_option (\<lambda>s'. atualiza S p s' []) (conceder_recurso r (procs S p))
           else None))"
| "passo_exec ps (Liberar p r) S =
     (if p \<in> set ps \<and> ui S p = UiPronta \<and> \<not> bloqueado (procs S p) then
        (case sair_recurso_critico (cfg_de ps p) r (procs S p) of
           (s', out) \<Rightarrow> Some (atualiza S p s' out))
      else None)"
| "passo_exec ps (Entregar p m) S =
     (if (p, m) \<in># rede S then
        (case processar_mensagem (cfg_de ps p) m (procs S p) of
           (s', out) \<Rightarrow> Some (atualiza (S\<lparr>rede := rede S - {#(p, m)#}\<rparr>) p s' out))
      else None)"
| "passo_exec ps (Perder p m) S =
     (if (p, m) \<in># rede S then Some (S\<lparr>rede := rede S - {#(p, m)#}\<rparr>) else None)"

fun executar :: "peer list \<Rightarrow> evento list \<Rightarrow> sistema \<Rightarrow> sistema option" where
  "executar ps [] S = Some S"
| "executar ps (e # es) S = (case passo_exec ps e S of None \<Rightarrow> None | Some S' \<Rightarrow> executar ps es S')"

subsection \<open>Updating one peer\<close>

lemma atualiza_simps [simp]:
  "procs (atualiza S p s' out) = (procs S)(p := s')"
  "rede (atualiza S p s' out) = rede S + mset out"
  "ui (atualiza S p s' out) = ui S"
  by (simp_all add: atualiza_def)

lemma atualiza_mesmo [simp]: "atualiza S p (procs S p) [] = S"
  by (simp add: atualiza_def)

subsection \<open>The executable steps and the relation agree\<close>

lemma passo_exec_passo:
  assumes "passo_exec ps e S = Some S'"
  shows "passo ps S S' \<or> S' = S"
proof (cases e)
  case (Solicitar p r escolha)
  then show ?thesis using assms
    by (auto split: if_splits entrar_res.splits intro: passo.solicitar passo.aguardar)
next
  case (Retomar p escolha)
  then show ?thesis using assms
    by (auto split: if_splits entrar_res.splits ui_estado.splits intro: passo.retomar)
next
  case (Conceder p)
  then show ?thesis using assms
    by (auto split: if_splits option.splits intro: passo.conceder)
next
  case (Liberar p r)
  then show ?thesis using assms
    by (auto split: if_splits prod.splits intro: passo.liberar)
next
  case (Entregar p m)
  then show ?thesis using assms
    by (auto split: if_splits prod.splits intro: passo.entregar)
next
  case (Perder p m)
  then show ?thesis using assms
    by (auto split: if_splits intro: passo.perder)
qed

lemma passo_passo_exec:
  assumes "passo ps S S'"
  shows "\<exists>e. passo_exec ps e S = Some S'"
  using assms
proof (cases rule: passo.cases)
  case (solicitar p r escolha s' out)
  then show ?thesis by (intro exI[of _ "Solicitar p r escolha"]) simp
next
  case (aguardar p r escolha)
  then show ?thesis by (intro exI[of _ "Solicitar p r escolha"]) simp
next
  case (retomar p r escolha s' out)
  then show ?thesis by (intro exI[of _ "Retomar p escolha"]) simp
next
  case (conceder p r s')
  then show ?thesis by (intro exI[of _ "Conceder p"]) simp
next
  case (liberar p r s' out)
  then show ?thesis by (intro exI[of _ "Liberar p r"]) simp
next
  case (entregar p m s' out)
  then show ?thesis by (intro exI[of _ "Entregar p m"]) simp
next
  case (perder x)
  then show ?thesis by (intro exI[of _ "Perder (fst x) (snd x)"]) simp
qed

lemma executar_alcancavel:
  "alcancavel ps S \<Longrightarrow> executar ps es S = Some S' \<Longrightarrow> alcancavel ps S'"
proof (induction es arbitrary: S)
  case Nil
  then show ?case by simp
next
  case (Cons e es)
  then obtain S1 where e: "passo_exec ps e S = Some S1" and r: "executar ps es S1 = Some S'"
    by (auto split: option.splits)
  have "alcancavel ps S1"
    using passo_exec_passo[OF e] Cons.prems(1) by (auto intro: alcancavel.passo)
  then show ?case using r by (rule Cons.IH)
qed

end
