(* ===== verification/Invariants.thy ===== *)
theory Invariants
  imports Network
begin

text \<open>
  The safety invariant of the baseline protocol (\<^verbatim>\<open>src/p1.py\<close>) and mutual exclusion.
  For peers \<open>x\<close> and \<open>y\<close>, \<open>deve S x y\<close> counts what \<open>x\<close> still owes \<open>y\<close>:
  \<open>y\<close>'s requests in flight to \<open>x\<close>, \<open>y\<close>'s entries in \<open>x\<close>'s queue, and
  \<open>x\<close>'s acknowledgements in flight to \<open>y\<close>.  \<open>permissao S y x r\<close> says \<open>y\<close> has
  (or is about to have) \<open>x\<close>'s acknowledgement for \<open>r\<close>.  The invariant \<open>inv\<close> says:
  messages go between distinct peers of the configuration; the queue holds only other peers'
  requests; a peer with \<open>recurso_ocupado\<close> has an empty pending set for the resource it
  requested; an operator thread spinning in the ``wait'' loop belongs to a peer that holds a
  resource; a peer owes another at most one thing, and only to a peer blocked waiting for it;
  and two peers requesting the same resource never both have each other's permission.  Each
  kind of step keeps it (one lemma per rule of \<open>passo\<close>, the delivery split by message
  type), so it holds in every reachable state, and mutual exclusion follows.
\<close>

definition reqs :: "sistema \<Rightarrow> peer \<Rightarrow> peer \<Rightarrow> nat" where
  "reqs S x y = size (filter_mset (\<lambda>(d, m). d = x \<and> tipo m = ''requisicao'' \<and> id_msg m = y) (rede S))"

definition acks :: "sistema \<Rightarrow> peer \<Rightarrow> peer \<Rightarrow> nat" where
  "acks S x y = size (filter_mset (\<lambda>(d, m). d = y \<and> tipo m = ''ack'' \<and> id_msg m = x) (rede S))"

definition na_fila :: "sistema \<Rightarrow> peer \<Rightarrow> peer \<Rightarrow> nat" where
  "na_fila S x y = length (filter (\<lambda>m. id_msg m = y) (fila_recurso (procs S x)))"

definition deve :: "sistema \<Rightarrow> peer \<Rightarrow> peer \<Rightarrow> nat" where
  "deve S x y = reqs S x y + na_fila S x y + acks S x y"

definition aguardando :: "pstate \<Rightarrow> peer \<Rightarrow> bool" where
  "aguardando s x \<longleftrightarrow>
     (case esperando_recurso s of None \<Rightarrow> False
      | Some r \<Rightarrow> \<not> recurso_ocupado s \<and>
          (case respostas_esperadas s r of None \<Rightarrow> False | Some ps \<Rightarrow> x \<in> ps))"

definition ack_em_voo :: "sistema \<Rightarrow> peer \<Rightarrow> peer \<Rightarrow> resource \<Rightarrow> bool" where
  "ack_em_voo S y x r \<longleftrightarrow> (\<exists>m. (y, m) \<in># rede S \<and> tipo m = ''ack'' \<and> id_msg m = x \<and> recurso m = r)"

definition permissao :: "sistema \<Rightarrow> peer \<Rightarrow> peer \<Rightarrow> resource \<Rightarrow> bool" where
  "permissao S y x r \<longleftrightarrow>
     (case respostas_esperadas (procs S y) r of None \<Rightarrow> False | Some ps \<Rightarrow> x \<notin> ps) \<or> ack_em_voo S y x r"

definition inv_rede :: "peer list \<Rightarrow> sistema \<Rightarrow> bool" where
  "inv_rede ps S \<longleftrightarrow> (\<forall>(d, m) \<in># rede S. d \<in> set ps \<and> id_msg m \<in> set ps \<and> d \<noteq> id_msg m)"

definition inv_fila :: "peer list \<Rightarrow> sistema \<Rightarrow> bool" where
  "inv_fila ps S \<longleftrightarrow> (\<forall>x. \<forall>m \<in> set (fila_recurso (procs S x)). id_msg m \<in> set ps \<and> id_msg m \<noteq> x)"

definition inv_ocupado :: "sistema \<Rightarrow> bool" where
  "inv_ocupado S \<longleftrightarrow> (\<forall>x. recurso_ocupado (procs S x) \<longrightarrow>
     (\<exists>r. esperando_recurso (procs S x) = Some r \<and> respostas_esperadas (procs S x) r = Some {}))"

definition inv_ui :: "sistema \<Rightarrow> bool" where
  "inv_ui S \<longleftrightarrow> (\<forall>x r. ui S x = UiAguardaLiberacao r \<longrightarrow> recurso_ocupado (procs S x))"

definition inv_esp :: "peer list \<Rightarrow> sistema \<Rightarrow> bool" where
  "inv_esp ps S \<longleftrightarrow> (\<forall>x. esperando_recurso (procs S x) \<noteq> None \<longrightarrow> x \<in> set ps)"

definition inv_deve :: "sistema \<Rightarrow> bool" where
  "inv_deve S \<longleftrightarrow> (\<forall>x y. x \<noteq> y \<longrightarrow> deve S x y \<le> 1 \<and> (0 < deve S x y \<longrightarrow> aguardando (procs S y) x))"

definition inv_excl :: "sistema \<Rightarrow> bool" where
  "inv_excl S \<longleftrightarrow> (\<forall>x y r. x \<noteq> y \<longrightarrow> esperando_recurso (procs S x) = Some r \<longrightarrow>
     esperando_recurso (procs S y) = Some r \<longrightarrow> \<not> (permissao S x y r \<and> permissao S y x r))"

definition inv :: "peer list \<Rightarrow> sistema \<Rightarrow> bool" where
  "inv ps S \<longleftrightarrow> inv_rede ps S \<and> inv_fila ps S \<and> inv_ocupado S \<and> inv_ui S \<and> inv_esp ps S \<and>
     inv_deve S \<and> inv_excl S"

lemma inv_deve_mono:
  assumes "inv_deve S"
    and "\<And>x y. x \<noteq> y \<Longrightarrow> deve S' x y \<le> deve S x y"
    and "\<And>x y. x \<noteq> y \<Longrightarrow> 0 < deve S' x y \<Longrightarrow> aguardando (procs S y) x \<Longrightarrow>
           aguardando (procs S' y) x"
  shows "inv_deve S'"
  unfolding inv_deve_def
proof (intro allI impI)
  fix x y :: peer assume xy: "x \<noteq> y"
  have le: "deve S' x y \<le> deve S x y" by (rule assms(2)[OF xy])
  have "deve S x y \<le> 1 \<and> (0 < deve S x y \<longrightarrow> aguardando (procs S y) x)"
    using assms(1) xy by (simp add: inv_deve_def)
  with le assms(3)[OF xy] show "deve S' x y \<le> 1 \<and> (0 < deve S' x y \<longrightarrow> aguardando (procs S' y) x)"
    by auto
qed

lemma inv_excl_mono:
  assumes "inv_excl S"
    and "\<And>x k. esperando_recurso (procs S' x) = Some k \<Longrightarrow> esperando_recurso (procs S x) = Some k"
    and "\<And>x y k. x \<noteq> y \<Longrightarrow> esperando_recurso (procs S' x) = Some k \<Longrightarrow>
           esperando_recurso (procs S' y) = Some k \<Longrightarrow> permissao S' x y k \<Longrightarrow> permissao S x y k"
  shows "inv_excl S'"
  unfolding inv_excl_def
proof (intro allI impI)
  fix x y :: peer and k
  assume xy: "x \<noteq> y" and ex: "esperando_recurso (procs S' x) = Some k"
    and ey: "esperando_recurso (procs S' y) = Some k"
  have "\<not> (permissao S x y k \<and> permissao S y x k)"
    using assms(1) xy assms(2)[OF ex] assms(2)[OF ey] by (simp add: inv_excl_def)
  then show "\<not> (permissao S' x y k \<and> permissao S' y x k)"
    using assms(3)[OF xy ex ey] assms(3)[OF xy[symmetric] ey ex] by blast
qed

lemma inv_mesmo_estado:
  assumes "procs S' = procs S" and "rede S' = rede S"
  shows "inv_rede ps S' = inv_rede ps S \<and> inv_fila ps S' = inv_fila ps S \<and>
    inv_ocupado S' = inv_ocupado S \<and> inv_esp ps S' = inv_esp ps S \<and>
    inv_deve S' = inv_deve S \<and> inv_excl S' = inv_excl S"
proof -
  have "deve S' = deve S" and "permissao S' = permissao S"
    by (simp_all add: assms fun_eq_iff deve_def reqs_def acks_def na_fila_def permissao_def ack_em_voo_def)
  then show ?thesis
    by (simp add: assms inv_rede_def inv_fila_def inv_ocupado_def inv_esp_def inv_deve_def inv_excl_def)
qed

lemma inv_rede_sub:
  "inv_rede ps S \<Longrightarrow> rede S' \<subseteq># rede S \<Longrightarrow> inv_rede ps S'"
  unfolding inv_rede_def by (meson mset_subset_eqD)

text \<open>A step that only loses a message keeps the invariant.\<close>

lemma inv_perder:
  assumes "inv ps S" and "x \<in># rede S"
  shows "inv ps (S\<lparr>rede := rede S - {#x#}\<rparr>)"
proof -
  let ?S = "S\<lparr>rede := rede S - {#x#}\<rparr>"
  have sub: "\<And>P. size (filter_mset P (rede ?S)) \<le> size (filter_mset P (rede S))"
    by (simp add: size_filter_mset_diff_le del: filter_diff_mset)
  have le: "deve ?S a b \<le> deve S a b" for a b
    using sub unfolding deve_def reqs_def acks_def na_fila_def by (simp add: add_mono)
  have "inv_deve ?S" using assms(1) le by - (rule inv_deve_mono[of S], simp_all add: inv_def)
  moreover have "permissao ?S a b k \<Longrightarrow> permissao S a b k" for a b k
    unfolding permissao_def ack_em_voo_def by (auto dest: in_diffD)
  then have "inv_excl ?S" using assms(1) by - (rule inv_excl_mono[of S], simp_all add: inv_def)
  moreover have "inv_rede ps ?S" using assms(1) by - (rule inv_rede_sub[of ps S], simp_all add: inv_def)
  ultimately show ?thesis using assms(1)
    by (simp add: inv_def inv_fila_def inv_ocupado_def inv_ui_def inv_esp_def)
qed

lemma aguardando_cong:
  "esperando_recurso s' = esperando_recurso s \<Longrightarrow> recurso_ocupado s' = recurso_ocupado s \<Longrightarrow>
   respostas_esperadas s' = respostas_esperadas s \<Longrightarrow> aguardando s' x = aguardando s x"
  by (simp add: aguardando_def cong: option.case_cong)

lemma ack_em_voo_acks: "ack_em_voo S y x r \<Longrightarrow> 0 < acks S x y"
  unfolding ack_em_voo_def acks_def by (auto intro: size_filter_mset_pos)

lemma deve_zero_se_livre:
  assumes "inv_deve S" and "\<not> bloqueado (procs S y)" and "x \<noteq> y"
  shows "deve S x y = 0"
proof -
  have "\<not> aguardando (procs S y) x"
    using assms(2) by (auto simp: aguardando_def bloqueado_def split: option.splits)
  then show ?thesis using assms(1,3) unfolding inv_deve_def by (meson not_gr0)
qed

lemma entrar_Requisitou:
  assumes "entrar_recurso_critico c r escolha s = Requisitou (s', out)"
  shows "\<not> recurso_ocupado s \<and>
    s' = s\<lparr>esperando_recurso := Some r, relogio_local := relogio_local s + 1,
      respostas_esperadas := (respostas_esperadas s)(r \<mapsto> set (processos c) - {id_processo c})\<rparr> \<and>
    out = map (\<lambda>d. (d, requisicao r (relogio_local s + 1) (id_processo c)))
            (filter (\<lambda>d. d \<noteq> id_processo c) (processos c))"
proof -
  have o: "\<not> recurso_ocupado s" and
    m: "multicast_requisicao c r (s\<lparr>esperando_recurso := Some r\<rparr>) = (s', out)"
    using assms by (auto simp: entrar_recurso_critico_def split: if_splits)
  have "s' = fst (multicast_requisicao c r (s\<lparr>esperando_recurso := Some r\<rparr>))"
   and "out = snd (multicast_requisicao c r (s\<lparr>esperando_recurso := Some r\<rparr>))"
    using m by simp_all
  then show ?thesis using o by (simp add: multicast_requisicao_out)
qed

lemma length_filter_outro:
  "distinct xs \<Longrightarrow> length (filter (\<lambda>d. d \<noteq> p \<and> d = a) xs) = (if a \<in> set xs \<and> a \<noteq> p then 1 else 0)"
  by (induction xs) auto

lemma deve_solicitar:
  assumes D: "distinct ps"
    and E: "entrar_recurso_critico (cfg_de ps p) r escolha (procs S p) = Requisitou (s', out)"
  shows "deve (atualiza S p s' out) x y = deve S x y + (if y = p \<and> x \<in> set ps \<and> x \<noteq> p then 1 else 0)"
proof -
  let ?s = "procs S p" and ?S = "atualiza S p s' out"
  have s': "s' = ?s\<lparr>esperando_recurso := Some r, relogio_local := relogio_local ?s + 1,
      respostas_esperadas := (respostas_esperadas ?s)(r \<mapsto> set ps - {p})\<rparr>"
   and out: "out = map (\<lambda>d. (d, requisicao r (relogio_local ?s + 1) p)) (filter (\<lambda>d. d \<noteq> p) ps)"
    using entrar_Requisitou[OF E] by (simp_all add: cfg_de_def)
  have "reqs ?S x y = reqs S x y + (if y = p \<and> x \<in> set ps \<and> x \<noteq> p then 1 else 0)"
    by (cases "y = p") (simp_all add: reqs_def out comp_def length_filter_outro[OF D] del: mset_map mset_filter)
  moreover have "acks ?S x y = acks S x y"
    by (simp add: acks_def out comp_def del: mset_map mset_filter)
  moreover have "na_fila ?S x y = na_fila S x y" by (simp add: na_fila_def s')
  ultimately show ?thesis by (simp add: deve_def)
qed

lemma inv_solicitar:
  assumes I: "inv ps S" and D: "distinct ps" and P: "p \<in> set ps" and B: "\<not> bloqueado (procs S p)"
    and E: "entrar_recurso_critico (cfg_de ps p) r escolha (procs S p) = Requisitou (s', out)"
  shows "inv ps (atualiza S p s' out)"
proof -
  let ?s = "procs S p" and ?S = "atualiza S p s' out"
  have O: "\<not> recurso_ocupado ?s"
   and s': "s' = ?s\<lparr>esperando_recurso := Some r, relogio_local := relogio_local ?s + 1,
      respostas_esperadas := (respostas_esperadas ?s)(r \<mapsto> set ps - {p})\<rparr>"
   and out: "out = map (\<lambda>d. (d, requisicao r (relogio_local ?s + 1) p)) (filter (\<lambda>d. d \<noteq> p) ps)"
    using entrar_Requisitou[OF E] by (simp_all add: cfg_de_def)
  have N: "esperando_recurso ?s = None" using O B by (simp add: bloqueado_def)
  have invs: "inv_rede ps S" "inv_fila ps S" "inv_ocupado S" "inv_ui S" "inv_esp ps S"
    "inv_deve S" "inv_excl S" using I by (simp_all add: inv_def)
  have zero: "x \<noteq> p \<Longrightarrow> deve S x p = 0" for x
    using deve_zero_se_livre[OF invs(6) B] by simp
  note deve' = deve_solicitar[OF D E]
  have ag': "aguardando s' x \<longleftrightarrow> x \<in> set ps \<and> x \<noteq> p" for x
    by (simp add: aguardando_def s' O)
  have voo': "ack_em_voo (atualiza S p t out) y x k = ack_em_voo S y x k" for t x y k
    by (auto simp: ack_em_voo_def out)
  have "inv_deve ?S"
    unfolding inv_deve_def
  proof (intro allI impI)
    fix x y :: peer assume xy: "x \<noteq> y"
    show "deve ?S x y \<le> 1 \<and> (0 < deve ?S x y \<longrightarrow> aguardando (procs ?S y) x)"
      using zero[of x] invs(6) xy by (cases "y = p") (simp_all add: deve' ag' inv_deve_def)
  qed
  moreover have "\<not> permissao ?S p y r" if "y \<noteq> p" and "esperando_recurso (procs S y) \<noteq> None" for y
  proof -
    have "y \<in> set ps" using invs(5) that(2) by (simp add: inv_esp_def)
    moreover have "\<not> ack_em_voo S p y r"
      using zero[OF that(1)] ack_em_voo_acks[of S p y r] unfolding deve_def by auto
    ultimately show ?thesis using that(1) by (simp add: permissao_def voo' s')
  qed
  then have "inv_excl ?S"
    using invs(7) N unfolding inv_excl_def by (auto simp: permissao_def voo' s' split: if_splits)
  moreover have "inv_rede ps ?S" using invs(1) P unfolding inv_rede_def by (auto simp: out)
  moreover have "inv_fila ps ?S" using invs(2) unfolding inv_fila_def by (simp add: s')
  moreover have "inv_ocupado ?S" using invs(3) unfolding inv_ocupado_def by (simp add: s' O)
  moreover have "inv_ui ?S" using invs(4) O unfolding inv_ui_def by auto
  moreover have "inv_esp ps ?S" using invs(5) P unfolding inv_esp_def by (simp add: s')
  ultimately show ?thesis by (simp add: inv_def)
qed

lemma inv_aguardar:
  assumes "inv ps S"
    and "entrar_recurso_critico (cfg_de ps p) r escolha (procs S p) = AguardaLiberacao"
  shows "inv ps (S\<lparr>ui := (ui S)(p := UiAguardaLiberacao r)\<rparr>)"
proof -
  have "recurso_ocupado (procs S p)"
    using assms(2) by (simp add: entrar_recurso_critico_def split: if_splits)
  moreover have "inv_ui (S\<lparr>ui := (ui S)(p := UiAguardaLiberacao r)\<rparr>)"
    using assms(1) calculation by (auto simp: inv_def inv_ui_def)
  ultimately show ?thesis using assms(1)
    inv_mesmo_estado[of "S\<lparr>ui := (ui S)(p := UiAguardaLiberacao r)\<rparr>" S ps]
    by (simp add: inv_def)
qed

lemma inv_retomar_impossivel:
  "inv ps S \<Longrightarrow> ui S p = UiAguardaLiberacao r \<Longrightarrow> \<not> recurso_ocupado (procs S p) \<Longrightarrow> False"
  by (simp add: inv_def inv_ui_def)

lemma inv_conceder:
  assumes I: "inv ps S" and B: "bloqueado (procs S p)"
    and E: "esperando_recurso (procs S p) = Some r" and C: "conceder_recurso r (procs S p) = Some s'"
  shows "inv ps (atualiza S p s' [])"
proof -
  let ?s = "procs S p" and ?S = "atualiza S p s' []"
  have R: "respostas_esperadas ?s r = Some {}" and s': "s' = ?s\<lparr>recurso_ocupado := True\<rparr>"
    using C by (auto simp: conceder_recurso_def split: option.splits if_splits)
  have ag: "aguardando s' x = aguardando ?s x" for x
    using R E by (simp add: aguardando_def s')
  have "deve ?S x y = deve S x y" for x y
    by (simp add: deve_def reqs_def acks_def na_fila_def s')
  then have "inv_deve ?S" using I by - (rule inv_deve_mono[of S], auto simp: inv_def ag)
  moreover have "inv_excl ?S" using I
    by - (rule inv_excl_mono[of S], auto simp: inv_def s' permissao_def ack_em_voo_def split: if_splits)
  moreover have "inv_ocupado ?S" using I R E by (auto simp: inv_def inv_ocupado_def s')
  moreover have "inv_ui ?S" using I by (auto simp: inv_def inv_ui_def s')
  ultimately show ?thesis using I
    by (simp add: inv_def inv_rede_def inv_fila_def inv_esp_def s')
qed

lemma length_filter_nth_upt:
  "length (filter (\<lambda>i. P (xs ! i)) [0..<length xs]) = length (filter P xs)"
proof -
  have "filter P xs = filter P (map (\<lambda>i. xs ! i) [0..<length xs])" by (simp add: map_nth)
  then show ?thesis by (simp add: filter_map comp_def)
qed

lemma liberar_efeito:
  assumes "sair_recurso_critico (cfg_de ps p) r (procs S p) = (s', out)"
    and "recurso_ocupado (procs S p) \<and> esperando_recurso (procs S p) = Some r"
  shows "s' = procs S p\<lparr>recurso_ocupado := False, esperando_recurso := None, fila_recurso := [],
      relogio_local := relogio_local (procs S p) + int (length (fila_recurso (procs S p)))\<rparr>"
    and "out = map (\<lambda>i. (id_msg (fila_recurso (procs S p) ! i),
      ack_msg r (relogio_local (procs S p) + int i + 1) p)) [0..<length (fila_recurso (procs S p))]"
    and "deve (atualiza S p s' out) x y = deve S x y"
proof -
  let ?s = "procs S p" and ?q = "fila_recurso (procs S p)"
  show s': "s' = ?s\<lparr>recurso_ocupado := False, esperando_recurso := None, fila_recurso := [],
      relogio_local := relogio_local ?s + int (length ?q)\<rparr>"
   and out: "out = map (\<lambda>i. (id_msg (?q ! i), ack_msg r (relogio_local ?s + int i + 1) p))
      [0..<length ?q]"
    using assms by (simp_all add: sair_recurso_critico_def drenar_fila_eq cfg_de_def)
  have "reqs (atualiza S p s' out) x y = reqs S x y"
    by (simp add: reqs_def out comp_def del: mset_map)
  moreover have "acks (atualiza S p s' out) x y =
      acks S x y + (if x = p then length (filter (\<lambda>m. id_msg m = y) ?q) else 0)"
    using length_filter_nth_upt[of "\<lambda>m. id_msg m = y" ?q]
    by (simp add: acks_def out comp_def del: mset_map)
  moreover have "na_fila (atualiza S p s' out) x y = (if x = p then 0 else na_fila S x y)"
    by (simp add: na_fila_def s')
  ultimately show "deve (atualiza S p s' out) x y = deve S x y"
    by (simp add: deve_def na_fila_def)
qed

lemma inv_liberar:
  assumes I: "inv ps S" and P: "p \<in> set ps" and U: "ui S p = UiPronta"
    and E: "sair_recurso_critico (cfg_de ps p) r (procs S p) = (s', out)"
  shows "inv ps (atualiza S p s' out)"
proof (cases "recurso_ocupado (procs S p) \<and> esperando_recurso (procs S p) = Some r")
  case False
  then have "s' = procs S p" and "out = []" using E False by (simp_all add: sair_recurso_critico_def)
  then show ?thesis using I by simp
next
  case True
  let ?s = "procs S p" and ?S = "atualiza S p s' out"
  let ?q = "fila_recurso ?s"
  have invs: "inv_rede ps S" "inv_fila ps S" "inv_ocupado S" "inv_ui S" "inv_esp ps S"
    "inv_deve S" "inv_excl S" using I by (simp_all add: inv_def)
  note s' = liberar_efeito(1)[OF E True] and out = liberar_efeito(2)[OF E True]
  have outset: "(d, m) \<in> set out \<Longrightarrow> (\<exists>m0 \<in> set ?q. d = id_msg m0) \<and> tipo m = ''ack'' \<and>
      id_msg m = p \<and> recurso m = r" for d m
    by (auto simp: out)
  have "aguardando (procs ?S y) x = aguardando (procs S y) x" for x y
    using True by (simp add: aguardando_def s')
  then have "inv_deve ?S" using invs(6) liberar_efeito(3)[OF E True]
    by - (rule inv_deve_mono[of S], simp_all)
  moreover have "inv_excl ?S"
  proof (rule inv_excl_mono[OF invs(7)])
    show "esperando_recurso (procs ?S x) = Some k \<Longrightarrow> esperando_recurso (procs S x) = Some k" for x k
      by (simp add: s' split: if_splits)
    show "permissao ?S x y k \<Longrightarrow> permissao S x y k"
      if "x \<noteq> y" "esperando_recurso (procs ?S x) = Some k" "esperando_recurso (procs ?S y) = Some k"
      for x y k
    proof -
      have "x \<noteq> p" "y \<noteq> p" using that by (auto simp: s')
      then show "permissao ?S x y k \<Longrightarrow> permissao S x y k"
        by (auto simp: permissao_def ack_em_voo_def dest: outset)
    qed
  qed
  moreover have "inv_rede ps ?S"
    using invs(1) invs(2) P unfolding inv_rede_def inv_fila_def by (fastforce dest: outset)
  moreover have "inv_fila ps ?S" using invs(2) unfolding inv_fila_def by (simp add: s')
  moreover have "inv_ocupado ?S" using invs(3) unfolding inv_ocupado_def by (simp add: s')
  moreover have "inv_ui ?S" using invs(4) U unfolding inv_ui_def by (simp add: s')
  moreover have "inv_esp ps ?S" using invs(5) unfolding inv_esp_def by (simp add: s')
  ultimately show ?thesis by (simp add: inv_def)
qed

subsection \<open>Delivery\<close>

lemma processar_adia:
  assumes "processar_mensagem c m s = (s', out)" and "tipo m = ''requisicao''"
    and "recurso_ocupado s \<or> esperando_recurso s = Some (recurso m)"
  shows "out = [] \<and> fila_recurso s' = fila_recurso s @ [m] \<and> respostas_esperadas s' = respostas_esperadas s \<and>
    esperando_recurso s' = esperando_recurso s \<and> recurso_ocupado s' = recurso_ocupado s"
  using assms atualizar_relogio_gt_ts[of "timestamp m" "relogio_local s"]
  by (auto simp: processar_mensagem_def Let_def)

lemma processar_responde:
  assumes "processar_mensagem c m s = (s', out)" and "tipo m = ''requisicao''"
    and "\<not> (recurso_ocupado s \<or> esperando_recurso s = Some (recurso m))"
  shows "(\<exists>t. out = [(id_msg m, ack_msg (recurso m) t (id_processo c))]) \<and>
    fila_recurso s' = fila_recurso s \<and> respostas_esperadas s' = respostas_esperadas s \<and>
    esperando_recurso s' = esperando_recurso s \<and> recurso_ocupado s' = recurso_ocupado s"
  using assms atualizar_relogio_gt_ts[of "timestamp m" "relogio_local s"]
  by (auto simp: processar_mensagem_def Let_def)

lemma processar_ack:
  assumes "processar_mensagem c m s = (s', out)" and "tipo m = ''ack''"
  shows "out = [] \<and> fila_recurso s' = fila_recurso s \<and>
    respostas_esperadas s' = (case respostas_esperadas s (recurso m) of None \<Rightarrow> respostas_esperadas s
       | Some X \<Rightarrow> (respostas_esperadas s)(recurso m \<mapsto> X - {id_msg m})) \<and>
    esperando_recurso s' = esperando_recurso s \<and> recurso_ocupado s' = recurso_ocupado s"
  using assms by (auto simp: processar_mensagem_def Let_def split: option.splits)

lemma processar_outro:
  assumes "processar_mensagem c m s = (s', out)" and "tipo m \<noteq> ''requisicao''" and "tipo m \<noteq> ''ack''"
  shows "out = [] \<and> fila_recurso s' = fila_recurso s \<and> respostas_esperadas s' = respostas_esperadas s \<and>
    esperando_recurso s' = esperando_recurso s \<and> recurso_ocupado s' = recurso_ocupado s"
  using assms by (auto simp: processar_mensagem_def Let_def)

lemma contagem_remove:
  assumes "(p, m) \<in># rede S"
  shows "reqs (S\<lparr>rede := rede S - {#(p, m)#}\<rparr>) x y =
           reqs S x y - (if x = p \<and> tipo m = ''requisicao'' \<and> id_msg m = y then 1 else 0)"
    and "acks (S\<lparr>rede := rede S - {#(p, m)#}\<rparr>) x y =
           acks S x y - (if y = p \<and> tipo m = ''ack'' \<and> id_msg m = x then 1 else 0)"
    and "reqs S p (id_msg m) > 0 \<or> tipo m \<noteq> ''requisicao''"
    and "acks S (id_msg m) p > 0 \<or> tipo m \<noteq> ''ack''"
  using assms
  by (auto simp: reqs_def acks_def size_filter_mset_remove size_Diff_singleton_if
      intro: size_filter_mset_pos)

lemma contagem_atualiza:
  "reqs (atualiza S p s' out) x y =
     reqs S x y + length (filter (\<lambda>(d, m). d = x \<and> tipo m = ''requisicao'' \<and> id_msg m = y) out)"
  "acks (atualiza S p s' out) x y =
     acks S x y + length (filter (\<lambda>(d, m). d = y \<and> tipo m = ''ack'' \<and> id_msg m = x) out)"
  "na_fila (atualiza S p s' out) x y =
     (if x = p then length (filter (\<lambda>m. id_msg m = y) (fila_recurso s')) else na_fila S x y)"
  by (simp_all add: reqs_def acks_def na_fila_def del: mset_map mset_filter)

text \<open>The facts every kind of delivery shares: the two peers are distinct members, the other
  messages in flight are kept, the receiver's flag and requested resource do not change, and
  the thread and membership parts of the invariant carry over.\<close>

lemma entregar_comum:
  assumes I: "inv ps S" and M: "(p, m) \<in># rede S"
    and E: "processar_mensagem (cfg_de ps p) m (procs S p) = (s', out)"
  shows "p \<in> set ps" "id_msg m \<in> set ps" "p \<noteq> id_msg m"
    and "esperando_recurso s' = esperando_recurso (procs S p)"
    and "recurso_ocupado s' = recurso_ocupado (procs S p)"
    and "a \<in># rede (S\<lparr>rede := rede S - {#(p, m)#}\<rparr>) \<Longrightarrow> a \<in># rede S"
    and "inv_ui (atualiza (S\<lparr>rede := rede S - {#(p, m)#}\<rparr>) p s' out) \<and>
         inv_esp ps (atualiza (S\<lparr>rede := rede S - {#(p, m)#}\<rparr>) p s' out)"
proof -
  show "p \<in> set ps" "id_msg m \<in> set ps" "p \<noteq> id_msg m"
    using I M unfolding inv_def inv_rede_def by auto
  show fr: "esperando_recurso s' = esperando_recurso (procs S p)"
    "recurso_ocupado s' = recurso_ocupado (procs S p)"
    using E by (auto simp: processar_mensagem_def Let_def split: if_splits option.splits)
  show "a \<in># rede (S\<lparr>rede := rede S - {#(p, m)#}\<rparr>) \<Longrightarrow> a \<in># rede S" by (auto dest: in_diffD)
  show "inv_ui (atualiza (S\<lparr>rede := rede S - {#(p, m)#}\<rparr>) p s' out) \<and>
         inv_esp ps (atualiza (S\<lparr>rede := rede S - {#(p, m)#}\<rparr>) p s' out)"
    using I fr unfolding inv_def inv_ui_def inv_esp_def by simp
qed

lemma inv_entregar_adia:
  assumes I: "inv ps S" and M: "(p, m) \<in># rede S"
    and E: "processar_mensagem (cfg_de ps p) m (procs S p) = (s', out)"
    and A: "tipo m = ''requisicao''" "recurso_ocupado (procs S p) \<or> esperando_recurso (procs S p) = Some (recurso m)"
  shows "inv ps (atualiza (S\<lparr>rede := rede S - {#(p, m)#}\<rparr>) p s' out)"
proof -
  let ?s = "procs S p" and ?S = "atualiza (S\<lparr>rede := rede S - {#(p, m)#}\<rparr>) p s' out"
  have invs: "inv_rede ps S" "inv_fila ps S" "inv_ocupado S" "inv_deve S" "inv_excl S"
    using I by (simp_all add: inv_def)
  note C = entregar_comum[OF I M E] and F = processar_adia[OF E A]
  have ag: "aguardando s' x = aguardando ?s x" for x by (rule aguardando_cong) (simp_all add: F)
  have "deve ?S x y = deve S x y" for x y
    using contagem_remove(3)[OF M] A(1) F
    by (auto simp: deve_def contagem_atualiza contagem_remove(1,2)[OF M] na_fila_def)
  then have "inv_deve ?S" using invs(4) ag by - (rule inv_deve_mono[of S], auto)
  moreover have "inv_excl ?S"
    using F C(6) by - (rule inv_excl_mono[OF invs(5)],
        auto simp: permissao_def ack_em_voo_def split: if_splits)
  moreover have "inv_rede ps ?S"
    using invs(1) by - (rule inv_rede_sub[of ps S], simp_all add: F[THEN conjunct1])
  moreover have "inv_fila ps ?S" using F invs(2) C(2,3) unfolding inv_fila_def by auto
  moreover have "inv_ocupado ?S" using F invs(3) unfolding inv_ocupado_def by auto
  ultimately show ?thesis using C(7) by (simp add: inv_def)
qed

lemma inv_entregar_responde:
  assumes I: "inv ps S" and M: "(p, m) \<in># rede S"
    and E: "processar_mensagem (cfg_de ps p) m (procs S p) = (s', out)"
    and A: "tipo m = ''requisicao''" "\<not> (recurso_ocupado (procs S p) \<or> esperando_recurso (procs S p) = Some (recurso m))"
  shows "inv ps (atualiza (S\<lparr>rede := rede S - {#(p, m)#}\<rparr>) p s' out)"
proof -
  let ?s = "procs S p" and ?S = "atualiza (S\<lparr>rede := rede S - {#(p, m)#}\<rparr>) p s' out"
  let ?q = "id_msg m"
  have invs: "inv_rede ps S" "inv_fila ps S" "inv_ocupado S" "inv_deve S" "inv_excl S"
    using I by (simp_all add: inv_def)
  note C = entregar_comum[OF I M E]
  obtain t where out: "out = [(?q, ack_msg (recurso m) t p)]"
    and F: "fila_recurso s' = fila_recurso ?s" "respostas_esperadas s' = respostas_esperadas ?s"
    using processar_responde[OF E A] by (auto simp: cfg_de_def)
  have ag: "aguardando s' x = aguardando ?s x" for x by (rule aguardando_cong) (simp_all add: F C(4,5))
  have "deve ?S x y = deve S x y" for x y
    using contagem_remove(3)[OF M] A(1) C(3)
    by (auto simp: deve_def contagem_atualiza contagem_remove(1,2)[OF M] na_fila_def out F)
  then have "inv_deve ?S" using invs(4) ag by - (rule inv_deve_mono[of S], auto)
  moreover have "inv_excl ?S"
  proof (rule inv_excl_mono[OF invs(5)])
    show "esperando_recurso (procs ?S x) = Some k \<Longrightarrow> esperando_recurso (procs S x) = Some k" for x k
      by (simp add: C(4) split: if_splits)
    show "permissao ?S x y k \<Longrightarrow> permissao S x y k"
      if "x \<noteq> y" "esperando_recurso (procs ?S x) = Some k" "esperando_recurso (procs ?S y) = Some k"
      for x y k
    proof -
      have "\<not> (x = ?q \<and> y = p \<and> k = recurso m)"
        using that(3) A(2) by (auto simp: C(4) split: if_splits)
      then show "permissao ?S x y k \<Longrightarrow> permissao S x y k"
        using C(6) by (auto simp: permissao_def ack_em_voo_def out F split: if_splits)
    qed
  qed
  moreover have "inv_rede ps ?S"
    using invs(1) C(1-3,6) unfolding inv_rede_def by (auto simp: out)
  moreover have "inv_fila ps ?S" using F invs(2) unfolding inv_fila_def by auto
  moreover have "inv_ocupado ?S" using F invs(3) C(4,5) unfolding inv_ocupado_def by auto
  ultimately show ?thesis using C(7) by (simp add: inv_def)
qed

lemma inv_ocupado_ack:
  assumes I: "inv_ocupado S"
    and fr: "esperando_recurso s' = esperando_recurso (procs S p)" "recurso_ocupado s' = recurso_ocupado (procs S p)"
    and R: "respostas_esperadas s' = (case respostas_esperadas (procs S p) k of None \<Rightarrow> respostas_esperadas (procs S p)
       | Some X \<Rightarrow> (respostas_esperadas (procs S p))(k \<mapsto> X - {q}))"
  shows "inv_ocupado (atualiza (S\<lparr>rede := M\<rparr>) p s' out)"
  unfolding inv_ocupado_def
proof (intro allI impI)
  fix x assume o: "recurso_ocupado (procs (atualiza (S\<lparr>rede := M\<rparr>) p s' out) x)"
  show "\<exists>r. esperando_recurso (procs (atualiza (S\<lparr>rede := M\<rparr>) p s' out) x) = Some r \<and>
      respostas_esperadas (procs (atualiza (S\<lparr>rede := M\<rparr>) p s' out) x) r = Some {}"
  proof (cases "x = p")
    case True
    then obtain r0 where e0: "esperando_recurso (procs S p) = Some r0"
      and r0: "respostas_esperadas (procs S p) r0 = Some {}"
      using I o fr by (auto simp: inv_ocupado_def)
    have "respostas_esperadas s' r0 = Some {}" using r0 by (auto simp: R split: option.splits)
    then show ?thesis using True e0 fr by simp
  next
    case False
    then show ?thesis using I o by (simp add: inv_ocupado_def)
  qed
qed

lemma inv_entregar_ack:
  assumes I: "inv ps S" and M: "(p, m) \<in># rede S"
    and E: "processar_mensagem (cfg_de ps p) m (procs S p) = (s', out)"
    and A: "tipo m = ''ack''"
  shows "inv ps (atualiza (S\<lparr>rede := rede S - {#(p, m)#}\<rparr>) p s' out)"
proof -
  let ?s = "procs S p" and ?S = "atualiza (S\<lparr>rede := rede S - {#(p, m)#}\<rparr>) p s' out"
  let ?q = "id_msg m"
  have invs: "inv_rede ps S" "inv_fila ps S" "inv_ocupado S" "inv_deve S" "inv_excl S"
    using I by (simp_all add: inv_def)
  note C = entregar_comum[OF I M E] and F = processar_ack[OF E A]
  have ag: "x \<noteq> ?q \<Longrightarrow> aguardando s' x = aguardando ?s x" for x
    using C(4,5) by (auto simp: aguardando_def F split: option.splits)
  have dv: "deve ?S x y = deve S x y - (if x = ?q \<and> y = p then 1 else 0)" for x y
    using contagem_remove(4)[OF M] A
    by (auto simp: deve_def contagem_atualiza contagem_remove(1,2)[OF M] na_fila_def F)
  have um: "deve S ?q p \<le> 1" using invs(4) C(3) by (simp add: inv_deve_def)
  have "inv_deve ?S"
  proof (rule inv_deve_mono[OF invs(4)])
    show "deve ?S x y \<le> deve S x y" for x y by (simp add: dv)
    show "aguardando (procs ?S y) x" if "x \<noteq> y" "0 < deve ?S x y" "aguardando (procs S y) x" for x y
    proof (cases "y = p")
      case True
      then have "x \<noteq> ?q" using that(2) um by (auto simp: dv)
      then show ?thesis using that(3) True ag by simp
    qed (use that(3) in simp)
  qed
  moreover have "inv_excl ?S"
  proof (rule inv_excl_mono[OF invs(5)])
    show "esperando_recurso (procs ?S x) = Some k \<Longrightarrow> esperando_recurso (procs S x) = Some k" for x k
      by (simp add: C(4) split: if_splits)
    show "permissao ?S x y k \<Longrightarrow> permissao S x y k" for x y k
    proof (cases "x = p \<and> y = ?q \<and> k = recurso m")
      case True
      then have "ack_em_voo S x y k" using M A unfolding ack_em_voo_def by auto
      then show ?thesis by (simp add: permissao_def)
    next
      case False
      then show "permissao ?S x y k \<Longrightarrow> permissao S x y k"
        using C(6) by (auto simp: permissao_def ack_em_voo_def F split: if_splits option.splits)
    qed
  qed
  moreover have "inv_rede ps ?S"
    using invs(1) by - (rule inv_rede_sub[of ps S], simp_all add: F)
  moreover have "inv_fila ps ?S" using F invs(2) unfolding inv_fila_def by auto
  moreover have "inv_ocupado ?S" by (rule inv_ocupado_ack[OF invs(3) C(4,5) F[THEN conjunct2, THEN conjunct2, THEN conjunct1]])
  ultimately show ?thesis using C(7) by (simp add: inv_def)
qed

lemma inv_entregar_outro:
  assumes I: "inv ps S" and M: "(p, m) \<in># rede S"
    and E: "processar_mensagem (cfg_de ps p) m (procs S p) = (s', out)"
    and A: "tipo m \<noteq> ''requisicao''" "tipo m \<noteq> ''ack''"
  shows "inv ps (atualiza (S\<lparr>rede := rede S - {#(p, m)#}\<rparr>) p s' out)"
proof -
  let ?s = "procs S p" and ?S = "atualiza (S\<lparr>rede := rede S - {#(p, m)#}\<rparr>) p s' out"
  have invs: "inv_rede ps S" "inv_fila ps S" "inv_ocupado S" "inv_deve S" "inv_excl S"
    using I by (simp_all add: inv_def)
  note C = entregar_comum[OF I M E] and F = processar_outro[OF E A]
  have ag: "aguardando s' x = aguardando ?s x" for x by (rule aguardando_cong) (simp_all add: F)
  have "deve ?S x y = deve S x y" for x y
    using A by (auto simp: deve_def contagem_atualiza contagem_remove(1,2)[OF M] na_fila_def F)
  then have "inv_deve ?S" using invs(4) ag by - (rule inv_deve_mono[of S], auto)
  moreover have "inv_excl ?S"
    using F C(6) by - (rule inv_excl_mono[OF invs(5)],
        auto simp: permissao_def ack_em_voo_def split: if_splits)
  moreover have "inv_rede ps ?S"
    using invs(1) by - (rule inv_rede_sub[of ps S], simp_all add: F)
  moreover have "inv_fila ps ?S" using F invs(2) unfolding inv_fila_def by auto
  moreover have "inv_ocupado ?S" using F invs(3) unfolding inv_ocupado_def by auto
  ultimately show ?thesis using C(7) by (simp add: inv_def)
qed

lemma inv_entregar:
  assumes I: "inv ps S" and M: "(p, m) \<in># rede S"
    and E: "processar_mensagem (cfg_de ps p) m (procs S p) = (s', out)"
  shows "inv ps (atualiza (S\<lparr>rede := rede S - {#(p, m)#}\<rparr>) p s' out)"
  using inv_entregar_adia[OF I M E] inv_entregar_responde[OF I M E] inv_entregar_ack[OF I M E]
    inv_entregar_outro[OF I M E]
  by blast

subsection \<open>Every reachable state\<close>

lemma inv_inicial: "inv ps sistema_inicial"
  by (simp add: inv_def sistema_inicial_def estado_inicial_def inv_rede_def inv_fila_def
      inv_ocupado_def inv_ui_def inv_esp_def inv_deve_def inv_excl_def deve_def reqs_def acks_def
      na_fila_def permissao_def ack_em_voo_def)

lemma inv_passo:
  assumes "passo ps S S'" and "inv ps S" and "distinct ps"
  shows "inv ps S'"
  using assms
proof (induction rule: passo.cases)
  case (solicitar p r escolha s' out)
  then show ?case by (blast intro: inv_solicitar)
next
  case (aguardar p r escolha)
  then show ?case by (blast intro: inv_aguardar)
next
  case (retomar p r escolha s' out)
  then show ?case by (blast dest: inv_retomar_impossivel)
next
  case (conceder p r s')
  then show ?case by (blast intro: inv_conceder)
next
  case (liberar p r s' out)
  then show ?case by (blast intro: inv_liberar)
next
  case (entregar p m s' out)
  then show ?case by (blast intro: inv_entregar)
next
  case (perder x)
  then show ?case by (blast intro: inv_perder)
qed

lemma alcancavel_inv: "alcancavel ps S \<Longrightarrow> distinct ps \<Longrightarrow> inv ps S"
proof (induction rule: alcancavel.induct)
  case inicio
  show ?case by (rule inv_inicial)
next
  case (passo S S')
  then show ?case by (blast intro: inv_passo)
qed

lemma detem_permissao:
  assumes "inv_ocupado S" and "detem (procs S p) r"
  shows "permissao S p q r"
  using assms by (auto simp: inv_ocupado_def detem_def permissao_def)

text \<open>C1: Mutual exclusion.  In every state the system of peers running \<^verbatim>\<open>p1.py\<close> can reach,
  with any interleaving of operator commands, deliveries and lost messages, two peers that
  both hold the same resource are the same peer.\<close>

theorem exclusao_mutua:
  assumes "alcancavel ps S" and "distinct ps"
    and "detem (procs S p) r" and "detem (procs S q) r"
  shows "p = q"
proof (rule ccontr)
  assume pq: "p \<noteq> q"
  have I: "inv ps S" using assms(1,2) by (rule alcancavel_inv)
  then have "permissao S p q r" and "permissao S q p r"
    using assms(3,4) by (auto simp: inv_def intro: detem_permissao)
  moreover have "esperando_recurso (procs S p) = Some r" and "esperando_recurso (procs S q) = Some r"
    using assms(3,4) by (simp_all add: detem_def)
  ultimately show False using I pq by (auto simp: inv_def inv_excl_def)
qed

end
