(* ===== verification/Liveness.thy ===== *)
theory Liveness
  imports Network
begin

text \<open>
  What the baseline protocol does not guarantee: progress.  Two peers \<open>i\<close> and \<open>j\<close> are in
  \<open>impasse\<close> on a resource \<open>r\<close> when each one waits in the acknowledgement loop of
  \<open>entrar_recurso_critico\<close> (p1.py lines 123--124) for the other's \<open>ack\<close> for \<open>r\<close>,
  no such \<open>ack\<close> is in flight, and neither has a request of the other still to receive:
  each one has queued the other's request (\<open>processar_mensagem\<close> defers a request for the
  resource it waits for, p1.py lines 156--162) and only \<open>sair_recurso_critico\<close> would answer
  it.  \<open>impasse_par\<close> is one direction of it.  Every step of the system preserves
  \<open>impasse\<close> (\<open>impasse_passo\<close>), so once reached neither peer ever gets the
  resource; theory \<open>Scenarios\<close> reaches it from the initial state.
\<close>

definition impasse_par :: "sistema \<Rightarrow> peer \<Rightarrow> peer \<Rightarrow> resource \<Rightarrow> bool" where
  "impasse_par S i j r \<longleftrightarrow>
     esperando_recurso (procs S i) = Some r \<and> \<not> recurso_ocupado (procs S i) \<and> ui S i = UiPronta \<and>
     (case respostas_esperadas (procs S i) r of None \<Rightarrow> False | Some X \<Rightarrow> j \<in> X) \<and>
     (\<forall>(d, m) \<in># rede S. \<not> (d = i \<and> tipo m = ''ack'' \<and> id_msg m = j)) \<and>
     (\<forall>(d, m) \<in># rede S. \<not> (d = j \<and> tipo m = ''requisicao'' \<and> id_msg m = i))"


definition impasse :: "sistema \<Rightarrow> peer \<Rightarrow> peer \<Rightarrow> resource \<Rightarrow> bool" where
  "impasse S i j r \<longleftrightarrow> i \<noteq> j \<and> impasse_par S i j r \<and> impasse_par S j i r"


definition abandonado :: "sistema \<Rightarrow> peer \<Rightarrow> peer \<Rightarrow> resource \<Rightarrow> bool" where
  "abandonado S i j r \<longleftrightarrow>
     impasse_par S i j r \<and> (\<forall>m \<in> set (fila_recurso (procs S j)). id_msg m \<noteq> i)"

definition inofensiva :: "peer \<Rightarrow> peer \<Rightarrow> peer \<times> msg \<Rightarrow> bool" where
  "inofensiva i j a \<longleftrightarrow> \<not> (fst a = i \<and> tipo (snd a) = ''ack'' \<and> id_msg (snd a) = j) \<and>
     \<not> (fst a = j \<and> tipo (snd a) = ''requisicao'' \<and> id_msg (snd a) = i)"


lemma impasse_bloqueado: "impasse_par S i j r \<Longrightarrow> bloqueado (procs S i)"
  by (simp add: impasse_par_def bloqueado_def)


lemma processar_saida:
  assumes "processar_mensagem c m s = (s', out)" and "(d, m') \<in> set out"
  shows "id_msg m' = id_processo c \<and> tipo m' = ''ack'' \<and> d = id_msg m \<and> tipo m = ''requisicao''"
  using assms by (auto simp: processar_mensagem_def Let_def split: if_splits option.splits)


lemma impasse_par_frame:
  assumes "impasse_par S i j r"
    and "esperando_recurso (procs S' i) = esperando_recurso (procs S i)"
    and "recurso_ocupado (procs S' i) = recurso_ocupado (procs S i)"
    and "ui S' i = ui S i"
    and "\<And>X. respostas_esperadas (procs S i) r = Some X \<Longrightarrow> j \<in> X \<Longrightarrow>
           \<exists>Y. respostas_esperadas (procs S' i) r = Some Y \<and> j \<in> Y"
    and "\<And>a. a \<in># rede S' \<Longrightarrow> a \<in># rede S \<or> inofensiva i j a"
  shows "impasse_par S' i j r"
proof -
  obtain X where X: "respostas_esperadas (procs S i) r = Some X" "j \<in> X"
    using assms(1) by (auto simp: impasse_par_def split: option.splits)
  then obtain Y where "respostas_esperadas (procs S' i) r = Some Y" "j \<in> Y" using assms(5) by blast
  moreover have "\<forall>(d, m) \<in># rede S'. \<not> (d = i \<and> tipo m = ''ack'' \<and> id_msg m = j)"
    and "\<forall>(d, m) \<in># rede S'. \<not> (d = j \<and> tipo m = ''requisicao'' \<and> id_msg m = i)"
    using assms(1,6) unfolding impasse_par_def inofensiva_def by fastforce+
  ultimately show ?thesis using assms(1-4) by (simp add: impasse_par_def)
qed


lemma sair_saida:
  assumes "sair_recurso_critico c r s = (s', out)" and "(d, m') \<in> set out"
  shows "id_msg m' = id_processo c \<and> tipo m' = ''ack''"
  using assms by (auto simp: sair_recurso_critico_def drenar_fila_eq split: if_splits)


lemma processar_preserva:
  assumes "processar_mensagem c m s = (s', out)" and "\<not> (tipo m = ''ack'' \<and> id_msg m = j)"
  shows "esperando_recurso s' = esperando_recurso s \<and> recurso_ocupado s' = recurso_ocupado s \<and>
    (\<forall>X. respostas_esperadas s r = Some X \<longrightarrow> j \<in> X \<longrightarrow>
       (\<exists>Y. respostas_esperadas s' r = Some Y \<and> j \<in> Y))"
  using assms by (auto simp: processar_mensagem_def Let_def split: if_splits option.splits)


lemma rede_entregar_mem:
  "a \<in># rede (atualiza (S\<lparr>rede := rede S - {#x#}\<rparr>) p s' out) \<Longrightarrow> a \<in># rede S \<or> a \<in> set out"
  by (auto simp: atualiza_def dest: in_diffD)


lemma rede_atualiza_mem:
  "a \<in># rede (atualiza S p s' out) \<Longrightarrow> a \<in># rede S \<or> a \<in> set out"
  by (auto simp: atualiza_def)


lemma entrar_saida:
  assumes "entrar_recurso_critico c r e s = Requisitou (s', out)" and "(d, m) \<in> set out"
  shows "tipo m = ''requisicao'' \<and> id_msg m = id_processo c"
  using assms multicast_requisicao_out[of c r "s\<lparr>esperando_recurso := Some r\<rparr>"]
  by (auto simp: entrar_recurso_critico_def split: if_splits)



lemma sair_destinos:
  assumes "sair_recurso_critico c r s = (s', out)" and "(d, m') \<in> set out"
  shows "d \<in> id_msg ` set (fila_recurso s)"
  using assms by (auto simp: sair_recurso_critico_def drenar_fila_eq split: if_splits)

lemma saida_entrar_inofensiva:
  "entrar_recurso_critico (cfg_de ps p) r e s = Requisitou (s', out) \<Longrightarrow> p \<noteq> i \<Longrightarrow>
     a \<in> set out \<Longrightarrow> inofensiva i j a"
  by (cases a) (force simp: inofensiva_def cfg_de_def dest: entrar_saida)

lemma saida_sair_inofensiva:
  assumes "sair_recurso_critico (cfg_de ps p) r s = (s', out)"
    and "p = j \<Longrightarrow> (\<forall>m \<in> set (fila_recurso s). id_msg m \<noteq> i)" and "a \<in> set out"
  shows "inofensiva i j a"
proof -
  obtain d m' where a: "a = (d, m')" by (cases a)
  then have "p = j \<Longrightarrow> d \<noteq> i" using assms sair_destinos[OF assms(1)] by auto
  then show ?thesis using sair_saida[OF assms(1)] assms(3) a by (auto simp: inofensiva_def cfg_de_def)
qed

lemma saida_processar_inofensiva:
  assumes "processar_mensagem (cfg_de ps p) m s = (s', out)"
    and "\<not> (p = j \<and> tipo m = ''requisicao'' \<and> id_msg m = i)" and "a \<in> set out"
  shows "inofensiva i j a"
proof -
  obtain d m' where a: "a = (d, m')" by (cases a)
  then show ?thesis using processar_saida[OF assms(1)] assms(2,3) by (auto simp: inofensiva_def cfg_de_def)
qed

text \<open>One direction of the mutual wait survives every step as long as \<open>j\<close> is blocked too
  or does not hold a request of \<open>i\<close> in its queue: then nothing can ever send \<open>i\<close> the
  missing acknowledgement.\<close>

lemma impasse_par_passo:
  assumes "passo ps S S'" and "impasse_par S i j r"
    and "bloqueado (procs S j) \<or> (\<forall>m \<in> set (fila_recurso (procs S j)). id_msg m \<noteq> i)"
  shows "impasse_par S' i j r"
  using assms(1)
proof cases
  case (solicitar p r' escolha s' out)
  then have "p \<noteq> i" using impasse_bloqueado[OF assms(2)] by auto
  then show ?thesis using solicitar saida_entrar_inofensiva[OF solicitar(5)]
    by - (rule impasse_par_frame[OF assms(2)], auto dest: rede_atualiza_mem)
next
  case (aguardar p r' escolha)
  then have "p \<noteq> i" using impasse_bloqueado[OF assms(2)] by auto
  then show ?thesis using aguardar by - (rule impasse_par_frame[OF assms(2)], auto)
next
  case (retomar p r' escolha s' out)
  then have "p \<noteq> i" using assms(2) by (auto simp: impasse_par_def)
  then show ?thesis using retomar saida_entrar_inofensiva[OF retomar(5)]
    by - (rule impasse_par_frame[OF assms(2)], auto dest: rede_atualiza_mem)
next
  case (conceder p r' s')
  have "p \<noteq> i"
  proof
    assume "p = i"
    then show False using conceder assms(2)
      by (auto simp: impasse_par_def conceder_recurso_def split: option.splits if_splits)
  qed
  then show ?thesis using conceder by - (rule impasse_par_frame[OF assms(2)], auto)
next
  case (liberar p r' s' out)
  have "p \<noteq> i" using liberar impasse_bloqueado[OF assms(2)] by auto
  moreover have "p = j \<Longrightarrow> \<forall>m \<in> set (fila_recurso (procs S p)). id_msg m \<noteq> i"
    using assms(3) liberar(4) by auto
  then have "\<And>a. a \<in> set out \<Longrightarrow> inofensiva i j a" by (rule saida_sair_inofensiva[OF liberar(5)])
  ultimately show ?thesis using liberar
    by - (rule impasse_par_frame[OF assms(2)], auto dest: rede_atualiza_mem)
next
  case (entregar p m s' out)
  have "\<not> (p = j \<and> tipo m = ''requisicao'' \<and> id_msg m = i)"
    using assms(2) entregar(2) by (auto simp: impasse_par_def)
  then have "\<And>a. a \<in> set out \<Longrightarrow> inofensiva i j a" by (rule saida_processar_inofensiva[OF entregar(3)])
  then have rede: "\<And>a. a \<in># rede S' \<Longrightarrow> a \<in># rede S \<or> inofensiva i j a"
    using entregar(1) by (blast dest: rede_entregar_mem)
  show ?thesis
  proof (cases "p = i")
    case True
    have "\<not> (tipo m = ''ack'' \<and> id_msg m = j)"
      using assms(2) entregar(2) True by (auto simp: impasse_par_def)
    from processar_preserva[OF entregar(3) this, of r] show ?thesis using True entregar(1) rede
      by - (rule impasse_par_frame[OF assms(2)], auto)
  next
    case False
    then show ?thesis using entregar(1) rede by - (rule impasse_par_frame[OF assms(2)], auto)
  qed
next
  case (perder x)
  then show ?thesis by - (rule impasse_par_frame[OF assms(2)], auto dest: in_diffD)
qed

theorem impasse_passo: "passo ps S S' \<Longrightarrow> impasse S i j r \<Longrightarrow> impasse S' i j r"
  unfolding impasse_def using impasse_par_passo impasse_bloqueado by blast

lemma impasse_rtranclp: "(passo ps)\<^sup>*\<^sup>* S S' \<Longrightarrow> impasse S i j r \<Longrightarrow> impasse S' i j r"
  by (induction rule: rtranclp_induct) (auto intro: impasse_passo)

lemma impasse_permanente:
  assumes "(passo ps)\<^sup>*\<^sup>* S S'" and "impasse S i j r"
  shows "bloqueado (procs S' i) \<and> bloqueado (procs S' j)"
  using impasse_rtranclp[OF assms] by (auto simp: impasse_def intro: impasse_bloqueado)

subsection \<open>Waiting for an acknowledgement that was already spent\<close>

text \<open>\<open>abandonado S i j r\<close>: \<open>i\<close> waits for \<open>j\<close>'s acknowledgement for \<open>r\<close>, none is
  in flight, \<open>i\<close>'s request is neither in flight to \<open>j\<close> nor in \<open>j\<close>'s queue.  This is
  where a request for a resource other than the one \<open>j\<close> held ends up after \<open>j\<close>'s
  release answered it with an acknowledgement for the released resource.\<close>

lemma processar_fila:
  "processar_mensagem c m s = (s', out) \<Longrightarrow>
     fila_recurso s' = fila_recurso s \<or> (fila_recurso s' = fila_recurso s @ [m] \<and> tipo m = ''requisicao'')"
  by (auto simp: processar_mensagem_def Let_def split: if_splits option.splits)

lemma sair_fila:
  "sair_recurso_critico c r s = (s', out) \<Longrightarrow> fila_recurso s' = [] \<or> fila_recurso s' = fila_recurso s"
  by (auto simp: sair_recurso_critico_def drenar_fila_eq split: if_splits)

lemma entrar_fila:
  "entrar_recurso_critico c r e s = Requisitou (s', out) \<Longrightarrow> fila_recurso s' = fila_recurso s"
  by (auto simp: entrar_recurso_critico_def multicast_requisicao_def Let_def split: if_splits)

lemma conceder_fila: "conceder_recurso r s = Some s' \<Longrightarrow> fila_recurso s' = fila_recurso s"
  by (auto simp: conceder_recurso_def split: option.splits if_splits)

lemma fila_sem_pedido_passo:
  assumes "passo ps S S'" and "impasse_par S i j r"
    and "\<forall>m \<in> set (fila_recurso (procs S j)). id_msg m \<noteq> i"
  shows "\<forall>m \<in> set (fila_recurso (procs S' j)). id_msg m \<noteq> i"
  using assms(1)
proof cases
  case (entregar p m s' out)
  have "tipo m = ''requisicao'' \<Longrightarrow> p = j \<Longrightarrow> id_msg m \<noteq> i"
    using assms(2) entregar(2) by (auto simp: impasse_par_def)
  then show ?thesis using entregar(1) assms(3) processar_fila[OF entregar(3)] by auto
next
  case (liberar p r' s' out)
  then show ?thesis using assms(3) sair_fila[OF liberar(5)] by auto
next
  case (solicitar p r' e s' out)
  then show ?thesis using assms(3) entrar_fila[OF solicitar(5)] by auto
next
  case (retomar p r' e s' out)
  then show ?thesis using assms(3) entrar_fila[OF retomar(5)] by auto
next
  case (conceder p r' s')
  then show ?thesis using assms(3) conceder_fila[OF conceder(5)] by auto
qed (use assms(3) in auto)

lemma abandonado_passo: "passo ps S S' \<Longrightarrow> abandonado S i j r \<Longrightarrow> abandonado S' i j r"
  unfolding abandonado_def using impasse_par_passo fila_sem_pedido_passo by blast

lemma abandonado_permanente:
  assumes "(passo ps)\<^sup>*\<^sup>* S S'" and "abandonado S i j r"
  shows "bloqueado (procs S' i)"
proof -
  have "abandonado S' i j r"
    using assms by (induction rule: rtranclp_induct) (auto intro: abandonado_passo)
  then show ?thesis by (auto simp: abandonado_def intro: impasse_bloqueado)
qed

subsection \<open>Waiting on one's own lock\<close>

text \<open>An operator who answers ``1'' while its own peer holds a resource spins in
  \<open>while recurso_ocupado\<close> (p1.py lines 111--112); only \<open>liberar\<close>, typed in that same
  thread, could clear the flag.  No step changes that peer's thread position, flag or
  requested resource any more.\<close>

lemma processar_mantem:
  "processar_mensagem c m s = (s', out) \<Longrightarrow>
     esperando_recurso s' = esperando_recurso s \<and> recurso_ocupado s' = recurso_ocupado s"
  by (auto simp: processar_mensagem_def Let_def split: if_splits option.splits)

lemma travado_passo:
  assumes "passo ps S S'" and "ui S p = UiAguardaLiberacao r" and "recurso_ocupado (procs S p)"
  shows "ui S' p = ui S p \<and> recurso_ocupado (procs S' p) \<and>
    esperando_recurso (procs S' p) = esperando_recurso (procs S p)"
  using assms(1)
proof cases
  case (conceder q r' s')
  then show ?thesis using assms(2,3) by (auto simp: bloqueado_def)
next
  case (entregar q m s' out)
  then show ?thesis using assms(2,3) processar_mantem[OF entregar(3)] by auto
qed (use assms(2,3) in \<open>auto simp: bloqueado_def\<close>)

lemma travado_rtranclp:
  assumes "(passo ps)\<^sup>*\<^sup>* S S'" and "ui S p = UiAguardaLiberacao r" and "recurso_ocupado (procs S p)"
  shows "ui S' p = UiAguardaLiberacao r \<and> recurso_ocupado (procs S' p) \<and>
    esperando_recurso (procs S' p) = esperando_recurso (procs S p)"
  using assms(1)
proof (induction rule: rtranclp_induct)
  case base
  then show ?case using assms(2,3) by simp
next
  case (step T T')
  then show ?case using travado_passo[of ps T T' p r] by simp
qed

end
