(* ===== verification/Scenarios.thy ===== *)
theory Scenarios
  imports Invariants Liveness
begin

text \<open>
  Concrete runs of three peers \<open>p1\<close>, \<open>p2\<close>, \<open>p3\<close> (the \<open>PROCESSOS\<close> of the source),
  as lists of events executed by \<open>executar\<close> from the initial state.  \<open>cenario_spec\<close> is
  the run the specification describes: \<open>p1\<close> requests \<open>r1\<close>, gets both
  acknowledgements and enters; \<open>p2\<close> then requests \<open>r1\<close> and is deferred by \<open>p1\<close>;
  \<open>p1\<close> releases and \<open>p2\<close> enters.  \<open>cenario_impasse\<close> is two concurrent requests
  for the same resource: \<open>p3\<close> acknowledges both, \<open>p1\<close> and \<open>p2\<close> each defer the
  other, and the network is left empty.  The timestamps in the events are the ones the clocks
  produce, which the evaluation checks.
\<close>

definition ps3 :: "peer list" where "ps3 = [''p1'', ''p2'', ''p3'']"

definition cenario_spec :: "evento list" where
  "cenario_spec =
     [Solicitar ''p1'' ''r1'' '''',
      Entregar ''p2'' (requisicao ''r1'' 1 ''p1''),
      Entregar ''p3'' (requisicao ''r1'' 1 ''p1''),
      Entregar ''p1'' (ack_msg ''r1'' 3 ''p2''),
      Entregar ''p1'' (ack_msg ''r1'' 3 ''p3''),
      Conceder ''p1'',
      Solicitar ''p2'' ''r1'' '''',
      Entregar ''p3'' (requisicao ''r1'' 4 ''p2''),
      Entregar ''p1'' (requisicao ''r1'' 4 ''p2''),
      Liberar ''p1'' ''r1'',
      Entregar ''p2'' (ack_msg ''r1'' 6 ''p3''),
      Entregar ''p2'' (ack_msg ''r1'' 7 ''p1''),
      Conceder ''p2'']"

definition cenario_impasse :: "evento list" where
  "cenario_impasse =
     [Solicitar ''p1'' ''r1'' '''',
      Solicitar ''p2'' ''r1'' '''',
      Entregar ''p3'' (requisicao ''r1'' 1 ''p1''),
      Entregar ''p3'' (requisicao ''r1'' 1 ''p2''),
      Entregar ''p1'' (ack_msg ''r1'' 3 ''p3''),
      Entregar ''p2'' (ack_msg ''r1'' 5 ''p3''),
      Entregar ''p1'' (requisicao ''r1'' 1 ''p2''),
      Entregar ''p2'' (requisicao ''r1'' 1 ''p1'')]"

definition cenario_recurso_errado :: "evento list" where
  "cenario_recurso_errado =
     [Solicitar ''p1'' ''r1'' '''',
      Entregar ''p2'' (requisicao ''r1'' 1 ''p1''),
      Entregar ''p3'' (requisicao ''r1'' 1 ''p1''),
      Entregar ''p1'' (ack_msg ''r1'' 3 ''p2''),
      Entregar ''p1'' (ack_msg ''r1'' 3 ''p3''),
      Conceder ''p1'',
      Solicitar ''p2'' ''r2'' '''',
      Entregar ''p3'' (requisicao ''r2'' 4 ''p2''),
      Entregar ''p1'' (requisicao ''r2'' 4 ''p2''),
      Liberar ''p1'' ''r1'',
      Entregar ''p2'' (ack_msg ''r2'' 6 ''p3''),
      Entregar ''p2'' (ack_msg ''r1'' 7 ''p1'')]"

lemmas executar_simps = ps3_def sistema_inicial_def estado_inicial_def cfg_de_def
  entrar_recurso_critico_def multicast_requisicao_def Let_def enviar_mensagem_def
  processar_mensagem_def atualizar_relogio_def atualiza_def bloqueado_def conceder_recurso_def
  detem_def msg_defs sair_recurso_critico_def drenar_fila_eq insert_Diff_if

lemma cenario_spec_concede:
  "\<exists>S. executar ps3 (take 6 cenario_spec) sistema_inicial = Some S \<and> detem (procs S ''p1'') ''r1''"
  by (simp add: cenario_spec_def executar_simps)

lemma cenario_impasse_atinge:
  "\<exists>S. executar ps3 cenario_impasse sistema_inicial = Some S \<and> impasse S ''p1'' ''p2'' ''r1''"
  by (simp add: cenario_impasse_def executar_simps impasse_def impasse_par_def)

lemma cenario_travado_atinge:
  "\<exists>S. executar ps3 (take 6 cenario_spec @ [Solicitar ''p1'' ''r2'' ''1'']) sistema_inicial = Some S \<and>
     ui S ''p1'' = UiAguardaLiberacao ''r2'' \<and> detem (procs S ''p1'') ''r1''"
  by (simp add: cenario_spec_def executar_simps)

lemma cenario_recurso_errado_atinge:
  "\<exists>S. executar ps3 cenario_recurso_errado sistema_inicial = Some S \<and>
     abandonado S ''p2'' ''p1'' ''r2'' \<and> \<not> recurso_ocupado (procs S ''p1'') \<and>
     \<not> recurso_ocupado (procs S ''p3'') \<and> rede S = {#}"
  by (simp add: cenario_recurso_errado_def executar_simps abandonado_def impasse_par_def)

lemma executar_inicial_alcancavel:
  "executar ps es sistema_inicial = Some S \<Longrightarrow> alcancavel ps S"
  by (rule executar_alcancavel[OF alcancavel.inicio])

theorem exclusao_mutua_exemplo:
  "\<exists>S. executar ps3 (take 6 cenario_spec) sistema_inicial = Some S \<and> alcancavel ps3 S \<and>
     detem (procs S ''p1'') ''r1'' \<and> ''p1'' = (''p1'' :: peer)"
proof -
  obtain S where E: "executar ps3 (take 6 cenario_spec) sistema_inicial = Some S"
    and D: "detem (procs S ''p1'') ''r1''"
    using cenario_spec_concede by blast
  have A: "alcancavel ps3 S" using E by (rule executar_inicial_alcancavel)
  have "''p1'' = (''p1'' :: peer)" using exclusao_mutua[OF A _ D D] by (simp add: ps3_def)
  then show ?thesis using E A D by blast
qed

text \<open>C4: Two concurrent requests for the same resource deadlock: the run
  \<open>cenario_impasse\<close> reaches a state from which, whatever the peers and the network do
  afterwards, \<open>p1\<close> and \<open>p2\<close> stay forever in the acknowledgement loop of
  \<open>entrar_recurso_critico\<close>, neither ever getting \<open>r1\<close>.\<close>

theorem impasse_concorrente:
  "\<exists>S. executar ps3 cenario_impasse sistema_inicial = Some S \<and> alcancavel ps3 S \<and>
     (\<forall>S'. (passo ps3)\<^sup>*\<^sup>* S S' \<longrightarrow>
        bloqueado (procs S' ''p1'') \<and> bloqueado (procs S' ''p2''))"
  using cenario_impasse_atinge executar_inicial_alcancavel impasse_permanente by blast

theorem impasse_concorrente_exemplo:
  "\<exists>S. executar ps3 cenario_impasse sistema_inicial = Some S \<and>
     bloqueado (procs S ''p1'') \<and> bloqueado (procs S ''p2'')"
  using impasse_concorrente by blast

text \<open>C9: An operator who asks for another resource while its peer holds one, and chooses to
  wait, deadlocks its own peer: \<open>p1\<close> holds \<open>r1\<close> and waits for \<open>r2\<close>; from then on,
  whatever happens, \<open>p1\<close> keeps \<open>r1\<close> and its operator thread stays in the wait loop, so
  \<open>r1\<close> is never released.\<close>

theorem espera_propria_permanente:
  "\<exists>S. executar ps3 (take 6 cenario_spec @ [Solicitar ''p1'' ''r2'' ''1'']) sistema_inicial = Some S \<and>
     alcancavel ps3 S \<and>
     (\<forall>S'. (passo ps3)\<^sup>*\<^sup>* S S' \<longrightarrow>
        detem (procs S' ''p1'') ''r1'' \<and> ui S' ''p1'' = UiAguardaLiberacao ''r2'')"
proof -
  obtain S where E: "executar ps3 (take 6 cenario_spec @ [Solicitar ''p1'' ''r2'' ''1'']) sistema_inicial = Some S"
    and U: "ui S ''p1'' = UiAguardaLiberacao ''r2''" and D: "detem (procs S ''p1'') ''r1''"
    using cenario_travado_atinge by blast
  have "\<forall>S'. (passo ps3)\<^sup>*\<^sup>* S S' \<longrightarrow>
      detem (procs S' ''p1'') ''r1'' \<and> ui S' ''p1'' = UiAguardaLiberacao ''r2''"
    using travado_rtranclp[of ps3 S _ "''p1''" "''r2''"] U D by (auto simp: detem_def)
  then show ?thesis using E executar_inicial_alcancavel[OF E] by blast
qed

theorem espera_propria_permanente_exemplo:
  "\<exists>S. executar ps3 (take 6 cenario_spec @ [Solicitar ''p1'' ''r2'' ''1'']) sistema_inicial = Some S \<and>
     detem (procs S ''p1'') ''r1'' \<and> ui S ''p1'' = UiAguardaLiberacao ''r2''"
  using espera_propria_permanente by blast

text \<open>C8: A request for another resource, deferred while the peer held its resource, starves:
  \<open>p1\<close> holds \<open>r1\<close> and queues \<open>p2\<close>'s request for \<open>r2\<close>; its release answers it
  with an acknowledgement for \<open>r1\<close>, which \<open>p2\<close> ignores.  In the state reached nobody
  holds anything and no message is in flight, yet \<open>p2\<close> stays in the acknowledgement loop
  for \<open>r2\<close> whatever happens next.\<close>

theorem recurso_errado_permanente:
  "\<exists>S. executar ps3 cenario_recurso_errado sistema_inicial = Some S \<and> alcancavel ps3 S \<and>
     \<not> recurso_ocupado (procs S ''p1'') \<and> \<not> recurso_ocupado (procs S ''p3'') \<and> rede S = {#} \<and>
     (\<forall>S'. (passo ps3)\<^sup>*\<^sup>* S S' \<longrightarrow> bloqueado (procs S' ''p2''))"
  using cenario_recurso_errado_atinge executar_inicial_alcancavel abandonado_permanente by blast

theorem recurso_errado_permanente_exemplo:
  "\<exists>S. executar ps3 cenario_recurso_errado sistema_inicial = Some S \<and> rede S = {#} \<and>
     bloqueado (procs S ''p2'')"
  using recurso_errado_permanente by blast

end
