(* ===== verification/Refinement.thy ===== *)
theory Refinement
  imports Scenarios
begin

text \<open>
  The per-resource life cycle the specification gives each peer (section 4.3): a resource is
  \<open>Idle\<close>, \<open>Requesting\<close> or \<open>Held\<close>, and moves only
  \<open>Idle \<rightarrow> Requesting \<rightarrow> Held \<rightarrow> Idle\<close>.  In \<^verbatim>\<open>src/p1.py\<close> that state is not
  stored per resource: it is read off the two globals \<open>esperando_recurso\<close> and
  \<open>recurso_ocupado\<close> (\<open>estado_de\<close>).  Every step of a reachable system moves each
  peer's view of each resource along an edge of the life cycle or leaves it alone, so the
  globals implement the abstract machine; and every step keeps each peer's Lamport clock or
  advances it.
\<close>

datatype estado_recurso = Idle | Requesting | Held

definition estado_de :: "pstate \<Rightarrow> resource \<Rightarrow> estado_recurso" where
  "estado_de s r =
     (if esperando_recurso s = Some r then (if recurso_ocupado s then Held else Requesting) else Idle)"

fun transicao_permitida :: "estado_recurso \<Rightarrow> estado_recurso \<Rightarrow> bool" where
  "transicao_permitida Idle Requesting = True"
| "transicao_permitida Requesting Held = True"
| "transicao_permitida Held Idle = True"
| "transicao_permitida a b = (a = b)"

lemma transicao_permitida_refl [simp]: "transicao_permitida a a"
  by (cases a) simp_all

lemma estado_de_cong:
  "esperando_recurso s' = esperando_recurso s \<Longrightarrow> recurso_ocupado s' = recurso_ocupado s \<Longrightarrow>
     estado_de s' r = estado_de s r"
  by (simp add: estado_de_def)

lemma sair_estado:
  assumes "sair_recurso_critico c r s = (s', out)"
  shows "(recurso_ocupado s \<and> esperando_recurso s = Some r \<and>
          \<not> recurso_ocupado s' \<and> esperando_recurso s' = None) \<or> s' = s"
  using assms by (auto simp: sair_recurso_critico_def drenar_fila_eq split: if_splits)

lemma passo_relogio_peer:
  assumes "passo ps S S'"
  shows "relogio_local (procs S p) \<le> relogio_local (procs S' p)"
  using assms
proof cases
  case (solicitar q r e s' out)
  then show ?thesis using entrar_Requisitou[OF solicitar(5)] by auto
next
  case (retomar q r e s' out)
  then show ?thesis using entrar_Requisitou[OF retomar(5)] by auto
next
  case (conceder q r s')
  then show ?thesis by (auto simp: conceder_recurso_def split: option.splits if_splits)
next
  case (liberar q r s' out)
  then show ?thesis
    by (auto simp: sair_recurso_critico_def drenar_fila_eq split: if_splits)
next
  case (entregar q m s' out)
  have "relogio_local (procs S q) < atualizar_relogio (relogio_local (procs S q)) (timestamp m)"
    by (rule atualizar_relogio_gt_clock)
  then show ?thesis using entregar
    by (auto simp: processar_mensagem_def Let_def split: if_splits option.splits)
qed auto

lemma executar_rtranclp: "executar ps es S = Some S' \<Longrightarrow> (passo ps)\<^sup>*\<^sup>* S S'"
proof (induction es arbitrary: S)
  case Nil
  then show ?case by simp
next
  case (Cons e es)
  then obtain S1 where e: "passo_exec ps e S = Some S1" and r: "executar ps es S1 = Some S'"
    by (auto split: option.splits)
  have "(passo ps)\<^sup>*\<^sup>* S S1" using passo_exec_passo[OF e] by auto
  then show ?case using Cons.IH[OF r] by simp
qed

lemma solicitar_inicial:
  "\<exists>S'. passo_exec ps3 (Solicitar ''p1'' ''r1'' '''') sistema_inicial = Some S' \<and>
     estado_de (procs S' ''p1'') ''r1'' = Requesting"
  by (simp add: executar_simps estado_de_def)

lemma relogio_cenario_spec:
  "\<exists>S'. executar ps3 cenario_spec sistema_inicial = Some S' \<and> relogio_local (procs S' ''p1'') = 7"
  by (simp add: cenario_spec_def executar_simps)

text \<open>C7: Refinement of the specification's life cycle: in every reachable state, each step
  moves each peer's state for each resource, as the globals \<open>esperando_recurso\<close> and
  \<open>recurso_ocupado\<close> encode it, along \<open>Idle \<rightarrow> Requesting \<rightarrow> Held \<rightarrow> Idle\<close>
  or leaves it unchanged.\<close>

theorem passo_refina_ciclo:
  assumes "alcancavel ps S" and "distinct ps" and "passo ps S S'"
  shows "transicao_permitida (estado_de (procs S p) r) (estado_de (procs S' p) r)"
  using assms(3)
proof cases
  case (solicitar q r' e s' out)
  show ?thesis
  proof (cases "q = p")
    case True
    have "esperando_recurso (procs S p) = None"
      using solicitar(4) entrar_Requisitou[OF solicitar(5)] True by (auto simp: bloqueado_def)
    then show ?thesis using solicitar(1) entrar_Requisitou[OF solicitar(5)] True
      by (auto simp: estado_de_def)
  qed (use solicitar(1) in simp)
next
  case (retomar q r' e s' out)
  then have "q \<noteq> p"
    using inv_retomar_impossivel[OF alcancavel_inv[OF assms(1,2)]] by blast
  then show ?thesis using retomar(1) by simp
next
  case (conceder q r' s')
  show ?thesis
  proof (cases "q = p")
    case True
    then show ?thesis using conceder
      by (auto simp: estado_de_def bloqueado_def conceder_recurso_def split: option.splits if_splits)
  qed (use conceder(1) in simp)
next
  case (liberar q r' s' out)
  show ?thesis
  proof (cases "q = p")
    case True
    then show ?thesis using liberar(1) sair_estado[OF liberar(5)]
      by (auto simp: estado_de_def)
  qed (use liberar(1) in simp)
next
  case (entregar q m s' out)
  then show ?thesis using processar_mantem[OF entregar(3)] estado_de_cong[of s' "procs S q"]
    by (cases "q = p") auto
qed auto

text \<open>C27: Along any run, each peer's Lamport clock never goes back.\<close>

theorem relogio_nunca_recua:
  assumes "(passo ps)\<^sup>*\<^sup>* S S'"
  shows "relogio_local (procs S p) \<le> relogio_local (procs S' p)"
  using assms
proof (induction rule: rtranclp_induct)
  case (step T T')
  then show ?case using passo_relogio_peer[OF step(2), of p] by simp
qed simp

theorem passo_refina_ciclo_exemplo:
  "\<exists>S'. alcancavel ps3 sistema_inicial \<and> distinct ps3 \<and> passo ps3 sistema_inicial S' \<and>
     estado_de (procs sistema_inicial ''p1'') ''r1'' = Idle \<and>
     estado_de (procs S' ''p1'') ''r1'' = Requesting \<and> transicao_permitida Idle Requesting"
proof -
  obtain S' where E: "passo_exec ps3 (Solicitar ''p1'' ''r1'' '''') sistema_inicial = Some S'"
    and R: "estado_de (procs S' ''p1'') ''r1'' = Requesting"
    using solicitar_inicial by blast
  have I: "estado_de (procs sistema_inicial ''p1'') ''r1'' = Idle"
    by (simp add: sistema_inicial_def estado_inicial_def estado_de_def)
  have P: "passo ps3 sistema_inicial S'" using passo_exec_passo[OF E] R I by auto
  have D: "distinct ps3" by (simp add: ps3_def)
  have "transicao_permitida Idle Requesting"
    using passo_refina_ciclo[OF alcancavel.inicio D P, of "''p1''" "''r1''"] R I by simp
  then show ?thesis using alcancavel.inicio D P I R by blast
qed

theorem relogio_nunca_recua_exemplo:
  "\<exists>S'. (passo ps3)\<^sup>*\<^sup>* sistema_inicial S' \<and> relogio_local (procs sistema_inicial ''p1'') = 0 \<and>
     relogio_local (procs S' ''p1'') = 7 \<and> (0::int) \<le> 7"
proof -
  obtain S' where E: "executar ps3 cenario_spec sistema_inicial = Some S'"
    and R: "relogio_local (procs S' ''p1'') = 7"
    using relogio_cenario_spec by blast
  have T: "(passo ps3)\<^sup>*\<^sup>* sistema_inicial S'" by (rule executar_rtranclp[OF E])
  have Z: "relogio_local (procs sistema_inicial ''p1'') = 0"
    by (simp add: sistema_inicial_def estado_inicial_def)
  have "(0::int) \<le> 7" using relogio_nunca_recua[OF T, of "''p1''"] Z R by simp
  then show ?thesis using T Z R by blast
qed

end
