(* ===== verification/Lamport.thy ===== *)
theory Lamport
  imports Refinement
begin

text \<open>
  Lamport's clock condition for sends: every message a peer sends carries its sender's
  name and a timestamp no greater than the sender's clock after the send, and clocks never
  go back (theory \<open>Refinement\<close>).  So in every reachable state of a system of p1.py peers,
  each message in flight is stamped at most with its sender's current clock: a receiver
  that observes it moves past a value its sender has already reached.
\<close>

definition carimbos_validos :: "sistema \<Rightarrow> bool" where
  "carimbos_validos S \<longleftrightarrow> (\<forall>x \<in># rede S. timestamp (snd x) \<le> relogio_local (procs S (id_msg (snd x))))"

definition saida_carimbada :: "peer \<Rightarrow> pstate \<Rightarrow> outbox \<Rightarrow> bool" where
  "saida_carimbada p s' out \<longleftrightarrow> list_all (\<lambda>(d, m). timestamp m \<le> relogio_local s' \<and> id_msg m = p) out"

lemma entrar_carimbada:
  "entrar_recurso_critico (cfg_de ps p) r e s = Requisitou (s', out) \<Longrightarrow> saida_carimbada p s' out"
  by (drule entrar_Requisitou) (auto simp: saida_carimbada_def list_all_iff cfg_de_def)

lemma sair_carimbada:
  assumes "sair_recurso_critico (cfg_de ps p) r s = (s', out)"
  shows "saida_carimbada p s' out"
  using assms
  by (auto simp: saida_carimbada_def list_all_iff sair_recurso_critico_def drenar_fila_eq cfg_de_def
      split: if_splits)

lemma processar_carimbada:
  assumes "processar_mensagem (cfg_de ps p) m s = (s', out)"
  shows "saida_carimbada p s' out"
  using assms
  by (auto simp: saida_carimbada_def processar_mensagem_def Let_def cfg_de_def
      split: if_splits option.splits)

lemma carimbos_atualiza:
  assumes I: "carimbos_validos S" and P: "passo ps S S'"
    and R: "rede S' \<subseteq># rede S + mset out" and Q: "procs S' p = s'" and O: "saida_carimbada p s' out"
  shows "carimbos_validos S'"
  unfolding carimbos_validos_def
proof
  fix x assume x: "x \<in># rede S'"
  then have "x \<in># rede S \<or> x \<in> set out" using R by (auto dest: mset_subset_eqD)
  then show "timestamp (snd x) \<le> relogio_local (procs S' (id_msg (snd x)))"
  proof
    assume "x \<in># rede S"
    then have "timestamp (snd x) \<le> relogio_local (procs S (id_msg (snd x)))"
      using I by (simp add: carimbos_validos_def)
    then show ?thesis using passo_relogio_peer[OF P, of "id_msg (snd x)"] by linarith
  next
    assume "x \<in> set out"
    then show ?thesis using O Q by (cases x) (auto simp: saida_carimbada_def list_all_iff)
  qed
qed

lemma carimbos_passo:
  assumes P: "passo ps S S'" and I: "carimbos_validos S"
  shows "carimbos_validos S'"
  using P
proof cases
  case (solicitar p r e s' out)
  then show ?thesis
    by (intro carimbos_atualiza[OF I P, of out p s']) (auto simp: entrar_carimbada)
next
  case (retomar p r e s' out)
  then show ?thesis
    by (intro carimbos_atualiza[OF I P, of out p s']) (auto simp: entrar_carimbada)
next
  case (conceder p r s')
  then show ?thesis
    by (intro carimbos_atualiza[OF I P, of "[]" p s']) (auto simp: saida_carimbada_def)
next
  case (liberar p r s' out)
  then show ?thesis
    by (intro carimbos_atualiza[OF I P, of out p s']) (auto simp: sair_carimbada)
next
  case (entregar p m s' out)
  then show ?thesis
    by (intro carimbos_atualiza[OF I P, of out p s'])
      (auto simp: processar_carimbada subset_mset.add_right_mono)
qed (use I P in \<open>auto simp: carimbos_validos_def dest: in_diffD\<close>)

lemma alcancavel_carimbos: "alcancavel ps S \<Longrightarrow> carimbos_validos S"
proof (induction rule: alcancavel.induct)
  case inicio
  then show ?case by (simp add: carimbos_validos_def sistema_inicial_def)
next
  case (passo S S')
  then show ?case using carimbos_passo by blast
qed

text \<open>C28: Lamport's clock condition: in every reachable state of a system of p1.py peers,
  every message in flight carries a timestamp no greater than its sender's current clock.\<close>

theorem carimbos_em_voo:
  assumes "alcancavel ps S" and "(d, m) \<in># rede S"
  shows "timestamp m \<le> relogio_local (procs S (id_msg m))"
  using alcancavel_carimbos[OF assms(1)] assms(2) unfolding carimbos_validos_def by fastforce

lemma solicitar_em_voo:
  "\<exists>S. executar ps3 [Solicitar ''p1'' ''r1'' ''''] sistema_inicial = Some S \<and>
     (''p2'', requisicao ''r1'' 1 ''p1'') \<in># rede S \<and> relogio_local (procs S ''p1'') = 1"
  by (simp add: executar_simps)

theorem carimbos_em_voo_exemplo:
  "\<exists>S. alcancavel ps3 S \<and> (''p2'', requisicao ''r1'' 1 ''p1'') \<in># rede S \<and>
     relogio_local (procs S ''p1'') = 1 \<and> timestamp (requisicao ''r1'' 1 ''p1'') \<le> 1"
proof -
  obtain S where E: "executar ps3 [Solicitar ''p1'' ''r1'' ''''] sistema_inicial = Some S"
    and M: "(''p2'', requisicao ''r1'' 1 ''p1'') \<in># rede S" and R: "relogio_local (procs S ''p1'') = 1"
    using solicitar_em_voo by blast
  have A: "alcancavel ps3 S" using executar_alcancavel[OF alcancavel.inicio E] .
  have "timestamp (requisicao ''r1'' 1 ''p1'') \<le> 1" using carimbos_em_voo[OF A M] R by simp
  then show ?thesis using A M R by blast
qed

end
