(* ===== verification/Ausente.thy ===== *)
theory Ausente
  imports Scenarios
begin

text \<open>
  A member that never runs: a script that was not started, or a peer that is down.  Every
  request of a p1.py
  peer waits for an acknowledgement from \<^emph>\<open>every\<close> other member, and only a member's
  own handler sends an acknowledgement carrying its name.  So while one member takes no
  step, no other peer is ever granted anything, whatever the others do and whichever
  messages are lost.  \<open>ator\<close> is the peer whose thread performs an event (none for a lost
  message).
\<close>

fun ator :: "evento \<Rightarrow> peer option" where
  "ator (Solicitar p _ _) = Some p"
| "ator (Retomar p _) = Some p"
| "ator (Conceder p) = Some p"
| "ator (Liberar p _) = Some p"
| "ator (Entregar p _) = Some p"
| "ator (Perder _ _) = None"

definition sem_resposta_de :: "peer \<Rightarrow> sistema \<Rightarrow> bool" where
  "sem_resposta_de q S \<longleftrightarrow>
     (\<forall>p. p \<noteq> q \<longrightarrow> \<not> recurso_ocupado (procs S p) \<and>
        (\<forall>r ps. respostas_esperadas (procs S p) r = Some ps \<longrightarrow> q \<in> ps)) \<and>
     (\<forall>x \<in># rede S. id_msg (snd x) \<noteq> q)"

lemma sem_resposta_inicial: "sem_resposta_de q sistema_inicial"
  by (simp add: sem_resposta_de_def sistema_inicial_def estado_inicial_def)

lemma processar_sem_q:
  assumes "processar_mensagem c m s = (s', out)" and "id_msg m \<noteq> q"
    and "\<forall>r ps. respostas_esperadas s r = Some ps \<longrightarrow> q \<in> ps"
  shows "(\<forall>r ps. respostas_esperadas s' r = Some ps \<longrightarrow> q \<in> ps) \<and>
         recurso_ocupado s' = recurso_ocupado s \<and> (\<forall>x \<in> set out. id_msg (snd x) = id_processo c)"
  using assms by (auto simp: processar_mensagem_def Let_def split: if_splits option.splits)

lemma entrar_sem_q:
  assumes "entrar_recurso_critico (cfg_de ps p) r e s = Requisitou (s', out)" and "q \<in> set ps"
    and "p \<noteq> q" and "\<forall>r ps. respostas_esperadas s r = Some ps \<longrightarrow> q \<in> ps"
  shows "(\<forall>r ps. respostas_esperadas s' r = Some ps \<longrightarrow> q \<in> ps) \<and>
         recurso_ocupado s' = recurso_ocupado s \<and> (\<forall>x \<in> set out. id_msg (snd x) = p)"
  using entrar_Requisitou[OF assms(1)] assms(2-4) by (auto simp: cfg_de_def)

lemma sem_resposta_atualiza:
  assumes I: "sem_resposta_de q S" and "p \<noteq> q"
    and "\<forall>r ps. respostas_esperadas s' r = Some ps \<longrightarrow> q \<in> ps" and "\<not> recurso_ocupado s'"
    and "\<forall>x \<in> set out. id_msg (snd x) \<noteq> q"
  shows "sem_resposta_de q (atualiza S p s' out)"
  using assms unfolding sem_resposta_de_def by (auto dest: rede_atualiza_mem)

lemma sem_resposta_rede_sub:
  assumes "sem_resposta_de q S" and "rede S' \<subseteq># rede S" and "procs S' = procs S"
  shows "sem_resposta_de q S'"
  using assms unfolding sem_resposta_de_def by (auto dest: mset_subset_eqD)

lemma sem_resposta_passo:
  assumes I: "sem_resposta_de q S" and Q: "q \<in> set ps"
    and E: "passo_exec ps e S = Some S'" and A: "ator e \<noteq> Some q"
  shows "sem_resposta_de q S'"
proof (cases e)
  case (Solicitar p r escolha)
  show ?thesis
  proof (cases "entrar_recurso_critico (cfg_de ps p) r escolha (procs S p)")
    case (Requisitou x)
    obtain s' out where X: "x = (s', out)" by fastforce
    have pq: "p \<noteq> q" using A Solicitar by simp
    have P: "(\<forall>r ps. respostas_esperadas s' r = Some ps \<longrightarrow> q \<in> ps) \<and>
       recurso_ocupado s' = recurso_ocupado (procs S p) \<and> (\<forall>x \<in> set out. id_msg (snd x) = p)"
      using entrar_sem_q[of ps p r escolha "procs S p" s' out q, OF _ Q pq] Requisitou X I pq
      unfolding sem_resposta_de_def by blast
    have "sem_resposta_de q (atualiza S p s' out)"
      using sem_resposta_atualiza[OF I pq] P I pq unfolding sem_resposta_de_def by metis
    then show ?thesis using Solicitar Requisitou X E by (simp split: if_splits)
  qed (use Solicitar E I in \<open>auto simp: sem_resposta_de_def split: if_splits\<close>)
next
  case (Retomar p escolha)
  have pq: "p \<noteq> q" using A Retomar by simp
  show ?thesis
  proof (cases "ui S p")
    case (UiAguardaLiberacao r)
    show ?thesis
    proof (cases "entrar_recurso_critico (cfg_de ps p) r escolha (procs S p)")
      case (Requisitou x)
      obtain s' out where X: "x = (s', out)" by fastforce
      have P: "(\<forall>r ps. respostas_esperadas s' r = Some ps \<longrightarrow> q \<in> ps) \<and>
         recurso_ocupado s' = recurso_ocupado (procs S p) \<and> (\<forall>x \<in> set out. id_msg (snd x) = p)"
        using entrar_sem_q[of ps p r escolha "procs S p" s' out q, OF _ Q pq] Requisitou X I pq
        unfolding sem_resposta_de_def by blast
      have "sem_resposta_de q (atualiza S p s' out)"
        using sem_resposta_atualiza[OF I pq] P I pq unfolding sem_resposta_de_def by metis
      then have "sem_resposta_de q ((atualiza S p s' out)\<lparr>ui := (ui S)(p := UiPronta)\<rparr>)"
        by (simp add: sem_resposta_de_def)
      then show ?thesis using Retomar UiAguardaLiberacao Requisitou X E by (simp split: if_splits)
    qed (use Retomar UiAguardaLiberacao E in \<open>simp_all split: if_splits\<close>)
  qed (use Retomar E in simp)
next
  case (Conceder p)
  then show ?thesis using I E A
    by (auto simp: sem_resposta_de_def conceder_recurso_def split: if_splits option.splits)
next
  case (Liberar p r)
  then show ?thesis using I E A
    by (auto simp: sem_resposta_de_def sair_recurso_critico_def split: if_splits)
next
  case (Entregar p m)
  have pq: "p \<noteq> q" using A Entregar by simp
  obtain s' out where P: "processar_mensagem (cfg_de ps p) m (procs S p) = (s', out)" by fastforce
  have M: "(p, m) \<in># rede S" and S': "S' = atualiza (S\<lparr>rede := rede S - {#(p, m)#}\<rparr>) p s' out"
    using E Entregar P by (simp_all split: if_splits)
  have "id_msg m \<noteq> q" using I M unfolding sem_resposta_de_def by fastforce
  then have F: "(\<forall>r ps. respostas_esperadas s' r = Some ps \<longrightarrow> q \<in> ps) \<and>
         recurso_ocupado s' = recurso_ocupado (procs S p) \<and> (\<forall>x \<in> set out. id_msg (snd x) = p)"
    using processar_sem_q[OF P] I pq unfolding sem_resposta_de_def by (simp add: cfg_de_def)
  have I': "sem_resposta_de q (S\<lparr>rede := rede S - {#(p, m)#}\<rparr>)"
    by (rule sem_resposta_rede_sub[OF I]) simp_all
  show ?thesis unfolding S'
    by (rule sem_resposta_atualiza[OF I' pq]) (use F I pq in \<open>auto simp: sem_resposta_de_def\<close>)
next
  case (Perder p m)
  then have "S' = S\<lparr>rede := rede S - {#(p, m)#}\<rparr>" using E by (simp split: if_splits)
  then show ?thesis by (auto intro: sem_resposta_rede_sub[OF I])
qed

lemma executar_sem_resposta:
  "sem_resposta_de q S \<Longrightarrow> q \<in> set ps \<Longrightarrow> executar ps es S = Some S' \<Longrightarrow>
     \<forall>e \<in> set es. ator e \<noteq> Some q \<Longrightarrow> sem_resposta_de q S'"
proof (induction es arbitrary: S)
  case (Cons e es)
  then obtain S1 where E: "passo_exec ps e S = Some S1" and R: "executar ps es S1 = Some S'"
    by (auto split: option.splits)
  have "sem_resposta_de q S1" using sem_resposta_passo[OF Cons.prems(1,2) E] Cons.prems(4) by simp
  then show ?case using Cons.IH R Cons.prems(2,4) by simp
qed simp

text \<open>C11: A member that never runs blocks everybody: along any run from the initial state
  in which peer \<open>q\<close> takes no step (its messages may still be lost), no other peer ever
  holds a resource, and \<open>q\<close> stays in every pending set of every other peer.\<close>

theorem membro_ausente_bloqueia:
  assumes "q \<in> set ps" and "executar ps es sistema_inicial = Some S"
    and "\<forall>e \<in> set es. ator e \<noteq> Some q" and "p \<noteq> q"
  shows "\<not> recurso_ocupado (procs S p) \<and>
         (\<forall>r qs. respostas_esperadas (procs S p) r = Some qs \<longrightarrow> q \<in> qs)"
  using executar_sem_resposta[OF sem_resposta_inicial assms(1,2,3)] assms(4)
  unfolding sem_resposta_de_def by blast

lemma ausente_exemplo_executa:
  "\<exists>S. executar ps3 [Solicitar ''p1'' ''r1'' '''', Entregar ''p3'' (requisicao ''r1'' 1 ''p1''),
                     Entregar ''p1'' (ack_msg ''r1'' 3 ''p3'')] sistema_inicial = Some S \<and>
     respostas_esperadas (procs S ''p1'') ''r1'' = Some {''p2''} \<and> bloqueado (procs S ''p1'')"
  by (simp add: executar_simps)

theorem membro_ausente_bloqueia_exemplo:
  "\<exists>S. executar ps3 [Solicitar ''p1'' ''r1'' '''', Entregar ''p3'' (requisicao ''r1'' 1 ''p1''),
                     Entregar ''p1'' (ack_msg ''r1'' 3 ''p3'')] sistema_inicial = Some S \<and>
     ''p2'' \<in> set ps3 \<and> ator (Solicitar ''p1'' ''r1'' '''') \<noteq> Some ''p2'' \<and>
     ator (Entregar ''p3'' (requisicao ''r1'' 1 ''p1'')) \<noteq> Some ''p2'' \<and>
     ator (Entregar ''p1'' (ack_msg ''r1'' 3 ''p3'')) \<noteq> Some ''p2'' \<and>
     respostas_esperadas (procs S ''p1'') ''r1'' = Some {''p2''} \<and> bloqueado (procs S ''p1'') \<and>
     \<not> recurso_ocupado (procs S ''p1'')"
proof -
  obtain S where E: "executar ps3 [Solicitar ''p1'' ''r1'' '''', Entregar ''p3'' (requisicao ''r1'' 1 ''p1''),
                     Entregar ''p1'' (ack_msg ''r1'' 3 ''p3'')] sistema_inicial = Some S"
    and R: "respostas_esperadas (procs S ''p1'') ''r1'' = Some {''p2''}" and B: "bloqueado (procs S ''p1'')"
    using ausente_exemplo_executa by blast
  have Q: "''p2'' \<in> set ps3" by (simp add: ps3_def)
  have "\<not> recurso_ocupado (procs S ''p1'')"
    using membro_ausente_bloqueia[OF Q E, of "''p1''"] by simp
  then show ?thesis using E R B Q by simp
qed

end
