(* ===== verification/Interface.thy ===== *)
theory Interface
  imports Message
begin

text \<open>
  One round of the operator thread \<open>interface_usuario\<close> (\<^verbatim>\<open>src/p1.py\<close> lines
  200--209): the line read by \<open>input()\<close> is stripped and dispatched on its prefix.  A
  command starting with \<open>solicitar\<close> or \<open>liberar\<close> is unpacked by
  \<open>_, recurso = comando.split()\<close>, which raises \<open>ValueError\<close> unless the line has exactly
  two words; nothing catches it, so the main thread, and with it the process, ends.
  \<open>sair\<close> ends the loop; any other line is ignored.  The effect of the two commands on
  the protocol state is the step \<open>passo\<close> of theory \<open>Network\<close>, whose operator position
  also accounts for the blocking wait and for the second \<open>input()\<close> that
  \<open>entrar_recurso_critico\<close> reads from the same terminal (its parameter \<open>escolha\<close>).
  Here is the parsing, with \<open>str.strip\<close> and \<open>str.split\<close> on the ASCII whitespace
  Python recognises (space, \<open>\t \n \v \f \r\<close> and the separators 28--31).
\<close>

definition eh_espaco :: "char \<Rightarrow> bool" where
  "eh_espaco ch \<longleftrightarrow> ch = CHR '' '' \<or> (of_char ch :: nat) \<in> {9..13} \<or> (of_char ch :: nat) \<in> {28..31}"

definition strip_py :: "string \<Rightarrow> string" where
  "strip_py s = rev (dropWhile eh_espaco (rev (dropWhile eh_espaco s)))"

function split_py :: "string \<Rightarrow> string list" where
  "split_py s =
     (case dropWhile eh_espaco s of
        [] \<Rightarrow> []
      | ch # cs \<Rightarrow> takeWhile (\<lambda>x. \<not> eh_espaco x) (ch # cs) #
                   split_py (dropWhile (\<lambda>x. \<not> eh_espaco x) (ch # cs)))"
  by pat_completeness auto
termination
proof (relation "measure length")
  fix s ch cs
  assume d: "dropWhile eh_espaco s = ch # cs"
  then have "\<not> eh_espaco ch" by (metis dropWhile_eq_Cons_conv)
  then have "length (dropWhile (\<lambda>x. \<not> eh_espaco x) (ch # cs)) \<le> length cs"
    by (simp add: length_dropWhile_le)
  moreover have "length (ch # cs) \<le> length s" by (metis d length_dropWhile_le)
  ultimately show "(dropWhile (\<lambda>x. \<not> eh_espaco x) (ch # cs), s) \<in> measure length" by simp
qed simp

declare split_py.simps [simp del]

definition comeca_com :: "string \<Rightarrow> string \<Rightarrow> bool" where
  "comeca_com s p \<longleftrightarrow> take (length p) s = p"

datatype comando = CmdSolicitar resource | CmdLiberar resource | CmdSair | CmdNada

definition interpretar_comando :: "string \<Rightarrow> py_error + comando" where
  "interpretar_comando linha =
     (let comando = strip_py linha
      in if comeca_com comando ''solicitar'' then
           (case split_py comando of [_, rc] \<Rightarrow> Inr (CmdSolicitar rc) | _ \<Rightarrow> Inl ValueError)
         else if comeca_com comando ''liberar'' then
           (case split_py comando of [_, rc] \<Rightarrow> Inr (CmdLiberar rc) | _ \<Rightarrow> Inl ValueError)
         else if comando = ''sair'' then Inr CmdSair
         else Inr CmdNada)"

definition palavra :: "string \<Rightarrow> bool" where
  "palavra w \<longleftrightarrow> w \<noteq> [] \<and> (\<forall>ch \<in> set w. \<not> eh_espaco ch)"

lemma split_py_espaco: "eh_espaco ch \<Longrightarrow> split_py (ch # s) = split_py s"
  by (simp add: split_py.simps[of "ch # s"] split_py.simps[of s])

lemma split_py_palavra:
  assumes "palavra w" and "resto = [] \<or> eh_espaco (hd resto)"
  shows "split_py (w @ resto) = w # split_py resto"
proof -
  obtain ch cs where w: "w = ch # cs" using assms(1) by (cases w) (auto simp: palavra_def)
  have nw: "\<forall>x \<in> set cs. \<not> eh_espaco x" and nch: "\<not> eh_espaco ch"
    using assms(1) w by (auto simp: palavra_def)
  have T: "takeWhile (\<lambda>x. \<not> eh_espaco x) (cs @ resto) = cs"
    using nw assms(2) by (cases resto) (auto simp: takeWhile_append2)
  have D: "dropWhile (\<lambda>x. \<not> eh_espaco x) (cs @ resto) = resto"
    using nw assms(2) by (cases resto) (auto simp: dropWhile_append2)
  show ?thesis unfolding w by (subst split_py.simps) (simp add: nch T D)
qed

lemma strip_py_id:
  assumes "s \<noteq> []" and "\<not> eh_espaco (hd s)" and "\<not> eh_espaco (last s)"
  shows "strip_py s = s"
proof -
  have "dropWhile eh_espaco s = s" using assms(1,2) by (cases s) auto
  moreover have "dropWhile eh_espaco (rev s) = rev s"
    using assms(1,3) by (cases "rev s") (auto simp: last_rev[symmetric] simp del: last_rev)
  ultimately show ?thesis by (simp add: strip_py_def)
qed

lemma interpretar_comando_solicitar_vazio: "interpretar_comando ''solicitar'' = Inl ValueError"
  by (simp add: interpretar_comando_def strip_py_def eh_espaco_def comeca_com_def split_py.simps)

text \<open>C31: \<open>solicitar r\<close> with a resource name \<open>r\<close> that is one word is read as the
  command to request \<open>r\<close>.\<close>

theorem interpretar_comando_solicitar:
  assumes "palavra r"
  shows "interpretar_comando (''solicitar '' @ r) = Inr (CmdSolicitar r)"
proof -
  have sp: "eh_espaco (CHR '' '')" and ns: "\<not> eh_espaco (CHR ''s'')"
    by (simp_all add: eh_espaco_def)
  have sol: "palavra ''solicitar''" by (simp add: palavra_def eh_espaco_def)
  have "r \<noteq> []" and "\<not> eh_espaco (last r)" using assms by (auto simp: palavra_def)
  then have "strip_py (''solicitar '' @ r) = ''solicitar '' @ r" using ns
    by - (rule strip_py_id, simp_all)
  moreover have "split_py (''solicitar'' @ CHR '' '' # r) = [''solicitar'', r]"
    using split_py_palavra[OF sol, of "CHR '' '' # r"] sp split_py_espaco[OF sp, of r]
      split_py_palavra[OF assms, of "[]"]
    by (simp add: split_py.simps[of "[]"])
  ultimately show ?thesis by (simp add: interpretar_comando_def comeca_com_def)
qed

theorem interpretar_comando_solicitar_exemplo:
  "palavra ''r2'' \<and> interpretar_comando ''solicitar r2'' = Inr (CmdSolicitar ''r2'')"
  using interpretar_comando_solicitar[of "''r2''"] by (simp add: palavra_def eh_espaco_def)

end
