(* ===== verification/MensagemBruta.thy ===== *)
theory MensagemBruta
  imports Interface Process
begin

text \<open>
  p1.py's handler on the decoded object, as Python runs it.  \<open>processar_mensagem\<close> (p1.py
  lines 147--179) reads the four fields without converting them and updates the clock with
  \<open>max(relogio_local, int(timestamp_recebido)) + 1\<close> (line 55), so a timestamp sent as a
  numeric string is converted by Python's \<open>int()\<close> (\<open>int_py\<close>: surrounding whitespace
  stripped, an optional sign, decimal digits with single underscores between them;
  \<open>ValueError\<close> otherwise).  \<open>tipo\<close> is compared with \<open>''requisicao''\<close> and
  \<open>''ack''\<close> as the JSON value it is, so a \<open>tipo\<close> of another type falls through both
  tests.  The priority test \<open>(relogio_local, ID_PROCESSO) > (timestamp, remetente)\<close>
  compares an \<open>int\<close> with the raw timestamp, and raises \<open>TypeError\<close> when it is a
  string.  A queued request keeps its converted timestamp; nothing reads it again.
  \<open>str_py\<close> is Python's \<open>str()\<close> of an \<open>int\<close>, what a sender writing the timestamp as
  a string would send.  Characters are bytes here: the non-ASCII digits \<open>int()\<close> also
  accepts are out of the model.  On every object the peers send, this handler is
  \<open>processar_mensagem\<close> of theory \<open>Process\<close> (\<open>processar_mensagem_json_int\<close>).
\<close>

definition eh_digito :: "char \<Rightarrow> bool" where
  "eh_digito ch \<longleftrightarrow> 48 \<le> (of_char ch :: nat) \<and> (of_char ch :: nat) \<le> 57"

definition valor_digitos :: "string \<Rightarrow> int" where
  "valor_digitos ds = foldl (\<lambda>n ch. 10 * n + (int (of_char ch) - 48)) 0 ds"

fun sublinhados_isolados :: "string \<Rightarrow> bool" where
  "sublinhados_isolados (a # b # cs) =
     (\<not> (a = CHR ''_'' \<and> b = CHR ''_'') \<and> sublinhados_isolados (b # cs))"
| "sublinhados_isolados _ = True"

definition digitos_py :: "string \<Rightarrow> py_error + int" where
  "digitos_py ds =
     (if ds \<noteq> [] \<and> list_all (\<lambda>ch. eh_digito ch \<or> ch = CHR ''_'') ds \<and>
         hd ds \<noteq> CHR ''_'' \<and> last ds \<noteq> CHR ''_'' \<and> sublinhados_isolados ds
      then Inr (valor_digitos (filter (\<lambda>ch. ch \<noteq> CHR ''_'') ds))
      else Inl ValueError)"

definition int_py :: "string \<Rightarrow> py_error + int" where
  "int_py s =
     (case strip_py s of
        ch # ds \<Rightarrow> (if ch = CHR ''-'' then map_sum id uminus (digitos_py ds)
                    else if ch = CHR ''+'' then digitos_py ds
                    else digitos_py (ch # ds))
      | [] \<Rightarrow> Inl ValueError)"

fun str_nat :: "nat \<Rightarrow> string" where
  "str_nat n = (if n < 10 then [char_of (48 + n)] else str_nat (n div 10) @ [char_of (48 + n mod 10)])"

definition str_py :: "int \<Rightarrow> string" where
  "str_py i = (if i < 0 then CHR ''-'' # str_nat (nat (- i)) else str_nat (nat i))"

text \<open>\<open>int(v)\<close> on a JSON value.\<close>

fun int_de_jval :: "jval \<Rightarrow> py_error + int" where
  "int_de_jval (JInt i) = Inr i"
| "int_de_jval (JStr s) = int_py s"

definition processar_mensagem_json :: "config \<Rightarrow> json_obj \<Rightarrow> pstate \<Rightarrow> py_error + pstate \<times> outbox" where
  "processar_mensagem_json c obj s =
     (case ler_campos obj of Inl e \<Rightarrow> Inl e | Inr (tp, rc, rm, v) \<Rightarrow>
      case int_de_jval v of Inl e \<Rightarrow> Inl e | Inr t \<Rightarrow>
        (let s1 = s\<lparr>relogio_local := atualizar_relogio (relogio_local s) t\<rparr>;
             m = \<lparr>tipo = ''requisicao'', recurso = rc, timestamp = t, id_msg = rm\<rparr>
         in if tp = JStr ''requisicao'' then
              (if recurso_ocupado s1 then Inr (s1\<lparr>fila_recurso := fila_recurso s1 @ [m]\<rparr>, [])
               else if esperando_recurso s1 = Some rc then
                 (case v of
                    JStr _ \<Rightarrow> Inl TypeError
                  | JInt ts \<Rightarrow> if (ts, rm) < (relogio_local s1, id_processo c)
                              then Inr (s1\<lparr>fila_recurso := fila_recurso s1 @ [m]\<rparr>, [])
                              else Inr (enviar_ack c rm rc s1))
               else Inr (enviar_ack c rm rc s1))
            else if tp = JStr ''ack'' then
              (case respostas_esperadas s1 rc of
                 Some ps \<Rightarrow> Inr (s1\<lparr>respostas_esperadas := (respostas_esperadas s1)(rc \<mapsto> ps - {rm})\<rparr>, [])
               | None \<Rightarrow> Inr (s1, []))
            else Inr (s1, [])))"

text \<open>The message a sender would write with \<open>str(timestamp)\<close> in place of the number.\<close>

definition mensagem_texto :: "msg \<Rightarrow> json_obj" where
  "mensagem_texto m =
     [(''tipo'', JStr (tipo m)), (''recurso'', JStr (recurso m)),
      (''timestamp'', JStr (str_py (timestamp m))), (''id'', JStr (id_msg m))]"

declare str_nat.simps [simp del]

lemma digito_nao_espaco: "eh_digito ch \<Longrightarrow> \<not> eh_espaco ch"
  by (auto simp: eh_digito_def eh_espaco_def)

lemma digito_nao_sinal: "eh_digito ch \<Longrightarrow> ch \<noteq> CHR ''_'' \<and> ch \<noteq> CHR ''-'' \<and> ch \<noteq> CHR ''+''"
  by (auto simp: eh_digito_def)

lemma valor_digitos_snoc:
  "valor_digitos (xs @ [ch]) = 10 * valor_digitos xs + (int (of_char ch) - 48)"
  by (simp add: valor_digitos_def)

lemma str_nat_digitos:
  "str_nat n \<noteq> [] \<and> list_all eh_digito (str_nat n) \<and> valor_digitos (str_nat n) = int n"
proof (induction n rule: str_nat.induct)
  case (1 n)
  show ?case
  proof (cases "n < 10")
    case True
    then show ?thesis by (simp add: str_nat.simps[of n] eh_digito_def valor_digitos_def)
  next
    case False
    have d: "eh_digito (char_of (48 + n mod 10))" by (simp add: eh_digito_def)
    have "10 * int (n div 10) + int (n mod 10) = int n"
      using div_mult_mod_eq[of n 10] by (metis of_nat_add of_nat_mult of_nat_numeral mult.commute)
    then show ?thesis using "1.IH"[OF False] False d
      by (simp add: str_nat.simps[of n] valor_digitos_snoc)
  qed
qed

lemma sublinhados_isolados_sem: "CHR ''_'' \<notin> set xs \<Longrightarrow> sublinhados_isolados xs"
  by (induction xs rule: sublinhados_isolados.induct) auto

lemma digitos_py_str_nat: "digitos_py (str_nat n) = Inr (int n)"
proof -
  have D: "str_nat n \<noteq> []" "list_all eh_digito (str_nat n)" "valor_digitos (str_nat n) = int n"
    using str_nat_digitos by blast+
  have S: "\<forall>ch \<in> set (str_nat n). eh_digito ch" using D(2) by (simp add: list_all_iff)
  then have U: "CHR ''_'' \<notin> set (str_nat n)" using digito_nao_sinal by blast
  have "filter (\<lambda>ch. ch \<noteq> CHR ''_'') (str_nat n) = str_nat n" using U by (auto simp: filter_id_conv)
  moreover have "hd (str_nat n) \<noteq> CHR ''_''" "last (str_nat n) \<noteq> CHR ''_''"
    using U D(1) by (auto dest: hd_in_set last_in_set)
  ultimately show ?thesis using D S U sublinhados_isolados_sem[OF U]
    by (simp add: digitos_py_def list_all_iff)
qed

lemma str_nat_hd: "eh_digito (hd (str_nat n)) \<and> eh_digito (last (str_nat n))"
  using str_nat_digitos[of n] by (auto simp: list_all_iff)

text \<open>Python's \<open>int()\<close> reads back what \<open>str()\<close> writes, for every integer.\<close>

lemma int_py_str_py: "int_py (str_py t) = Inr t"
proof (cases "t < 0")
  case True
  have "strip_py (CHR ''-'' # str_nat (nat (- t))) = CHR ''-'' # str_nat (nat (- t))"
    using str_nat_hd[of "nat (- t)"] str_nat_digitos[of "nat (- t)"] digito_nao_espaco
    by (intro strip_py_id) (auto simp: eh_espaco_def)
  then show ?thesis using True by (simp add: int_py_def str_py_def digitos_py_str_nat)
next
  case False
  obtain ch ds where C: "str_nat (nat t) = ch # ds" using str_nat_digitos[of "nat t"] by (cases "str_nat (nat t)") auto
  have "strip_py (str_nat (nat t)) = str_nat (nat t)"
    using str_nat_hd[of "nat t"] str_nat_digitos[of "nat t"] digito_nao_espaco by (intro strip_py_id) auto
  moreover have "ch \<noteq> CHR ''-'' \<and> ch \<noteq> CHR ''+''" using str_nat_hd[of "nat t"] C digito_nao_sinal by auto
  ultimately show ?thesis using False C digitos_py_str_nat[of "nat t"] by (simp add: int_py_def str_py_def)
qed


lemma ler_campos_texto [simp]:
  "ler_campos (mensagem_texto m) = Inr (JStr (tipo m), recurso m, id_msg m, JStr (str_py (timestamp m)))"
  by (simp add: ler_campos_def mensagem_texto_def campo_str_def campo_def)

lemma processar_mensagem_json_int [simp]:
  "processar_mensagem_json c (mensagem_json m) s = Inr (processar_mensagem c m s)"
  by (simp add: processar_mensagem_json_def processar_mensagem_def Let_def split: option.splits)

lemma processar_mensagem_json_erro_leitura:
  "ler_campos obj = Inl e \<Longrightarrow> processar_mensagem_json c obj s = Inl e"
  by (simp add: processar_mensagem_json_def)

end
