(* ===== verification/Server.thy ===== *)
theory Server
  imports MensagemBruta
begin

text \<open>
  The server thread \<open>servidor\<close> (\<^verbatim>\<open>src/p1.py\<close> lines 183--193): it accepts one
  connection at a time, decodes the JSON object it carries and calls
  \<open>processar_mensagem\<close> on it, here \<open>processar_mensagem_json\<close> on the decoded object
  (theory \<open>MensagemBruta\<close>).  Nothing catches an exception there: a \<open>KeyError\<close> from
  a missing field, a \<open>ValueError\<close> or \<open>TypeError\<close> from the timestamp, or the
  \<open>KeyError\<close> of \<open>PROCESSOS[destino]\<close> in \<open>enviar_mensagem\<close> (p1.py line 60, before its
  \<open>try\<close>) when the handler answers a sender that is not a member, ends the thread, and the
  peer never reads another message, while its operator thread goes on.  \<open>servidor\<close>
  runs the loop over the objects of the successive connections (the empty reads that
  \<open>if data:\<close> skips are left out, and the JSON text is taken as decoded): the final
  state, everything sent, and the exception that ended the thread, if any.
  \<open>processar_lista\<close> is what a server that never fails would do: the handler applied to
  each message in turn.
\<close>

fun servidor :: "config \<Rightarrow> json_obj list \<Rightarrow> pstate \<Rightarrow> pstate \<times> outbox \<times> py_error option" where
  "servidor c [] s = (s, [], None)"
| "servidor c (obj # objs) s =
     (case processar_mensagem_json c obj s of
        Inl e \<Rightarrow> (s, [], Some e)
      | Inr (s1, o1) \<Rightarrow>
          (case dropWhile (\<lambda>(d, _). d \<in> set (processos c)) o1 of
             (d, _) # _ \<Rightarrow> (s1, takeWhile (\<lambda>(d, _). d \<in> set (processos c)) o1, Some (KeyError d))
           | [] \<Rightarrow> (case servidor c objs s1 of (s2, o2, e) \<Rightarrow> (s2, o1 @ o2, e))))"

fun processar_lista :: "config \<Rightarrow> msg list \<Rightarrow> pstate \<Rightarrow> pstate \<times> outbox" where
  "processar_lista c [] s = (s, [])"
| "processar_lista c (m # ms) s =
     (case processar_mensagem c m s of
        (s1, o1) \<Rightarrow> (case processar_lista c ms s1 of (s2, o2) \<Rightarrow> (s2, o1 @ o2)))"

lemma processar_destinos:
  "processar_mensagem c m s = (s', out) \<Longrightarrow> (d, m') \<in> set out \<Longrightarrow> d = id_msg m"
  by (auto simp: processar_mensagem_def Let_def split: if_splits option.splits)

text \<open>C20: Refinement: on messages in the format the peers send, from members of the
  configuration, the server loop never fails and does exactly what handling each message in
  turn does.\<close>

theorem servidor_refina:
  assumes "\<forall>m \<in> set ms. id_msg m \<in> set (processos c)"
  shows "servidor c (map mensagem_json ms) s =
     (case processar_lista c ms s of (s', out) \<Rightarrow> (s', out, None))"
  using assms
proof (induction ms arbitrary: s)
  case (Cons m ms)
  obtain s1 o1 where P: "processar_mensagem c m s = (s1, o1)" by fastforce
  have D: "dropWhile (\<lambda>(d, _). d \<in> set (processos c)) o1 = []"
    using processar_destinos[OF P] Cons.prems by (auto simp: dropWhile_eq_Nil_conv)
  have IH: "servidor c (map mensagem_json ms) s1 =
      (case processar_lista c ms s1 of (s', out) \<Rightarrow> (s', out, None))"
    using Cons.IH Cons.prems by simp
  show ?case by (simp add: P D IH split: prod.splits)
qed simp

text \<open>C16: A message with a missing field kills the server thread: once the server has read an
  object without one of the four keys, the messages of later connections are never
  processed, and the error is the thread's end.\<close>

theorem servidor_morre:
  assumes "ler_campos obj = Inl (KeyError k)"
  shows "servidor c (objs @ obj # resto) s = servidor c (objs @ [obj]) s \<and>
    snd (snd (servidor c (objs @ [obj]) s)) \<noteq> None"
proof (induction objs arbitrary: s)
  case Nil
  then show ?case using processar_mensagem_json_erro_leitura[OF assms] by simp
next
  case (Cons ob objs)
  show ?case
  proof (cases "processar_mensagem_json c ob s")
    case (Inl e')
    then show ?thesis by simp
  next
    case (Inr r)
    obtain s1 o1 where P: "r = (s1, o1)" by fastforce
    obtain s2 o2 e2 where R: "servidor c (objs @ [obj]) s1 = (s2, o2, e2)" by (cases "servidor c (objs @ [obj]) s1")
    show ?thesis
    proof (cases "dropWhile (\<lambda>(d, _). d \<in> set (processos c)) o1")
      case Nil
      then show ?thesis using Cons.IH[of s1] Inr P R by (simp del: dropWhile_eq_Nil_conv)
    next
      case (Cons a l)
      then show ?thesis using Inr P by (cases a) simp
    qed
  qed
qed

text \<open>C21: A request from a peer that is not in \<open>PROCESSOS\<close> kills the server thread: the
  handler advances the clock and calls \<open>enviar_ack\<close>, whose \<open>PROCESSOS[destino]\<close> lookup
  raises \<open>KeyError\<close> outside the \<open>try\<close>; nothing is sent and nothing after is read.\<close>

theorem servidor_remetente_desconhecido:
  assumes "tipo m = ''requisicao''" and "id_msg m \<notin> set (processos c)"
    and "\<not> recurso_ocupado s" and "esperando_recurso s \<noteq> Some (recurso m)"
  shows "servidor c (mensagem_json m # resto) s =
    (fst (processar_mensagem c m s), [], Some (KeyError (id_msg m)))"
  using assms atualizar_relogio_gt_ts[of "timestamp m" "relogio_local s"]
  by (auto simp: processar_mensagem_def Let_def)

text \<open>\<open>p1\<close> is requesting \<open>r1\<close>; a request without \<open>recurso\<close> arrives, then \<open>p2\<close>'s
  \<open>ack\<close>.  The \<open>ack\<close> is never processed: \<open>p1\<close> waits for it forever.\<close>

theorem servidor_morre_exemplo:
  "ler_campos [(''tipo'', JStr ''requisicao''), (''timestamp'', JInt 3), (''id'', JStr ''p3'')] =
     Inl (KeyError ''recurso'') \<and>
   servidor cfg_p1 [[(''tipo'', JStr ''requisicao''), (''timestamp'', JInt 3), (''id'', JStr ''p3'')],
                    mensagem_json (ack_msg ''r1'' 4 ''p2'')] estado_requisitando =
     (estado_requisitando, [], Some (KeyError ''recurso''))"
proof -
  have L: "ler_campos [(''tipo'', JStr ''requisicao''), (''timestamp'', JInt 3), (''id'', JStr ''p3'')] =
     Inl (KeyError ''recurso'')" by (simp add: ler_campos_def campo_str_def campo_def)
  show ?thesis
    using L servidor_morre[OF L, of cfg_p1 "[]" "[mensagem_json (ack_msg ''r1'' 4 ''p2'')]" estado_requisitando]
    by (simp add: processar_mensagem_json_erro_leitura)
qed

theorem servidor_refina_exemplo:
  "''p2'' \<in> set (processos cfg_p1) \<and> ''p3'' \<in> set (processos cfg_p1) \<and>
   servidor cfg_p1 (map mensagem_json [requisicao ''r1'' 2 ''p2'', ack_msg ''r1'' 4 ''p3'']) estado_requisitando =
   (case processar_lista cfg_p1 [requisicao ''r1'' 2 ''p2'', ack_msg ''r1'' 4 ''p3''] estado_requisitando of
      (s', out) \<Rightarrow> (s', out, None))"
  using servidor_refina[where ms="[requisicao ''r1'' 2 ''p2'', ack_msg ''r1'' 4 ''p3'']" and c=cfg_p1
      and s=estado_requisitando]
  by (simp add: cfg_p1_def)

theorem servidor_remetente_desconhecido_exemplo:
  "tipo (requisicao ''r2'' 1 ''p9'') = ''requisicao'' \<and> ''p9'' \<notin> set (processos cfg_p1) \<and>
   \<not> recurso_ocupado estado_requisitando \<and> esperando_recurso estado_requisitando \<noteq> Some ''r2'' \<and>
   servidor cfg_p1 [mensagem_json (requisicao ''r2'' 1 ''p9''), mensagem_json (ack_msg ''r1'' 4 ''p2'')]
     estado_requisitando = (estado_requisitando\<lparr>relogio_local := 7\<rparr>, [], Some (KeyError ''p9''))"
  using servidor_remetente_desconhecido[of "requisicao ''r2'' 1 ''p9''" cfg_p1 estado_requisitando
      "[mensagem_json (ack_msg ''r1'' 4 ''p2'')]"]
  by (simp add: cfg_p1_def estado_requisitando_def processar_mensagem_def atualizar_relogio_def)

end
