(* ===== verification/Implantacao.thy ===== *)
theory Implantacao
  imports Server
begin

text \<open>
  How the three scripts are deployed.  Each script fixes its own identity, port and address
  book (\<open>ID_PROCESSO\<close>, \<open>PORT\<close>, \<open>PROCESSOS\<close>); a message to \<open>destino\<close> goes to the
  port \<open>PROCESSOS[destino]\<close> names (\<open>enviar_mensagem\<close>, p1.py line 60, processo2.py
  line 30).  \<^verbatim>\<open>src/p1.py\<close> and \<^verbatim>\<open>src/p2.py\<close> call the peers \<open>p1\<close>, \<open>p2\<close>,
  \<open>p3\<close>, while \<^verbatim>\<open>src/processo2.py\<close> calls them \<open>processo1\<close>, \<open>processo2\<close>,
  \<open>processo3\<close>, on the same ports.
\<close>

type_synonym enderecos = "(peer \<times> string \<times> nat) list"

definition PROCESSOS_p1 :: enderecos where
  "PROCESSOS_p1 = [(''p1'', ''localhost'', 8001), (''p2'', ''localhost'', 8002),
                   (''p3'', ''localhost'', 8003)]"

definition PROCESSOS_processo2 :: enderecos where
  "PROCESSOS_processo2 = [(''processo1'', ''localhost'', 8001), (''processo2'', ''localhost'', 8002),
                          (''processo3'', ''localhost'', 8003)]"

definition PROCESSOS_p2 :: enderecos where
  "PROCESSOS_p2 = [(''p1'', ''localhost'', 8001), (''p2'', ''localhost'', 8002),
                   (''p3'', ''localhost'', 8003)]"

definition PORT_p1 :: nat where "PORT_p1 = 8001"

definition PORT_p2 :: nat where "PORT_p2 = 8002"

definition PORT_processo2 :: nat where "PORT_processo2 = 8002"

definition config_de :: "peer \<Rightarrow> enderecos \<Rightarrow> config" where
  "config_de i ends = \<lparr>id_processo = i, processos = map fst ends\<rparr>"

definition cfg_processo2 :: config where
  "cfg_processo2 = config_de ''processo2'' PROCESSOS_processo2"

text \<open>\<open>host, port = PROCESSOS[destino]\<close>: the port a message to \<open>destino\<close> is sent to.\<close>

definition porta_de :: "enderecos \<Rightarrow> peer \<Rightarrow> nat option" where
  "porta_de ends d = map_option snd (map_of ends d)"

lemma entrar_envia:
  assumes "\<not> recurso_ocupado s" and "d \<in> set (processos c)" and "d \<noteq> id_processo c"
  shows "\<exists>s' out. entrar_recurso_critico c r e s = Requisitou (s', out) \<and>
           (d, requisicao r (relogio_local s + 1) (id_processo c)) \<in> set out"
proof -
  obtain s' out where M: "multicast_requisicao c r (s\<lparr>esperando_recurso := Some r\<rparr>) = (s', out)"
    by fastforce
  have "out = snd (multicast_requisicao c r (s\<lparr>esperando_recurso := Some r\<rparr>))" using M by simp
  then have "(d, requisicao r (relogio_local s + 1) (id_processo c)) \<in> set out"
    using assms(2,3) by (auto simp: multicast_requisicao_out)
  then show ?thesis using assms(1) M by (simp add: entrar_recurso_critico_def)
qed

lemma servidor_requisicao_estranha:
  assumes "id_msg m \<notin> set (processos c)" and "tipo m = ''requisicao''"
    and "\<not> recurso_ocupado s" and "esperando_recurso s \<noteq> Some (recurso m)"
  shows "snd (snd (servidor c (mensagem_json m # resto) s)) = Some (KeyError (id_msg m))"
  using assms atualizar_relogio_gt_ts[of "timestamp m" "relogio_local s"]
  by (auto simp: processar_mensagem_def Let_def)

text \<open>C14: The scripts' address books disagree.  Deployed together (processo2.py on port
  8002, which p1.py addresses as \<open>p2\<close>), each side's first request kills the other's
  server thread: the receiver acknowledges the request, and its \<open>PROCESSOS[destino]\<close>
  lookup of the unknown sender raises \<open>KeyError\<close>.\<close>

theorem implantacao_mista:
  assumes "\<not> recurso_ocupado s1" and "\<not> recurso_ocupado s2"
    and "esperando_recurso s1 \<noteq> Some r" and "esperando_recurso s2 \<noteq> Some r"
  shows "(\<exists>s1' out m. entrar_recurso_critico cfg_p1 r e s1 = Requisitou (s1', out) \<and>
            (''p2'', m) \<in> set out \<and> porta_de PROCESSOS_p1 ''p2'' = Some PORT_processo2 \<and>
            snd (snd (servidor cfg_processo2 (mensagem_json m # resto) s2)) = Some (KeyError ''p1'')) \<and>
         (\<exists>s2' out m. entrar_recurso_critico cfg_processo2 r e s2 = Requisitou (s2', out) \<and>
            (''processo1'', m) \<in> set out \<and> porta_de PROCESSOS_processo2 ''processo1'' = Some PORT_p1 \<and>
            snd (snd (servidor cfg_p1 (mensagem_json m # resto) s1)) = Some (KeyError ''processo2''))"
proof (rule conjI)
  show "\<exists>s1' out m. entrar_recurso_critico cfg_p1 r e s1 = Requisitou (s1', out) \<and>
            (''p2'', m) \<in> set out \<and> porta_de PROCESSOS_p1 ''p2'' = Some PORT_processo2 \<and>
            snd (snd (servidor cfg_processo2 (mensagem_json m # resto) s2)) = Some (KeyError ''p1'')"
    using entrar_envia[OF assms(1), of "''p2''" cfg_p1 r e]
      servidor_requisicao_estranha[of "requisicao r (relogio_local s1 + 1) ''p1''" cfg_processo2,
        OF _ _ assms(2)] assms(4)
    by (auto simp: cfg_p1_def cfg_processo2_def config_de_def PROCESSOS_processo2_def porta_de_def
        PROCESSOS_p1_def PORT_processo2_def)
  show "\<exists>s2' out m. entrar_recurso_critico cfg_processo2 r e s2 = Requisitou (s2', out) \<and>
            (''processo1'', m) \<in> set out \<and> porta_de PROCESSOS_processo2 ''processo1'' = Some PORT_p1 \<and>
            snd (snd (servidor cfg_p1 (mensagem_json m # resto) s1)) = Some (KeyError ''processo2'')"
    using entrar_envia[OF assms(2), of "''processo1''" cfg_processo2 r e]
      servidor_requisicao_estranha[of "requisicao r (relogio_local s2 + 1) ''processo2''" cfg_p1,
        OF _ _ assms(1)] assms(3)
    by (auto simp: cfg_p1_def cfg_processo2_def config_de_def PROCESSOS_processo2_def porta_de_def
        PORT_p1_def)
qed

theorem implantacao_mista_exemplo:
  "\<not> recurso_ocupado estado_inicial \<and> esperando_recurso estado_inicial \<noteq> Some ''r1'' \<and>
   (\<exists>s1' out m. entrar_recurso_critico cfg_p1 ''r1'' '''' estado_inicial = Requisitou (s1', out) \<and>
      (''p2'', m) \<in> set out \<and> porta_de PROCESSOS_p1 ''p2'' = Some PORT_processo2 \<and>
      snd (snd (servidor cfg_processo2 [mensagem_json m] estado_inicial)) = Some (KeyError ''p1'')) \<and>
   (\<exists>s2' out m. entrar_recurso_critico cfg_processo2 ''r1'' '''' estado_inicial = Requisitou (s2', out) \<and>
      (''processo1'', m) \<in> set out \<and> porta_de PROCESSOS_processo2 ''processo1'' = Some PORT_p1 \<and>
      snd (snd (servidor cfg_p1 [mensagem_json m] estado_inicial)) = Some (KeyError ''processo2''))"
  using implantacao_mista[of estado_inicial estado_inicial "''r1''" "''''" "[]"]
  by (simp add: estado_inicial_def)

end
