(* ===== verification/Processo2.thy ===== *)
theory Processo2
  imports Implantacao
begin

text \<open>
  The functions of \<^verbatim>\<open>src/processo2.py\<close>, translated from that file.  There
  \<open>ID_PROCESSO\<close> and \<open>PROCESSOS\<close> are module constants, so the functions take no
  configuration; the state is the same five globals (\<open>pstate\<close>, lines 16--21).  The
  release loop \<open>while fila_recurso: ... pop(0) ...\<close> is written by structural recursion
  on the queue it pops (\<open>responder_fila_pr2\<close>).  Each function equals the p1.py function
  of theory \<open>Process\<close> at processo2.py's configuration \<open>cfg_processo2\<close>, so every
  property of a p1.py peer holds of a processo2.py peer with that configuration.
\<close>

definition ID_PROCESSO_pr2 :: peer where "ID_PROCESSO_pr2 = ''processo2''"

definition atualizar_relogio_pr2 :: "int \<Rightarrow> int \<Rightarrow> int" where
  "atualizar_relogio_pr2 relogio timestamp_recebido = max relogio timestamp_recebido + 1"

definition multicast_requisicao_pr2 :: "resource \<Rightarrow> pstate \<Rightarrow> pstate \<times> outbox" where
  "multicast_requisicao_pr2 r s =
     (let relogio = relogio_local s + 1;
          mensagem = \<lparr>tipo = ''requisicao'', recurso = r, timestamp = relogio,
                      id_msg = ID_PROCESSO_pr2\<rparr>
      in (s\<lparr>relogio_local := relogio,
            respostas_esperadas := (respostas_esperadas s)
              (r \<mapsto> set (map fst PROCESSOS_processo2) - {ID_PROCESSO_pr2})\<rparr>,
          concat (map (\<lambda>destino. if destino \<noteq> ID_PROCESSO_pr2 then [(destino, mensagem)] else [])
                    (map fst PROCESSOS_processo2))))"

definition enviar_ack_pr2 :: "peer \<Rightarrow> resource \<Rightarrow> pstate \<Rightarrow> pstate \<times> outbox" where
  "enviar_ack_pr2 destino r s =
     (let relogio = relogio_local s + 1
      in (s\<lparr>relogio_local := relogio\<rparr>,
          [(destino, \<lparr>tipo = ''ack'', recurso = r, timestamp = relogio, id_msg = ID_PROCESSO_pr2\<rparr>)]))"

definition entrar_recurso_critico_pr2 :: "resource \<Rightarrow> string \<Rightarrow> pstate \<Rightarrow> entrar_res" where
  "entrar_recurso_critico_pr2 r escolha s =
     (if recurso_ocupado s then (if escolha = ''1'' then AguardaLiberacao else Desistiu)
      else Requisitou (multicast_requisicao_pr2 r (s\<lparr>esperando_recurso := Some r\<rparr>)))"

fun responder_fila_pr2 :: "resource \<Rightarrow> msg list \<Rightarrow> pstate \<Rightarrow> pstate \<times> outbox" where
  "responder_fila_pr2 r [] s = (s\<lparr>fila_recurso := []\<rparr>, [])"
| "responder_fila_pr2 r (req # resto) s =
     (case enviar_ack_pr2 (id_msg req) r (s\<lparr>fila_recurso := resto\<rparr>) of
        (s1, o1) \<Rightarrow> (case responder_fila_pr2 r resto s1 of (s2, o2) \<Rightarrow> (s2, o1 @ o2)))"

definition sair_recurso_critico_pr2 :: "resource \<Rightarrow> pstate \<Rightarrow> pstate \<times> outbox" where
  "sair_recurso_critico_pr2 r s =
     (if recurso_ocupado s \<and> esperando_recurso s = Some r
      then responder_fila_pr2 r (fila_recurso s)
             (s\<lparr>recurso_ocupado := False, esperando_recurso := None\<rparr>)
      else (s, []))"

definition processar_mensagem_pr2 :: "msg \<Rightarrow> pstate \<Rightarrow> pstate \<times> outbox" where
  "processar_mensagem_pr2 mensagem s =
     (let s1 = s\<lparr>relogio_local := atualizar_relogio_pr2 (relogio_local s) (timestamp mensagem)\<rparr>
      in if tipo mensagem = ''requisicao'' then
           (if recurso_ocupado s1 \<or>
               (esperando_recurso s1 = Some (recurso mensagem) \<and>
                (relogio_local s1, ID_PROCESSO_pr2) > (timestamp mensagem, id_msg mensagem))
            then (s1\<lparr>fila_recurso := fila_recurso s1 @ [mensagem]\<rparr>, [])
            else enviar_ack_pr2 (id_msg mensagem) (recurso mensagem) s1)
         else if tipo mensagem = ''ack'' then
           (if respostas_esperadas s1 (recurso mensagem) \<noteq> None then
              (s1\<lparr>respostas_esperadas := (respostas_esperadas s1)
                   (recurso mensagem \<mapsto> the (respostas_esperadas s1 (recurso mensagem)) - {id_msg mensagem})\<rparr>, [])
            else (s1, []))
         else (s1, []))"

text \<open>A \<open>tipo\<close> that is not a string equals neither \<open>"requisicao"\<close> nor \<open>"ack"\<close> (lines
  112 and 121); \<open>tipo_texto\<close> maps it to a string that also matches neither.\<close>

fun tipo_texto :: "jval \<Rightarrow> string" where
  "tipo_texto (JStr x) = x"
| "tipo_texto (JInt _) = ''''"

text \<open>processo2.py's handler on the decoded object (lines 103--123): the four reads, then
  \<open>max(relogio_local, timestamp_recebido)\<close>, which raises \<open>TypeError\<close> on a string
  timestamp before any global changes.\<close>

definition processar_mensagem_json_pr2 :: "json_obj \<Rightarrow> pstate \<Rightarrow> py_error + pstate \<times> outbox" where
  "processar_mensagem_json_pr2 obj s =
     (case ler_campos obj of Inl e \<Rightarrow> Inl e | Inr (tp, rc, rm, v) \<Rightarrow>
      case v of
        JStr _ \<Rightarrow> Inl TypeError
      | JInt t \<Rightarrow> Inr (processar_mensagem_pr2 \<lparr>tipo = tipo_texto tp, recurso = rc, timestamp = t, id_msg = rm\<rparr> s))"

fun servidor_pr2 :: "json_obj list \<Rightarrow> pstate \<Rightarrow> pstate \<times> outbox \<times> py_error option" where
  "servidor_pr2 [] s = (s, [], None)"
| "servidor_pr2 (obj # objs) s =
     (case processar_mensagem_json_pr2 obj s of
        Inl e \<Rightarrow> (s, [], Some e)
      | Inr (s1, o1) \<Rightarrow>
          (case dropWhile (\<lambda>(d, _). porta_de PROCESSOS_processo2 d \<noteq> None) o1 of
             (d, _) # _ \<Rightarrow> (s1, takeWhile (\<lambda>(d, _). porta_de PROCESSOS_processo2 d \<noteq> None) o1,
                            Some (KeyError d))
           | [] \<Rightarrow> (case servidor_pr2 objs s1 of (s2, o2, e) \<Rightarrow> (s2, o1 @ o2, e))))"

lemma cfg_processo2_simps [simp]:
  "id_processo cfg_processo2 = ID_PROCESSO_pr2"
  "processos cfg_processo2 = map fst PROCESSOS_processo2"
  by (simp_all add: cfg_processo2_def config_de_def ID_PROCESSO_pr2_def)

lemma porta_de_membro: "porta_de PROCESSOS_processo2 d \<noteq> None \<longleftrightarrow> d \<in> set (map fst PROCESSOS_processo2)"
  by (simp add: porta_de_def PROCESSOS_processo2_def)

lemma enviar_ack_pr2_eq: "enviar_ack_pr2 d r s = enviar_ack cfg_processo2 d r s"
  by (simp add: enviar_ack_pr2_def ack_msg_def Let_def)

lemma multicast_requisicao_pr2_eq: "multicast_requisicao_pr2 r s = multicast_requisicao cfg_processo2 r s"
  unfolding multicast_requisicao_pr2_def multicast_requisicao_def enviar_mensagem_def requisicao_def
  by (simp add: Let_def)

lemma responder_fila_pr2_eq:
  "fila_recurso s = q \<Longrightarrow> responder_fila_pr2 r q s = drenar_fila cfg_processo2 r s"
proof (induction q arbitrary: s)
  case Nil
  then show ?case by (cases s) (simp add: drenar_fila.simps)
next
  case (Cons m ms)
  have IH: "responder_fila_pr2 r ms (s\<lparr>fila_recurso := ms, relogio_local := relogio_local s + 1\<rparr>) =
      drenar_fila cfg_processo2 r (s\<lparr>fila_recurso := ms, relogio_local := relogio_local s + 1\<rparr>)"
    by (rule Cons.IH) simp
  show ?case
    by (simp add: drenar_fila.simps[of _ _ s] Cons.prems enviar_ack_pr2_eq IH split: prod.splits)
qed

lemma processar_mensagem_pr2_eq: "processar_mensagem_pr2 m s = processar_mensagem cfg_processo2 m s"
  by (auto simp: processar_mensagem_pr2_def processar_mensagem_def atualizar_relogio_def
      atualizar_relogio_pr2_def Let_def
      enviar_ack_pr2_eq split: option.splits)

lemma entrar_recurso_critico_pr2_eq:
  "entrar_recurso_critico_pr2 r e s = entrar_recurso_critico cfg_processo2 r e s"
  by (simp add: entrar_recurso_critico_pr2_def entrar_recurso_critico_def multicast_requisicao_pr2_eq)

lemma sair_recurso_critico_pr2_eq:
  "sair_recurso_critico_pr2 r s = sair_recurso_critico cfg_processo2 r s"
  by (simp add: sair_recurso_critico_pr2_def sair_recurso_critico_def responder_fila_pr2_eq)

lemma membro_pr2:
  "(\<lambda>(d, _::msg). porta_de PROCESSOS_processo2 d \<noteq> None) =
     (\<lambda>(d, _). d \<in> set (processos cfg_processo2))"
  using porta_de_membro by (simp add: fun_eq_iff del: not_None_eq)

lemma processar_mensagem_json_pr2_int [simp]:
  "processar_mensagem_json_pr2 (mensagem_json m) s = Inr (processar_mensagem_pr2 m s)"
  by (cases m) (simp add: processar_mensagem_json_pr2_def)

lemma servidor_pr2_eq:
  "servidor_pr2 (map mensagem_json ms) s = servidor cfg_processo2 (map mensagem_json ms) s"
proof (induction ms arbitrary: s)
  case (Cons m ms)
  then show ?case
    by (simp only: list.map servidor_pr2.simps servidor.simps processar_mensagem_json_pr2_int
        processar_mensagem_json_int processar_mensagem_pr2_eq membro_pr2)
qed simp

text \<open>C15: processo2.py is p1.py at its own configuration: each function of
  \<^verbatim>\<open>src/processo2.py\<close> that changes the globals computes what the p1.py function of
  the same name computes with \<open>ID_PROCESSO = processo2\<close> and processo2.py's
  \<open>PROCESSOS\<close>, and its server loop does the same on every sequence of messages the peers
  send (numeric timestamps).  On a timestamp written as a string the two servers differ
  (C38).\<close>

theorem processo2_equivale_p1:
  "multicast_requisicao_pr2 r s = multicast_requisicao cfg_processo2 r s \<and>
   enviar_ack_pr2 d r s = enviar_ack cfg_processo2 d r s \<and>
   entrar_recurso_critico_pr2 r e s = entrar_recurso_critico cfg_processo2 r e s \<and>
   sair_recurso_critico_pr2 r s = sair_recurso_critico cfg_processo2 r s \<and>
   processar_mensagem_pr2 m s = processar_mensagem cfg_processo2 m s \<and>
   servidor_pr2 (map mensagem_json ms) s = servidor cfg_processo2 (map mensagem_json ms) s"
  by (simp add: multicast_requisicao_pr2_eq enviar_ack_pr2_eq entrar_recurso_critico_pr2_eq
      sair_recurso_critico_pr2_eq processar_mensagem_pr2_eq servidor_pr2_eq)

end
