(* ===== verification/ConversaoInt.thy ===== *)
theory ConversaoInt
  imports Processo2
begin

text \<open>
  A timestamp written as a numeric string, as \<open>mensagem_texto\<close> of theory
  \<open>MensagemBruta\<close> builds it.  p1.py and p2.py update the clock with
  \<open>max(relogio_local, int(timestamp_recebido)) + 1\<close> (p1.py line 55), and \<open>int()\<close>
  reads back what \<open>str()\<close> writes (\<open>int_py_str_py\<close>); the priority test
  \<open>(relogio_local, ID_PROCESSO) > (timestamp, remetente)\<close> then compares an \<open>int\<close> with
  the raw string.  processo2.py writes \<open>max(relogio_local, timestamp_recebido) + 1\<close>
  (line 26), and \<open>max\<close> of an \<open>int\<close> and a \<open>str\<close> raises \<open>TypeError\<close>.
\<close>

text \<open>C32: A timestamp written as a numeric string: p1.py's handler converts it with
  \<open>int()\<close> and behaves as on the number, except on a request for the resource it is
  itself requesting (and not holding), where the priority test compares its \<open>int\<close> clock with
  the string and raises \<open>TypeError\<close>; processo2.py's handler raises \<open>TypeError\<close> on every
  such message, in \<open>max(relogio_local, timestamp_recebido)\<close>.\<close>

theorem carimbo_texto:
  "processar_mensagem_json c (mensagem_texto m) s =
     (if tipo m = ''requisicao'' \<and> \<not> recurso_ocupado s \<and> esperando_recurso s = Some (recurso m)
      then Inl TypeError else Inr (processar_mensagem c m s)) \<and>
   processar_mensagem_json_pr2 (mensagem_texto m) s = Inl TypeError"
  by (simp add: processar_mensagem_json_def processar_mensagem_json_pr2_def int_py_str_py
      processar_mensagem_def Let_def split: option.splits)

end
