(* ===== verification/NackVariant.thy ===== *)
theory NackVariant
  imports Process
begin

text \<open>
  The variant \<^verbatim>\<open>src/p2.py\<close>, with negative acknowledgements.  Its state and clock
  are those of \<^verbatim>\<open>src/p1.py\<close> (theory \<open>Process\<close>), and its \<open>multicast_requisicao\<close> and
  \<open>enviar_ack\<close>, translated below with its \<open>atualizar_relogio\<close>, are p1.py's; it differs in four functions:
  \<^item> \<open>enviar_nack\<close> (lines 96--105) sends a \<open>nack\<close> stamped with the advanced clock;
  \<^item> \<open>processar_mensagem\<close> (lines 160--206) sends a \<open>nack\<close> to the sender of every
    deferred request, and on a received \<open>nack\<close> asks the operator (the answer is the
    parameter \<open>escolha\<close>) and on ``1'' starts a thread running \<open>aguardar_recurso\<close> for the
    resource: the third component of the result;
  \<^item> \<open>aguardar_recurso\<close> (lines 108--113) spins while \<open>recurso_ocupado\<close> (\<open>None\<close>:
    the loop has not exited yet) and then calls \<open>entrar_recurso_critico\<close> again;
  \<^item> \<open>entrar_recurso_critico\<close> (lines 116--136) starts that thread instead of spinning in
    the operator thread; the wait for acknowledgements and the grant (lines 137--139) are
    \<open>conceder_recurso\<close> as in p1.py;
  \<^item> \<open>sair_recurso_critico\<close> (lines 143--157) acknowledges only the first queued request and
    then empties the queue.
\<close>

text \<open>\<open>multicast_requisicao\<close> and \<open>enviar_ack\<close> of p2.py (lines 69--93), as written there;
  they are the p1.py functions of the same name (\<open>multicast_requisicao_p2_eq\<close>,
  \<open>enviar_ack_p2_eq\<close>).\<close>

definition atualizar_relogio_p2 :: "int \<Rightarrow> int \<Rightarrow> int" where
  "atualizar_relogio_p2 relogio timestamp_recebido = max relogio timestamp_recebido + 1"

definition multicast_requisicao_p2 :: "config \<Rightarrow> resource \<Rightarrow> pstate \<Rightarrow> pstate \<times> outbox" where
  "multicast_requisicao_p2 c r s =
     (let relogio = relogio_local s + 1;
          mensagem = \<lparr>tipo = ''requisicao'', recurso = r, timestamp = relogio, id_msg = id_processo c\<rparr>
      in (s\<lparr>relogio_local := relogio,
            respostas_esperadas := (respostas_esperadas s)(r \<mapsto> set (processos c) - {id_processo c})\<rparr>,
          concat (map (\<lambda>destino. if destino \<noteq> id_processo c then enviar_mensagem destino mensagem else [])
                    (processos c))))"

definition enviar_ack_p2 :: "config \<Rightarrow> peer \<Rightarrow> resource \<Rightarrow> pstate \<Rightarrow> pstate \<times> outbox" where
  "enviar_ack_p2 c destino r s =
     (let relogio = relogio_local s + 1
      in (s\<lparr>relogio_local := relogio\<rparr>,
          enviar_mensagem destino \<lparr>tipo = ''ack'', recurso = r, timestamp = relogio, id_msg = id_processo c\<rparr>))"

definition enviar_nack :: "config \<Rightarrow> peer \<Rightarrow> resource \<Rightarrow> pstate \<Rightarrow> pstate \<times> outbox" where
  "enviar_nack c destino r s =
     (let t = relogio_local s + 1
      in (s\<lparr>relogio_local := t\<rparr>, enviar_mensagem destino (nack_msg r t (id_processo c))))"

definition entrar_recurso_critico_p2 ::
    "config \<Rightarrow> resource \<Rightarrow> string \<Rightarrow> pstate \<Rightarrow> entrar_res" where
  "entrar_recurso_critico_p2 c r escolha s =
     (if recurso_ocupado s then (if escolha = ''1'' then AguardaLiberacao else Desistiu)
      else Requisitou (multicast_requisicao_p2 c r (s\<lparr>esperando_recurso := Some r\<rparr>)))"

definition aguardar_recurso :: "config \<Rightarrow> resource \<Rightarrow> string \<Rightarrow> pstate \<Rightarrow> entrar_res option" where
  "aguardar_recurso c r escolha s =
     (if recurso_ocupado s then None else Some (entrar_recurso_critico_p2 c r escolha s))"

definition sair_recurso_critico_p2 :: "config \<Rightarrow> resource \<Rightarrow> pstate \<Rightarrow> pstate \<times> outbox" where
  "sair_recurso_critico_p2 c r s =
     (if recurso_ocupado s \<and> esperando_recurso s = Some r
      then (let s1 = s\<lparr>recurso_ocupado := False, esperando_recurso := None\<rparr>;
                (s2, o2) = (case fila_recurso s1 of
                              [] \<Rightarrow> (s1, [])
                            | m # ms \<Rightarrow> enviar_ack_p2 c (id_msg m) r (s1\<lparr>fila_recurso := ms\<rparr>))
            in (s2\<lparr>fila_recurso := []\<rparr>, o2))
      else (s, []))"

definition processar_mensagem_p2 ::
    "config \<Rightarrow> string \<Rightarrow> msg \<Rightarrow> pstate \<Rightarrow> pstate \<times> outbox \<times> resource option" where
  "processar_mensagem_p2 c escolha m s =
     (let s1 = s\<lparr>relogio_local := atualizar_relogio_p2 (relogio_local s) (timestamp m)\<rparr>
      in if tipo m = ''requisicao'' then
           (if recurso_ocupado s1 \<or>
               (esperando_recurso s1 = Some (recurso m) \<and>
                (timestamp m, id_msg m) < (relogio_local s1, id_processo c))
            then (case enviar_nack c (id_msg m) (recurso m) (s1\<lparr>fila_recurso := fila_recurso s1 @ [m]\<rparr>) of
                    (s2, o2) \<Rightarrow> (s2, o2, None))
            else (case enviar_ack_p2 c (id_msg m) (recurso m) s1 of (s2, o2) \<Rightarrow> (s2, o2, None)))
         else if tipo m = ''ack'' then
           (case respostas_esperadas s1 (recurso m) of
              Some ps \<Rightarrow> (s1\<lparr>respostas_esperadas :=
                             (respostas_esperadas s1)(recurso m \<mapsto> ps - {id_msg m})\<rparr>, [], None)
            | None \<Rightarrow> (s1, [], None))
         else if tipo m = ''nack'' then
           (s1, [], if escolha = ''1'' then Some (recurso m) else None)
         else (s1, [], None))"

lemma atualizar_relogio_p2_eq [simp]: "atualizar_relogio_p2 = atualizar_relogio"
  by (simp add: fun_eq_iff atualizar_relogio_p2_def atualizar_relogio_def)

lemma multicast_requisicao_p2_eq [simp]: "multicast_requisicao_p2 = multicast_requisicao"
  by (simp add: fun_eq_iff multicast_requisicao_p2_def multicast_requisicao_def requisicao_def)

lemma enviar_ack_p2_eq [simp]: "enviar_ack_p2 = enviar_ack"
  by (simp add: fun_eq_iff enviar_ack_p2_def ack_msg_def enviar_mensagem_def Let_def)

lemma enviar_nack_simps [simp]:
  "enviar_nack c d r s = (s\<lparr>relogio_local := relogio_local s + 1\<rparr>,
     [(d, nack_msg r (relogio_local s + 1) (id_processo c))])"
  by (simp add: enviar_nack_def enviar_mensagem_def Let_def)

text \<open>C19: Refinement of the baseline: the variant's handler is the baseline's
  \<open>processar_mensagem\<close> followed by one \<open>nack\<close> to the sender of each deferred request
  (stamped with the clock advanced once more), and on a \<open>nack\<close> the start of a waiter
  thread when the operator answers ``1''; on every other message the two agree.\<close>

theorem processar_mensagem_p2_refina:
  "processar_mensagem_p2 c escolha m s =
     (case processar_mensagem c m s of (s1, o1) \<Rightarrow>
        if tipo m = ''requisicao'' \<and> o1 = [] then
          (s1\<lparr>relogio_local := relogio_local s1 + 1\<rparr>,
           [(id_msg m, nack_msg (recurso m) (relogio_local s1 + 1) (id_processo c))], None)
        else if tipo m = ''nack'' then (s1, [], if escolha = ''1'' then Some (recurso m) else None)
        else (s1, o1, None))"
  by (auto simp: processar_mensagem_p2_def processar_mensagem_def Let_def split: option.splits)

text \<open>C17: Releasing in the variant acknowledges only the oldest deferred request and discards
  the rest of the queue: those senders are never answered.\<close>

theorem sair_recurso_critico_p2_descarta:
  assumes "recurso_ocupado s" and "esperando_recurso s = Some r" and "fila_recurso s = m # ms"
  shows "sair_recurso_critico_p2 c r s =
    (s\<lparr>recurso_ocupado := False, esperando_recurso := None, fila_recurso := [],
       relogio_local := relogio_local s + 1\<rparr>,
     [(id_msg m, ack_msg r (relogio_local s + 1) (id_processo c))])"
  using assms by (simp add: sair_recurso_critico_p2_def)

text \<open>C18: A \<open>nack\<close> answered with ``1'' restarts the request: once the waiter thread's loop
  exits (the process holds nothing), it calls \<open>entrar_recurso_critico\<close> again, which
  broadcasts a new request and resets the pending set to all other peers, discarding the
  acknowledgements already collected.\<close>

theorem nack_reinicia_pedido:
  assumes "\<not> recurso_ocupado s"
  shows "\<exists>s1 s2 out. processar_mensagem_p2 c ''1'' (nack_msg r t q) s = (s1, [], Some r) \<and>
    aguardar_recurso c r e s1 = Some (Requisitou (s2, out)) \<and>
    respostas_esperadas s2 r = Some (set (processos c) - {id_processo c}) \<and>
    map fst out = filter (\<lambda>d. d \<noteq> id_processo c) (processos c)"
proof -
  let ?s1 = "s\<lparr>relogio_local := atualizar_relogio (relogio_local s) t\<rparr>"
  obtain s2 out where M: "multicast_requisicao c r (?s1\<lparr>esperando_recurso := Some r\<rparr>) = (s2, out)"
    by (cases "multicast_requisicao c r (?s1\<lparr>esperando_recurso := Some r\<rparr>)")
  have "respostas_esperadas s2 r = Some (set (processos c) - {id_processo c})"
    using multicast_requisicao_state[of c r "?s1\<lparr>esperando_recurso := Some r\<rparr>"] M by simp
  moreover have "map fst out = filter (\<lambda>d. d \<noteq> id_processo c) (processos c)"
    using multicast_requisicao_out[of c r "?s1\<lparr>esperando_recurso := Some r\<rparr>"] M by (simp add: comp_def)
  moreover have "processar_mensagem_p2 c ''1'' (nack_msg r t q) s = (?s1, [], Some r)"
    by (simp add: processar_mensagem_p2_def)
  moreover have "aguardar_recurso c r e ?s1 = Some (Requisitou (s2, out))"
    using assms M by (simp add: aguardar_recurso_def entrar_recurso_critico_p2_def)
  ultimately show ?thesis by blast
qed

text \<open>\<open>p1\<close> holding \<open>r1\<close> with \<open>p2\<close>'s request and \<open>p3\<close>'s queued: only \<open>p2\<close>
  is answered.  And \<open>p1\<close> requesting \<open>r1\<close> with \<open>p2\<close>'s acknowledgement in hand: a \<open>nack\<close>
  from \<open>p3\<close> answered ``1'' puts \<open>p2\<close> back into the pending set.\<close>

theorem sair_recurso_critico_p2_descarta_exemplo:
  "recurso_ocupado estado_detendo \<and> esperando_recurso estado_detendo = Some ''r1'' \<and>
   fila_recurso estado_detendo = [requisicao ''r1'' 3 ''p2'', requisicao ''r2'' 4 ''p3''] \<and>
   sair_recurso_critico_p2 cfg_p1 ''r1'' estado_detendo =
     (estado_detendo\<lparr>recurso_ocupado := False, esperando_recurso := None, fila_recurso := [],
        relogio_local := 6\<rparr>, [(''p2'', ack_msg ''r1'' 6 ''p1'')])"
  using sair_recurso_critico_p2_descarta[of estado_detendo "''r1''" "requisicao ''r1'' 3 ''p2''"
      "[requisicao ''r2'' 4 ''p3'']" cfg_p1]
  by (simp add: estado_detendo_def cfg_p1_def)

theorem nack_reinicia_pedido_exemplo:
  "\<not> recurso_ocupado (estado_requisitando\<lparr>respostas_esperadas := [''r1'' \<mapsto> {''p3''}]\<rparr>) \<and>
   (\<exists>s1 s2 out.
      processar_mensagem_p2 cfg_p1 ''1'' (nack_msg ''r1'' 7 ''p3'')
        (estado_requisitando\<lparr>respostas_esperadas := [''r1'' \<mapsto> {''p3''}]\<rparr>) = (s1, [], Some ''r1'') \<and>
      aguardar_recurso cfg_p1 ''r1'' ''2'' s1 = Some (Requisitou (s2, out)) \<and>
      respostas_esperadas s2 ''r1'' = Some {''p2'', ''p3''} \<and> map fst out = [''p2'', ''p3''])"
  using nack_reinicia_pedido[of "estado_requisitando\<lparr>respostas_esperadas := [''r1'' \<mapsto> {''p3''}]\<rparr>"
      cfg_p1 "''r1''" 7 "''p3''" "''2''"]
  by (simp add: estado_requisitando_def cfg_p1_def insert_Diff_if)

end
