(* ===== verification/NackSystem.thy ===== *)
theory NackSystem
  imports NackVariant Network
begin

text \<open>
  A system of peers running \<^verbatim>\<open>src/p2.py\<close>.  Unlike p1.py, a p2.py peer runs more than two
  threads, and the model keeps each one's position:
  \<^item> the operator thread (\<open>interface_usuario\<close>, lines 222--234) is \<open>OpPronto\<close> at its
    prompt, or \<open>OpAcks r\<close> inside \<open>entrar_recurso_critico(r)\<close>, in the loop
    \<open>while respostas_esperadas[recurso]\<close> (lines 137--139);
  \<^item> each thread started on \<open>aguardar_recurso(r)\<close> (lines 108--113, started at lines 127 and
    203) is \<open>TSpin r\<close> in its loop \<open>while recurso_ocupado\<close>, or \<open>TAcks r\<close> in the
    acknowledgement loop of the \<open>entrar_recurso_critico(r)\<close> it then calls; a peer has a
    multiset of them;
  \<^item> the server thread (\<open>servidor\<close>, lines 209--219) handles one message at a time with
    \<open>processar_mensagem_p2\<close>; the operator's answer to the prompt a \<open>nack\<close> raises is a
    parameter of the step.
  Every thread in an acknowledgement loop for \<open>r\<close> leaves it when the pending set of
  \<open>r\<close> is empty and sets \<open>recurso_ocupado\<close>, whatever resource the peer is requesting by
  then: \<open>conceder_recurso r\<close> only looks at the pending set of \<open>r\<close>.  The network is the
  one of theory \<open>Network\<close>.
\<close>

datatype fio_operador = OpPronto | OpAcks resource

datatype fio_espera = TSpin resource | TAcks resource

record sistema2 =
  procs2 :: "peer \<Rightarrow> pstate"
  rede2 :: "(peer \<times> msg) multiset"
  operador :: "peer \<Rightarrow> fio_operador"
  esperas :: "peer \<Rightarrow> fio_espera multiset"

definition sistema2_inicial :: sistema2 where
  "sistema2_inicial = \<lparr>procs2 = (\<lambda>_. estado_inicial), rede2 = {#},
     operador = (\<lambda>_. OpPronto), esperas = (\<lambda>_. {#})\<rparr>"

definition atualiza2 :: "sistema2 \<Rightarrow> peer \<Rightarrow> pstate \<Rightarrow> outbox \<Rightarrow> sistema2" where
  "atualiza2 S p s' out = S\<lparr>procs2 := (procs2 S)(p := s'), rede2 := rede2 S + mset out\<rparr>"

definition com_operador :: "sistema2 \<Rightarrow> peer \<Rightarrow> fio_operador \<Rightarrow> sistema2" where
  "com_operador S p f = S\<lparr>operador := (operador S)(p := f)\<rparr>"

definition com_esperas :: "sistema2 \<Rightarrow> peer \<Rightarrow> fio_espera multiset \<Rightarrow> sistema2" where
  "com_esperas S p W = S\<lparr>esperas := (esperas S)(p := W)\<rparr>"

text \<open>The waiter thread a handler starts, if any.\<close>

definition novas_esperas :: "resource option \<Rightarrow> fio_espera multiset" where
  "novas_esperas w = (case w of None \<Rightarrow> {#} | Some r \<Rightarrow> {#TSpin r#})"

inductive passo2 :: "peer list \<Rightarrow> sistema2 \<Rightarrow> sistema2 \<Rightarrow> bool" for ps where
  solicitar:
    "\<lbrakk>p \<in> set ps; operador S p = OpPronto;
      entrar_recurso_critico_p2 (cfg_de ps p) r escolha (procs2 S p) = Requisitou (s', out)\<rbrakk>
     \<Longrightarrow> passo2 ps S (com_operador (atualiza2 S p s' out) p (OpAcks r))"
| aguardar:
    "\<lbrakk>p \<in> set ps; operador S p = OpPronto;
      entrar_recurso_critico_p2 (cfg_de ps p) r escolha (procs2 S p) = AguardaLiberacao\<rbrakk>
     \<Longrightarrow> passo2 ps S (com_esperas S p (add_mset (TSpin r) (esperas S p)))"
| conceder_operador:
    "\<lbrakk>operador S p = OpAcks r; conceder_recurso r (procs2 S p) = Some s'\<rbrakk>
     \<Longrightarrow> passo2 ps S (com_operador (atualiza2 S p s' []) p OpPronto)"
| retomar:
    "\<lbrakk>TSpin r \<in># esperas S p;
      aguardar_recurso (cfg_de ps p) r escolha (procs2 S p) = Some (Requisitou (s', out))\<rbrakk>
     \<Longrightarrow> passo2 ps S (com_esperas (atualiza2 S p s' out) p (add_mset (TAcks r) (esperas S p - {#TSpin r#})))"
| conceder_espera:
    "\<lbrakk>TAcks r \<in># esperas S p; conceder_recurso r (procs2 S p) = Some s'\<rbrakk>
     \<Longrightarrow> passo2 ps S (com_esperas (atualiza2 S p s' []) p (esperas S p - {#TAcks r#}))"
| liberar:
    "\<lbrakk>p \<in> set ps; operador S p = OpPronto;
      sair_recurso_critico_p2 (cfg_de ps p) r (procs2 S p) = (s', out)\<rbrakk>
     \<Longrightarrow> passo2 ps S (atualiza2 S p s' out)"
| entregar:
    "\<lbrakk>(p, m) \<in># rede2 S;
      processar_mensagem_p2 (cfg_de ps p) escolha m (procs2 S p) = (s', out, w)\<rbrakk>
     \<Longrightarrow> passo2 ps S (com_esperas (atualiza2 (S\<lparr>rede2 := rede2 S - {#(p, m)#}\<rparr>) p s' out) p
                       (esperas S p + novas_esperas w))"
| perder:
    "x \<in># rede2 S \<Longrightarrow> passo2 ps S (S\<lparr>rede2 := rede2 S - {#x#}\<rparr>)"

inductive alcancavel2 :: "peer list \<Rightarrow> sistema2 \<Rightarrow> bool" for ps where
  inicio: "alcancavel2 ps sistema2_inicial"
| passo: "alcancavel2 ps S \<Longrightarrow> passo2 ps S S' \<Longrightarrow> alcancavel2 ps S'"

datatype evento2 =
    Solicitar2 peer resource string
  | ConcederOperador peer
  | Retomar2 peer resource
  | ConcederEspera peer resource
  | Liberar2 peer resource
  | Entregar2 peer string msg
  | Perder2 peer msg

fun passo2_exec :: "peer list \<Rightarrow> evento2 \<Rightarrow> sistema2 \<Rightarrow> sistema2 option" where
  "passo2_exec ps (Solicitar2 p r escolha) S =
     (if p \<in> set ps \<and> operador S p = OpPronto then
        (case entrar_recurso_critico_p2 (cfg_de ps p) r escolha (procs2 S p) of
           Desistiu \<Rightarrow> Some S
         | AguardaLiberacao \<Rightarrow> Some (com_esperas S p (add_mset (TSpin r) (esperas S p)))
         | Requisitou (s', out) \<Rightarrow> Some (com_operador (atualiza2 S p s' out) p (OpAcks r)))
      else None)"
| "passo2_exec ps (ConcederOperador p) S =
     (case operador S p of
        OpPronto \<Rightarrow> None
      | OpAcks r \<Rightarrow> map_option (\<lambda>s'. com_operador (atualiza2 S p s' []) p OpPronto)
                     (conceder_recurso r (procs2 S p)))"
| "passo2_exec ps (Retomar2 p r) S =
     (if TSpin r \<in># esperas S p then
        (case aguardar_recurso (cfg_de ps p) r '''' (procs2 S p) of
           Some (Requisitou (s', out)) \<Rightarrow>
             Some (com_esperas (atualiza2 S p s' out) p (add_mset (TAcks r) (esperas S p - {#TSpin r#})))
         | _ \<Rightarrow> None)
      else None)"
| "passo2_exec ps (ConcederEspera p r) S =
     (if TAcks r \<in># esperas S p then
        map_option (\<lambda>s'. com_esperas (atualiza2 S p s' []) p (esperas S p - {#TAcks r#}))
          (conceder_recurso r (procs2 S p))
      else None)"
| "passo2_exec ps (Liberar2 p r) S =
     (if p \<in> set ps \<and> operador S p = OpPronto then
        (case sair_recurso_critico_p2 (cfg_de ps p) r (procs2 S p) of
           (s', out) \<Rightarrow> Some (atualiza2 S p s' out))
      else None)"
| "passo2_exec ps (Entregar2 p escolha m) S =
     (if (p, m) \<in># rede2 S then
        (case processar_mensagem_p2 (cfg_de ps p) escolha m (procs2 S p) of
           (s', out, w) \<Rightarrow>
             Some (com_esperas (atualiza2 (S\<lparr>rede2 := rede2 S - {#(p, m)#}\<rparr>) p s' out) p
                     (esperas S p + novas_esperas w)))
      else None)"
| "passo2_exec ps (Perder2 p m) S =
     (if (p, m) \<in># rede2 S then Some (S\<lparr>rede2 := rede2 S - {#(p, m)#}\<rparr>) else None)"

fun executar2 :: "peer list \<Rightarrow> evento2 list \<Rightarrow> sistema2 \<Rightarrow> sistema2 option" where
  "executar2 ps [] S = Some S"
| "executar2 ps (e # es) S = (case passo2_exec ps e S of None \<Rightarrow> None | Some S' \<Rightarrow> executar2 ps es S')"

definition pendentes_definidos :: "sistema2 \<Rightarrow> bool" where
  "pendentes_definidos S \<longleftrightarrow>
     (\<forall>p r. operador S p = OpAcks r \<longrightarrow> respostas_esperadas (procs2 S p) r \<noteq> None) \<and>
     (\<forall>p r. TAcks r \<in># esperas S p \<longrightarrow> respostas_esperadas (procs2 S p) r \<noteq> None)"

lemma passo2_exec_passo2:
  assumes "passo2_exec ps e S = Some S'"
  shows "passo2 ps S S' \<or> S' = S"
proof (cases e)
  case (Solicitar2 p r escolha)
  then show ?thesis using assms
    by (auto split: if_splits entrar_res.splits intro: passo2.solicitar passo2.aguardar)
next
  case (ConcederOperador p)
  then show ?thesis using assms
    by (auto split: fio_operador.splits intro: passo2.conceder_operador)
next
  case (Retomar2 p r)
  then show ?thesis using assms
    by (auto split: if_splits option.splits entrar_res.splits intro: passo2.retomar)
next
  case (ConcederEspera p r)
  then show ?thesis using assms by (auto split: if_splits intro: passo2.conceder_espera)
next
  case (Liberar2 p r)
  then show ?thesis using assms by (auto split: if_splits prod.splits intro: passo2.liberar)
next
  case (Entregar2 p escolha m)
  then show ?thesis using assms by (auto split: if_splits prod.splits intro: passo2.entregar)
next
  case (Perder2 p m)
  then show ?thesis using assms by (auto split: if_splits intro: passo2.perder)
qed

lemma executar2_alcancavel2:
  "alcancavel2 ps S \<Longrightarrow> executar2 ps es S = Some S' \<Longrightarrow> alcancavel2 ps S'"
proof (induction es arbitrary: S)
  case (Cons e es)
  then obtain S1 where e: "passo2_exec ps e S = Some S1" and r: "executar2 ps es S1 = Some S'"
    by (auto split: option.splits)
  have "alcancavel2 ps S1"
    using passo2_exec_passo2[OF e] Cons.prems(1) by (auto intro: alcancavel2.passo)
  then show ?case using r by (rule Cons.IH)
qed simp

subsection \<open>What the steps do to one peer\<close>

lemma processar_p2_mantem:
  "processar_mensagem_p2 c e m s = (s', out, w) \<Longrightarrow>
     esperando_recurso s' = esperando_recurso s \<and> recurso_ocupado s' = recurso_ocupado s"
  by (auto simp: processar_mensagem_p2_def Let_def split: if_splits option.splits)

lemma entrar_p2_Requisitou:
  "entrar_recurso_critico_p2 c r e s = Requisitou (s', out) \<Longrightarrow>
     \<not> recurso_ocupado s \<and> esperando_recurso s' = Some r \<and> recurso_ocupado s' = recurso_ocupado s \<and>
     respostas_esperadas s' = (respostas_esperadas s)(r \<mapsto> set (processos c) - {id_processo c})"
  by (auto simp: entrar_recurso_critico_p2_def multicast_requisicao_def Let_def split: if_splits)

lemma aguardar_Requisitou:
  "aguardar_recurso c r e s = Some (Requisitou (s', out)) \<Longrightarrow>
     entrar_recurso_critico_p2 c r e s = Requisitou (s', out)"
  by (auto simp: aguardar_recurso_def split: if_splits)

lemma conceder_efeito:
  "conceder_recurso r s = Some s' \<Longrightarrow> s' = s\<lparr>recurso_ocupado := True\<rparr> \<and> respostas_esperadas s r = Some {}"
  by (auto simp: conceder_recurso_def split: option.splits if_splits)

lemma sair_p2_efeito:
  "sair_recurso_critico_p2 c r s = (s', out) \<Longrightarrow>
     (recurso_ocupado s \<and> esperando_recurso s = Some r \<and> \<not> recurso_ocupado s' \<and>
      esperando_recurso s' = None \<and> respostas_esperadas s' = respostas_esperadas s) \<or> s' = s"
  by (auto simp: sair_recurso_critico_p2_def Let_def split: if_splits list.splits)

lemma processar_p2_pendentes:
  "processar_mensagem_p2 c e m s = (s', out, w) \<Longrightarrow>
     respostas_esperadas s r \<noteq> None \<Longrightarrow> respostas_esperadas s' r \<noteq> None"
  by (auto simp: processar_mensagem_p2_def Let_def split: if_splits option.splits)

lemmas efeitos_p2 = processar_p2_mantem entrar_p2_Requisitou conceder_efeito sair_p2_efeito

subsection \<open>The pending set a waiting thread reads always exists\<close>

text \<open>\<open>respostas_esperadas[recurso]\<close> in the loop of line 137 would raise \<open>KeyError\<close> if the
  entry were missing.  Entries are only ever added or replaced, and a thread only enters the
  loop after \<open>multicast_requisicao\<close> created the entry.\<close>

lemma passo2_pendentes:
  assumes "passo2 ps S S'" and "respostas_esperadas (procs2 S p) r \<noteq> None"
  shows "respostas_esperadas (procs2 S' p) r \<noteq> None"
  using assms(1)
proof cases
  case (solicitar q r' e s' out)
  then show ?thesis using assms(2) entrar_p2_Requisitou[OF solicitar(4)]
    by (auto simp: com_operador_def atualiza2_def)
next
  case (retomar r' q e s' out)
  then show ?thesis using assms(2) entrar_p2_Requisitou[OF aguardar_Requisitou[OF retomar(3)]]
    by (auto simp: com_esperas_def atualiza2_def)
next
  case (conceder_operador q r' s')
  then show ?thesis using assms(2) conceder_efeito[OF conceder_operador(3)]
    by (auto simp: com_operador_def atualiza2_def)
next
  case (conceder_espera r' q s')
  then show ?thesis using assms(2) conceder_efeito[OF conceder_espera(3)]
    by (auto simp: com_esperas_def atualiza2_def)
next
  case (liberar q r' s' out)
  then show ?thesis using assms(2) sair_p2_efeito[OF liberar(4)] by (auto simp: atualiza2_def)
next
  case (entregar q m e s' out w)
  then show ?thesis using assms(2) processar_p2_pendentes[OF entregar(3)]
    by (auto simp: com_esperas_def atualiza2_def)
qed (use assms(2) in \<open>auto simp: com_esperas_def\<close>)

lemma pendentes_definidos_inicial: "pendentes_definidos sistema2_inicial"
  by (simp add: pendentes_definidos_def sistema2_inicial_def)

lemma operador_passo2:
  assumes "passo2 ps S S'" and "operador S' p = OpAcks r"
  shows "operador S p = OpAcks r \<or> respostas_esperadas (procs2 S' p) r \<noteq> None"
  using assms(1)
proof cases
  case (solicitar q r' e s' out)
  then show ?thesis using assms(2) entrar_p2_Requisitou[OF solicitar(4)]
    by (auto simp: com_operador_def atualiza2_def split: if_splits)
next
  case (conceder_operador q r' s')
  then show ?thesis using assms(2) by (auto simp: com_operador_def atualiza2_def split: if_splits)
qed (use assms(2) in \<open>auto simp: com_operador_def com_esperas_def atualiza2_def\<close>)

lemma esperas_passo2:
  assumes "passo2 ps S S'" and "TAcks r \<in># esperas S' p"
  shows "TAcks r \<in># esperas S p \<or> respostas_esperadas (procs2 S' p) r \<noteq> None"
  using assms(1)
proof cases
  case (aguardar q r' e)
  then show ?thesis using assms(2) by (auto simp: com_esperas_def split: if_splits)
next
  case (retomar r' q e s' out)
  then show ?thesis using assms(2) entrar_p2_Requisitou[OF aguardar_Requisitou[OF retomar(3)]]
    by (auto simp: com_esperas_def atualiza2_def split: if_splits dest: in_diffD)
next
  case (conceder_espera r' q s')
  then show ?thesis using assms(2)
    by (auto simp: com_esperas_def atualiza2_def split: if_splits dest: in_diffD)
next
  case (entregar q m e s' out w)
  then show ?thesis using assms(2)
    by (auto simp: com_esperas_def atualiza2_def novas_esperas_def split: if_splits option.splits)
qed (use assms(2) in \<open>auto simp: com_operador_def atualiza2_def\<close>)

lemma pendentes_definidos_passo:
  assumes "passo2 ps S S'" and I: "pendentes_definidos S"
  shows "pendentes_definidos S'"
  unfolding pendentes_definidos_def
proof (intro conjI allI impI)
  fix p r
  show "respostas_esperadas (procs2 S' p) r \<noteq> None" if "operador S' p = OpAcks r"
    using operador_passo2[OF assms(1) that] I passo2_pendentes[OF assms(1)]
    unfolding pendentes_definidos_def by blast
  show "respostas_esperadas (procs2 S' p) r \<noteq> None" if "TAcks r \<in># esperas S' p"
    using esperas_passo2[OF assms(1) that] I passo2_pendentes[OF assms(1)]
    unfolding pendentes_definidos_def by blast
qed

text \<open>C13: In every reachable state of a system of p2.py peers, each thread in the
  acknowledgement loop of \<open>entrar_recurso_critico(r)\<close> (the operator thread or a waiter
  thread) finds an entry for \<open>r\<close> in \<open>respostas_esperadas\<close>: the lookup of line 137 never
  raises \<open>KeyError\<close>.\<close>

theorem alcancavel2_pendentes:
  assumes "alcancavel2 ps S"
  shows "(operador S p = OpAcks r \<longrightarrow> respostas_esperadas (procs2 S p) r \<noteq> None) \<and>
         (TAcks r \<in># esperas S p \<longrightarrow> respostas_esperadas (procs2 S p) r \<noteq> None)"
proof -
  have "pendentes_definidos S"
    using assms by (induction rule: alcancavel2.induct) (auto intro: pendentes_definidos_inicial pendentes_definidos_passo)
  then show ?thesis by (simp add: pendentes_definidos_def)
qed

subsection \<open>A flag set with no resource\<close>

text \<open>A peer whose \<open>recurso_ocupado\<close> is set while \<open>esperando_recurso\<close> is \<open>None\<close>
  keeps that state for ever: \<open>sair_recurso_critico\<close> needs a requested resource, and the
  only functions that change \<open>esperando_recurso\<close> start with \<open>recurso_ocupado\<close> clear.\<close>

lemma fantasma_passo2:
  assumes "passo2 ps S S'" and "recurso_ocupado (procs2 S p)" and "esperando_recurso (procs2 S p) = None"
  shows "recurso_ocupado (procs2 S' p) \<and> esperando_recurso (procs2 S' p) = None"
  using assms(1)
proof cases
  case (solicitar q r' e s' out)
  then show ?thesis using assms(2,3) entrar_p2_Requisitou[OF solicitar(4)]
    by (auto simp: com_operador_def atualiza2_def)
next
  case (retomar r' q e s' out)
  then show ?thesis using assms(2,3) entrar_p2_Requisitou[OF aguardar_Requisitou[OF retomar(3)]]
    by (auto simp: com_esperas_def atualiza2_def)
next
  case (conceder_operador q r' s')
  then show ?thesis using assms(2,3) conceder_efeito[OF conceder_operador(3)]
    by (auto simp: com_operador_def atualiza2_def)
next
  case (conceder_espera r' q s')
  then show ?thesis using assms(2,3) conceder_efeito[OF conceder_espera(3)]
    by (auto simp: com_esperas_def atualiza2_def)
next
  case (liberar q r' s' out)
  then show ?thesis using assms(2,3) sair_p2_efeito[OF liberar(4)] by (auto simp: atualiza2_def)
next
  case (entregar q m e s' out w)
  then show ?thesis using assms(2,3) processar_p2_mantem[OF entregar(3)]
    by (auto simp: com_esperas_def atualiza2_def)
qed (use assms(2,3) in \<open>auto simp: com_esperas_def\<close>)

lemma fantasma_rtranclp:
  assumes "(passo2 ps)\<^sup>*\<^sup>* S S'" and "recurso_ocupado (procs2 S p)" and "esperando_recurso (procs2 S p) = None"
  shows "recurso_ocupado (procs2 S' p) \<and> esperando_recurso (procs2 S' p) = None"
  using assms(1)
proof (induction rule: rtranclp_induct)
  case (step T T')
  then show ?case using fantasma_passo2[of ps T T' p] by simp
qed (use assms(2,3) in simp)

end
