(* ===== verification/WellFormed.thy ===== *)
theory WellFormed
  imports Scenarios
begin

text \<open>
  Well-formedness of one peer's globals in \<^verbatim>\<open>src/p1.py\<close>: a peer that holds a resource
  has a requested resource (\<open>sair_recurso_critico\<close> compares against it), a requested
  resource has its entry in \<open>respostas_esperadas\<close> (the busy-wait of line 123 reads
  \<open>respostas_esperadas[recurso]\<close> and would raise \<open>KeyError\<close> without it), and the
  Lamport clock is not negative.  Every function of the peer preserves it, and so every
  reachable state of the system is well formed.
\<close>

definition wf_pstate :: "pstate \<Rightarrow> bool" where
  "wf_pstate s \<longleftrightarrow>
     (case esperando_recurso s of
        None \<Rightarrow> \<not> recurso_ocupado s
      | Some r \<Rightarrow> respostas_esperadas s r \<noteq> None) \<and> 0 \<le> relogio_local s"

lemma wf_estado_inicial: "wf_pstate estado_inicial"
  by (simp add: wf_pstate_def estado_inicial_def)

lemma wf_entrar:
  "wf_pstate s \<Longrightarrow> entrar_recurso_critico c r e s = Requisitou (s', out) \<Longrightarrow> wf_pstate s'"
  by (drule entrar_Requisitou) (simp add: wf_pstate_def)

lemma wf_conceder:
  "wf_pstate s \<Longrightarrow> esperando_recurso s = Some r \<Longrightarrow> conceder_recurso r s = Some s' \<Longrightarrow> wf_pstate s'"
  by (auto simp: wf_pstate_def conceder_recurso_def split: option.splits if_splits)

lemma wf_sair:
  "wf_pstate s \<Longrightarrow> sair_recurso_critico c r s = (s', out) \<Longrightarrow> wf_pstate s'"
  by (auto simp: wf_pstate_def sair_recurso_critico_def drenar_fila_eq split: if_splits)

lemma wf_processar:
  assumes "wf_pstate s" and "processar_mensagem c m s = (s', out)"
  shows "wf_pstate s'"
proof -
  have "relogio_local s < atualizar_relogio (relogio_local s) (timestamp m)"
    by (rule atualizar_relogio_gt_clock)
  then show ?thesis using assms
    by (auto simp: wf_pstate_def processar_mensagem_def Let_def split: if_splits option.splits)
qed

lemma wf_passo:
  assumes "passo ps S S'" and W: "\<forall>q. wf_pstate (procs S q)"
  shows "wf_pstate (procs S' p)"
  using assms(1)
proof cases
  case (solicitar q r e s' out)
  then show ?thesis using W wf_entrar[of "procs S q" _ r e s' out] by simp
next
  case (retomar q r e s' out)
  then show ?thesis using W wf_entrar[of "procs S q" _ r e s' out] by simp
next
  case (conceder q r s')
  then show ?thesis using W wf_conceder[of "procs S q" r s'] by simp
next
  case (liberar q r s' out)
  then show ?thesis using W wf_sair[of "procs S q" _ r s' out] by simp
next
  case (entregar q m s' out)
  then show ?thesis using W wf_processar[of "procs S q" _ m s' out] by simp
qed (use W in simp_all)

lemma cenario_spec_detem:
  "\<exists>S. executar ps3 (take 6 cenario_spec) sistema_inicial = Some S \<and> detem (procs S ''p1'') ''r1''"
  by (simp add: cenario_spec_def executar_simps)

text \<open>C3: Type invariant of a peer: in every reachable state of a system of p1.py peers, each
  peer's globals are well formed, so the lookup \<open>respostas_esperadas[recurso]\<close> of the
  busy-wait never raises \<open>KeyError\<close> and a held resource is always a requested one.\<close>

theorem alcancavel_wf:
  assumes "alcancavel ps S"
  shows "wf_pstate (procs S p)"
proof -
  have "\<forall>q. wf_pstate (procs S q)"
    using assms
  proof (induction rule: alcancavel.induct)
    case inicio
    then show ?case by (simp add: sistema_inicial_def wf_estado_inicial)
  next
    case (passo S S')
    then show ?case using wf_passo by blast
  qed
  then show ?thesis by blast
qed

theorem alcancavel_wf_exemplo:
  "\<exists>S. alcancavel ps3 S \<and> esperando_recurso (procs S ''p1'') = Some ''r1'' \<and>
     recurso_ocupado (procs S ''p1'') \<and> wf_pstate (procs S ''p1'') \<and>
     respostas_esperadas (procs S ''p1'') ''r1'' \<noteq> None"
proof -
  obtain S where E: "executar ps3 (take 6 cenario_spec) sistema_inicial = Some S"
    and D: "detem (procs S ''p1'') ''r1''"
    using cenario_spec_detem by blast
  have A: "alcancavel ps3 S" using executar_alcancavel[OF alcancavel.inicio E] .
  have W: "wf_pstate (procs S ''p1'')" by (rule alcancavel_wf[OF A])
  then show ?thesis using A D by (auto simp: detem_def wf_pstate_def)
qed

end
