(* ===== verification/NackScenarios.thy ===== *)
theory NackScenarios
  imports NackSystem WellFormed
begin

text \<open>
  Concrete runs of three p2.py peers (\<open>ps3\<close>), evaluated by \<open>simp\<close> with
  \<open>executar2\<close>.  In the first run, a \<open>nack\<close> answered ``1'' leaves a waiter thread of
  \<open>p1\<close> in the acknowledgement loop for \<open>r2\<close> after \<open>p1\<close> has used and released
  \<open>r2\<close>.  That thread re-requests \<open>r2\<close> and collects its acknowledgements.  When its
  pending set empties it grants, although by then \<open>p1\<close>'s operator is requesting
  \<open>r1\<close>, which \<open>p2\<close> holds.  In the second run the stale waiter grants after the
  operator released, so \<open>recurso_ocupado\<close> is set with no requested resource.
\<close>

definition cenario_p2_violacao :: "evento2 list" where
  "cenario_p2_violacao =
     [Solicitar2 ''p3'' ''r2'' '''',
      Entregar2 ''p1'' '''' (requisicao ''r2'' 1 ''p3''),
      Entregar2 ''p2'' '''' (requisicao ''r2'' 1 ''p3''),
      Entregar2 ''p3'' '''' (ack_msg ''r2'' 3 ''p1''),
      Entregar2 ''p3'' '''' (ack_msg ''r2'' 3 ''p2''),
      ConcederOperador ''p3'',
      Solicitar2 ''p1'' ''r2'' '''',
      Entregar2 ''p2'' '''' (requisicao ''r2'' 4 ''p1''),
      Entregar2 ''p3'' '''' (requisicao ''r2'' 4 ''p1''),
      Entregar2 ''p1'' '''' (ack_msg ''r2'' 6 ''p2''),
      Liberar2 ''p3'' ''r2'',
      Entregar2 ''p1'' '''' (ack_msg ''r2'' 8 ''p3''),
      ConcederOperador ''p1'',
      Entregar2 ''p1'' ''1'' (nack_msg ''r2'' 7 ''p3''),
      Liberar2 ''p1'' ''r2'',
      Retomar2 ''p1'' ''r2'',
      Entregar2 ''p2'' '''' (requisicao ''r2'' 11 ''p1''),
      Entregar2 ''p3'' '''' (requisicao ''r2'' 11 ''p1''),
      Entregar2 ''p1'' '''' (ack_msg ''r2'' 13 ''p2''),
      Entregar2 ''p1'' '''' (ack_msg ''r2'' 13 ''p3''),
      Solicitar2 ''p2'' ''r1'' '''',
      Entregar2 ''p1'' '''' (requisicao ''r1'' 14 ''p2''),
      Entregar2 ''p3'' '''' (requisicao ''r1'' 14 ''p2''),
      Entregar2 ''p2'' '''' (ack_msg ''r1'' 17 ''p1''),
      Entregar2 ''p2'' '''' (ack_msg ''r1'' 16 ''p3''),
      ConcederOperador ''p2'',
      Solicitar2 ''p1'' ''r1'' '''',
      ConcederEspera ''p1'' ''r2'']"

definition cenario_p2_fantasma :: "evento2 list" where
  "cenario_p2_fantasma = take 6 cenario_p2_violacao @
     [Solicitar2 ''p1'' ''r2'' '''',
      Entregar2 ''p2'' '''' (requisicao ''r2'' 4 ''p1''),
      Entregar2 ''p3'' '''' (requisicao ''r2'' 4 ''p1''),
      Entregar2 ''p1'' '''' (ack_msg ''r2'' 6 ''p2''),
      Entregar2 ''p1'' ''1'' (nack_msg ''r2'' 7 ''p3''),
      Retomar2 ''p1'' ''r2'',
      Entregar2 ''p2'' '''' (requisicao ''r2'' 9 ''p1''),
      Entregar2 ''p3'' '''' (requisicao ''r2'' 9 ''p1''),
      Liberar2 ''p3'' ''r2'',
      Entregar2 ''p1'' '''' (ack_msg ''r2'' 11 ''p2''),
      Entregar2 ''p1'' '''' (ack_msg ''r2'' 12 ''p3''),
      Entregar2 ''p1'' '''' (nack_msg ''r2'' 11 ''p3''),
      ConcederOperador ''p1'',
      Liberar2 ''p1'' ''r2'',
      ConcederEspera ''p1'' ''r2'']"

lemmas executar2_simps = ps3_def sistema2_inicial_def estado_inicial_def cfg_de_def
  entrar_recurso_critico_p2_def aguardar_recurso_def multicast_requisicao_def Let_def
  enviar_mensagem_def processar_mensagem_p2_def atualizar_relogio_def atualiza2_def com_operador_def
  com_esperas_def novas_esperas_def conceder_recurso_def detem_def msg_defs sair_recurso_critico_p2_def
  insert_Diff_if

lemma cenario_p2_violacao_final:
  "\<exists>S. executar2 ps3 cenario_p2_violacao sistema2_inicial = Some S \<and>
     detem (procs2 S ''p1'') ''r1'' \<and> detem (procs2 S ''p2'') ''r1'' \<and>
     respostas_esperadas (procs2 S ''p1'') ''r1'' = Some {''p2'', ''p3''}"
  by (simp add: cenario_p2_violacao_def executar2_simps)

lemma cenario_p2_fantasma_final:
  "\<exists>S. executar2 ps3 cenario_p2_fantasma sistema2_inicial = Some S \<and>
     recurso_ocupado (procs2 S ''p1'') \<and> esperando_recurso (procs2 S ''p1'') = None \<and>
     rede2 S = {#} \<and> (\<forall>p. operador S p = OpPronto \<and> esperas S p = {#})"
  by (simp add: cenario_p2_fantasma_def cenario_p2_violacao_def executar2_simps)

lemma cenario_p2_pendentes:
  "\<exists>S. executar2 ps3 (take 27 cenario_p2_violacao) sistema2_inicial = Some S \<and>
     operador S ''p1'' = OpAcks ''r1'' \<and> TAcks ''r2'' \<in># esperas S ''p1''"
  by (simp add: cenario_p2_violacao_def executar2_simps)

text \<open>The state the phantom run reaches is not well formed in the sense of p1.py
  (\<open>wf_pstate\<close>): p2.py does not keep the type invariant every p1.py peer keeps.\<close>

lemma fantasma_mal_formado:
  "\<exists>S. alcancavel2 ps3 S \<and> \<not> wf_pstate (procs2 S ''p1'')"
proof -
  obtain S where E: "executar2 ps3 cenario_p2_fantasma sistema2_inicial = Some S"
    and O: "recurso_ocupado (procs2 S ''p1'')" and N: "esperando_recurso (procs2 S ''p1'') = None"
    using cenario_p2_fantasma_final by blast
  then show ?thesis
    using executar2_alcancavel2[OF alcancavel2.inicio E] by (auto simp: wf_pstate_def)
qed

text \<open>C2: p2.py breaks mutual exclusion: a reachable state of three p2.py peers has
  \<open>p1\<close> and \<open>p2\<close> both holding \<open>r1\<close>, while \<open>p1\<close> has not received a single
  acknowledgement for \<open>r1\<close>.  A stale waiter thread of \<open>p1\<close> for \<open>r2\<close> left its loop
  and set \<open>recurso_ocupado\<close> while \<open>esperando_recurso\<close> was \<open>r1\<close>.\<close>

theorem p2_viola_exclusao:
  "\<exists>S. alcancavel2 ps3 S \<and> detem (procs2 S ''p1'') ''r1'' \<and> detem (procs2 S ''p2'') ''r1'' \<and>
     respostas_esperadas (procs2 S ''p1'') ''r1'' = Some {''p2'', ''p3''}"
  using cenario_p2_violacao_final executar2_alcancavel2[OF alcancavel2.inicio] by blast

text \<open>C10: The phantom lock of p2.py: after the run \<open>cenario_p2_fantasma\<close>,
  \<open>p1\<close>'s \<open>recurso_ocupado\<close> stays set with no requested resource in every later state,
  whatever the peers do.  So from then on every \<open>solicitar\<close> of \<open>p1\<close> waits or gives
  up, and every \<open>liberar\<close> of \<open>p1\<close> is a no-op.\<close>

theorem fantasma_permanente:
  assumes "executar2 ps3 cenario_p2_fantasma sistema2_inicial = Some S" and "(passo2 ps3)\<^sup>*\<^sup>* S S'"
  shows "recurso_ocupado (procs2 S' ''p1'') \<and> esperando_recurso (procs2 S' ''p1'') = None \<and>
         (\<forall>r e x. entrar_recurso_critico_p2 (cfg_de ps3 ''p1'') r e (procs2 S' ''p1'') \<noteq> Requisitou x) \<and>
         (\<forall>r. sair_recurso_critico_p2 (cfg_de ps3 ''p1'') r (procs2 S' ''p1'') = (procs2 S' ''p1'', []))"
proof -
  have "recurso_ocupado (procs2 S ''p1'') \<and> esperando_recurso (procs2 S ''p1'') = None"
    using cenario_p2_fantasma_final assms(1) by auto
  then have "recurso_ocupado (procs2 S' ''p1'') \<and> esperando_recurso (procs2 S' ''p1'') = None"
    using fantasma_rtranclp[OF assms(2)] by blast
  then show ?thesis
    by (simp add: entrar_recurso_critico_p2_def sair_recurso_critico_p2_def)
qed

theorem alcancavel2_pendentes_exemplo:
  "\<exists>S. alcancavel2 ps3 S \<and> operador S ''p1'' = OpAcks ''r1'' \<and> TAcks ''r2'' \<in># esperas S ''p1'' \<and>
     respostas_esperadas (procs2 S ''p1'') ''r1'' \<noteq> None \<and>
     respostas_esperadas (procs2 S ''p1'') ''r2'' \<noteq> None"
proof -
  obtain S where E: "executar2 ps3 (take 27 cenario_p2_violacao) sistema2_inicial = Some S"
    and O: "operador S ''p1'' = OpAcks ''r1''" and T: "TAcks ''r2'' \<in># esperas S ''p1''"
    using cenario_p2_pendentes by blast
  have A: "alcancavel2 ps3 S" using executar2_alcancavel2[OF alcancavel2.inicio E] .
  show ?thesis
    using A O T alcancavel2_pendentes[OF A, of "''p1''" "''r1''"]
      alcancavel2_pendentes[OF A, of "''p1''" "''r2''"] by blast
qed

theorem fantasma_permanente_exemplo:
  "\<exists>S. executar2 ps3 cenario_p2_fantasma sistema2_inicial = Some S \<and> (passo2 ps3)\<^sup>*\<^sup>* S S \<and>
     rede2 S = {#} \<and> operador S ''p1'' = OpPronto \<and>
     recurso_ocupado (procs2 S ''p1'') \<and> esperando_recurso (procs2 S ''p1'') = None \<and>
     sair_recurso_critico_p2 (cfg_de ps3 ''p1'') ''r2'' (procs2 S ''p1'') = (procs2 S ''p1'', [])"
proof -
  obtain S where E: "executar2 ps3 cenario_p2_fantasma sistema2_inicial = Some S"
    and R: "rede2 S = {#}" and O: "operador S ''p1'' = OpPronto"
    using cenario_p2_fantasma_final by blast
  have T: "(passo2 ps3)\<^sup>*\<^sup>* S S" by simp
  show ?thesis using fantasma_permanente[OF E T] E T R O by blast
qed

end
