(* ===== verification/Spec2Isabelle.thy ===== *)
theory Spec2Isabelle
  imports Lamport Ausente ConversaoInt NackScenarios
begin

text \<open>
  \<^bold>\<open>A verification of the Mutual-Exclusion peers.\<close>

  The program is a Ricart--Agrawala style mutual exclusion among three peers.  Each peer is a
  Python script (\<^verbatim>\<open>src/p1.py\<close>; \<^verbatim>\<open>src/processo2.py\<close> is the same code under
  other peer names; \<^verbatim>\<open>src/p2.py\<close> is a variant with negative acknowledgements) with module
  globals for its state, a server thread (\<open>servidor\<close>) that handles one incoming
  connection at a time with \<open>processar_mensagem\<close>, and an operator thread
  (\<open>interface_usuario\<close>) that runs the commands \<open>solicitar r\<close> (\<open>entrar_recurso_critico\<close>)
  and \<open>liberar r\<close> (\<open>sair_recurso_critico\<close>).  Peers talk by one TCP connection per
  message, carrying a JSON dict with fields \<open>tipo\<close>, \<open>recurso\<close>, \<open>timestamp\<close>, \<open>id\<close>.

  \<^bold>\<open>Theories and what they model.\<close>
  \<^item> \<open>Prelude\<close>: peer and resource names as strings, Python tuple order, lemma
    collections and shared multiset lemmas.
  \<^item> \<open>Clock\<close>: \<open>atualizar_relogio\<close> (p1.py 53--55), the Lamport clock update.
  \<^item> \<open>Message\<close>: the message dict (record \<open>msg\<close>), its JSON object
    (\<open>mensagem_json\<close>, built as in \<open>multicast_requisicao\<close>/\<open>enviar_ack\<close>) and the four
    field reads of \<open>processar_mensagem\<close> (\<open>ler_campos\<close>, p1.py 149--152) with
    \<open>KeyError\<close> as an \<open>Inl\<close> value; \<open>tipo\<close> and \<open>timestamp\<close> are kept as the JSON
    values they are.
  \<^item> \<open>Process\<close>: one peer.  The globals (p1.py 41--45) are the record \<open>pstate\<close>;
    each function that changes them (\<open>multicast_requisicao\<close>, \<open>enviar_ack\<close>,
    \<open>entrar_recurso_critico\<close>, \<open>sair_recurso_critico\<close> with its drain loop
    \<open>drenar_fila\<close>, \<open>processar_mensagem\<close>) takes the state and returns the new state and the
    list of messages it sends.  The busy-wait for acknowledgements (lines 123--125) is
    \<open>conceder_recurso\<close>, enabled when the pending set is empty.
  \<^item> \<open>Network\<close>: all peers together (record \<open>sistema\<close>): their states, the messages in
    flight as a multiset (no ordering between connections), and the operator thread's
    position.  \<open>passo\<close> is the step relation (request, wait on a busy lock, resume,
    grant, release, deliver, lose a message) and \<open>passo_exec\<close>/\<open>executar\<close> the same
    steps as executable functions of events.
  \<^item> \<open>Invariants\<close>: the inductive invariant \<open>inv\<close> and mutual exclusion over all
    reachable states, by rule induction on \<open>alcancavel\<close>.
  \<^item> \<open>Liveness\<close>: states no step ever leaves: the mutual wait \<open>impasse\<close>, the wait
    for an acknowledgement already spent on another resource (\<open>abandonado\<close>), and the
    operator waiting on its own peer's lock (\<open>travado_rtranclp\<close>).
  \<^item> \<open>Scenarios\<close>: concrete three-peer runs evaluated by \<open>simp\<close>: the run the
    specification describes, two concurrent requests that deadlock, a request for a second
    resource answered with an acknowledgement for the first, and an operator who waits for a
    second resource while holding one.
  \<^item> \<open>Refinement\<close>: the specification's per-resource life cycle
    (\<open>Idle\<close>, \<open>Requesting\<close>, \<open>Held\<close>) as the abstraction \<open>estado_de\<close> of the two
    globals, its allowed transitions, and the system-level clock monotonicity.
  \<^item> \<open>Lamport\<close>: the clock condition for sends, \<open>carimbos_validos\<close>, over the
    messages in flight of a reachable system.
  \<^item> \<open>WellFormed\<close>: the type invariant \<open>wf_pstate\<close> of a peer's globals, preserved
    by each function of p1.py and so true in every reachable state.
  \<^item> \<open>NackVariant\<close>: the functions of \<^verbatim>\<open>src/p2.py\<close> that change the globals
    (\<open>atualizar_relogio_p2\<close>, \<open>multicast_requisicao_p2\<close> and \<open>enviar_ack_p2\<close>, equal to
    p1.py's,
    \<open>enviar_nack\<close>, \<open>processar_mensagem_p2\<close>, \<open>aguardar_recurso\<close>,
    \<open>entrar_recurso_critico_p2\<close>, \<open>sair_recurso_critico_p2\<close>), on the same state.
  \<^item> \<open>NackSystem\<close>: a system of p2.py peers (record \<open>sistema2\<close>).  Besides the states
    and the network it keeps every thread's position: the operator thread
    (\<open>fio_operador\<close>: at its prompt, or in the acknowledgement loop of line 137), and the
    multiset of threads each peer has started on \<open>aguardar_recurso\<close> (\<open>fio_espera\<close>:
    spinning on \<open>recurso_ocupado\<close>, or in the acknowledgement loop of the
    \<open>entrar_recurso_critico\<close> it calls).  \<open>passo2\<close> is the step relation and
    \<open>passo2_exec\<close>/\<open>executar2\<close> its executable form.
  \<^item> \<open>NackScenarios\<close>: two runs of three p2.py peers, evaluated by \<open>simp\<close>.
  \<^item> \<open>MensagemBruta\<close>: p1.py's handler on the decoded object
    (\<open>processar_mensagem_json\<close>, lines 147--179): \<open>tipo\<close> compared as the raw JSON
    value, the timestamp converted by Python's \<open>int()\<close> (\<open>int_py\<close>, with its inverse
    \<open>str()\<close>, \<open>str_py\<close>) and compared raw in the priority test.
  \<^item> \<open>Implantacao\<close>: the identity, port and address book of p1.py and
    \<^verbatim>\<open>src/processo2.py\<close>.
  \<^item> \<open>Processo2\<close>: the functions of processo2.py translated from that file
    (\<open>atualizar_relogio_pr2\<close>, \<open>multicast_requisicao_pr2\<close>, \<open>enviar_ack_pr2\<close>, \<open>entrar_recurso_critico_pr2\<close>,
    \<open>sair_recurso_critico_pr2\<close> with its loop \<open>responder_fila_pr2\<close>,
    \<open>processar_mensagem_pr2\<close>, its handler on the decoded object
    \<open>processar_mensagem_json_pr2\<close>, \<open>servidor_pr2\<close>), with its module constants in
    place of a configuration.
  \<^item> \<open>Ausente\<close>: p1.py peers while one member never runs (\<open>ator\<close>, the peer whose
    thread performs an event), with the invariant \<open>sem_resposta_de\<close>.
  \<^item> \<open>ConversaoInt\<close>: the two handlers on a timestamp written as a numeric string.
  \<^item> \<open>Server\<close>: the receive loop \<open>servidor\<close> (p1.py 183--193) over a sequence of
    decoded objects, each handled by \<open>processar_mensagem_json\<close>, ending at the first
    exception.
  \<^item> \<open>Interface\<close>: the parsing of one command line of \<open>interface_usuario\<close> (p1.py
    200--209) with \<open>str.strip\<close>, \<open>str.startswith\<close> and \<open>str.split\<close>.  The effect of
    the commands, including the second \<open>input()\<close> of \<open>entrar_recurso_critico\<close> and its
    blocking wait, is the operator's steps of \<open>passo\<close> in \<open>Network\<close>.

  \<^bold>\<open>What is shown.\<close>
  Safety holds: however operator commands, deliveries and message losses interleave, two
  distinct peers never hold the same resource (\<open>exclusao_mutua\<close>, by an inductive
  invariant that counts, for each pair of peers, what one still owes the other).  Liveness
  does not: the priority test of \<open>processar_mensagem\<close> compares the clock \<^emph>\<open>after\<close>
  observing the incoming timestamp, which always exceeds it, so a peer requesting a resource
  defers every request for it; two concurrent requesters defer each other and no step ever
  lets either in (\<open>impasse_concorrente\<close>).  The single global queue makes release answer
  a deferred request for another resource with an acknowledgement for the released one, and
  that requester waits forever while nobody holds anything
  (\<open>recurso_errado_permanente\<close>).  Choosing ``wait'' while one's own peer holds a
  resource blocks that peer's operator forever, with the resource held
  (\<open>espera_propria_permanente\<close>).  Every step of a reachable system refines the
  specification's life cycle \<open>Idle \<rightarrow> Requesting \<rightarrow> Held \<rightarrow> Idle\<close>
  (\<open>passo_refina_ciclo\<close>), and no clock ever goes back (\<open>relogio_nunca_recua\<close>).  The per-operation lemmas give the exact behaviour of
  each handler on every branch: the deferral rule, the release that acknowledges every queued
  request in arrival order with the \<^emph>\<open>released\<close> resource's name (there is one global
  queue and one \<open>recurso_ocupado\<close> flag), the silent no-op on releasing a resource not
  held, idempotent acknowledgements, unknown message kinds that still move the clock, clock
  growth, the JSON round trip and the \<open>KeyError\<close> on a missing field.  For the variant:
  its handler is the baseline's plus a \<open>nack\<close> per deferral (a functional refinement);
  its release answers only the oldest deferred request and drops the others; a \<open>nack\<close>
  answered ``1'' restarts the request and forgets the acknowledgements already received.
  The server loop refines handling the messages one by one when every sender is a member,
  and dies at the first message missing a field, or at a request from a non-member (the
  address lookup of its acknowledgement raises \<open>KeyError\<close>), never reading the rest.
  The command parser reads \<open>solicitar r\<close> as a request for \<open>r\<close>, and a bare
  \<open>solicitar\<close> raises \<open>ValueError\<close> in the unpacking of \<open>comando.split()\<close>, which
  ends the operator thread.

  Every reachable p1.py state is well formed (\<open>alcancavel_wf\<close>): a set
  \<open>recurso_ocupado\<close> always has a requested resource, and the busy-wait's lookup
  \<open>respostas_esperadas[recurso]\<close> never raises \<open>KeyError\<close>.  The drain loop of
  \<open>sair_recurso_critico\<close>, written round by round with \<open>while_option\<close>, always
  stops with the result of \<open>drenar_fila\<close> (\<open>drenar_fila_while_termina\<close>).  Every message in
  flight carries a timestamp no greater than its sender's current clock
  (\<open>carimbos_em_voo\<close>): each send is stamped with the clock it leaves behind, and clocks
  never go back.

  p2.py loses mutual exclusion.  A \<open>nack\<close> answered ``1'' starts a thread that
  re-requests the resource once the peer is free, and that thread later sets
  \<open>recurso_ocupado\<close> as soon as its own resource's pending set is empty, whatever the
  peer is requesting by then.  In a reachable state \<open>p1\<close> and \<open>p2\<close> both hold
  \<open>r1\<close>, and \<open>p1\<close> has no acknowledgement for it (\<open>p2_viola_exclusao\<close>).  When
  that thread grants after the operator released, the peer keeps \<open>recurso_ocupado\<close>
  with no requested resource for ever: it can neither request nor release again
  (\<open>fantasma_permanente\<close>), and its state is not well formed
  (\<open>fantasma_mal_formado\<close>).  Every thread in an acknowledgement loop still finds its
  pending set (\<open>alcancavel2_pendentes\<close>).  processo2.py computes what p1.py
  computes at its own configuration, its server loop included on every sequence of messages
  the peers send (\<open>processo2_equivale_p1\<close>), so the results on p1.py peers hold for it.
  Deployed with p1.py, the two address books disagree (\<open>p1\<close>\<open>\<dots>\<close> against
  \<open>processo1\<close>\<open>\<dots>\<close>), and each side's first request kills the other's server
  (\<open>implantacao_mista\<close>).  And a member that never runs (a script not started, or one
  whose operator never requests and whose server has died) blocks everybody.  In any run where it takes no step, no other
  peer ever holds a resource, and it stays in every pending set
  (\<open>membro_ausente_bloqueia\<close>).  The specification (section 9) foresees this
  starvation but leaves its remedy, a timeout, open.

  The handler on decoded dicts agrees with \<open>processar_mensagem\<close> on every message the peers
  send (\<open>processar_mensagem_json_int\<close>), and \<open>int()\<close> reads back what \<open>str()\<close>
  writes (\<open>int_py_str_py\<close>).  A timestamp written as a numeric string is where the
  copies part: p1.py converts it with \<open>int()\<close> and processo2.py raises \<open>TypeError\<close>,
  and p1.py itself raises \<open>TypeError\<close> on such a request for the resource it is
  requesting, in the priority test (\<open>carimbo_texto\<close>).

  \<^bold>\<open>Choices.\<close>
  Each handler runs atomically: the source takes no lock, and the model does not cover races
  inside one handler between the two threads of a peer.  A failed send is a lost message.
  No bound or fuel is needed: every loop of the model is structural or has a measure
  (\<open>drenar_fila\<close> on the queue length, \<open>split_py\<close> on the string length; the
  \<open>while_option\<close> form of the drain loop is proved to return \<open>Some\<close>), and the
  unbounded busy-waits of the source are steps that are enabled or not
  (\<open>conceder_recurso\<close>, \<open>aguardar_recurso\<close>, the rules \<open>retomar\<close> of
  \<open>passo\<close> and \<open>passo2\<close>).  The operator's
  answers to \<open>input()\<close> are parameters (\<open>escolha\<close>).

  \<^bold>\<open>Not modelled.\<close>
  Sockets and JSON text (library code; only their effect, a message delivered or lost, or an
  object decoded); prints, colours and debug output; the sleeps of
  \<open>teste_automatico\<close> and the delay \<open>teste_ativo\<close> adds, which only change timing;
  Unicode whitespace in \<open>str.split\<close> and the non-ASCII digits \<open>int()\<close> accepts (characters
  are bytes); JSON values other than strings and integers, and a \<open>recurso\<close> or
  \<open>id\<close> field that is not a string (\<open>ler_campos\<close> stops there with \<open>TypeError\<close>,
  where Python would go on with a value that no peer sends); the operator loop as a whole,
  whose \<open>input()\<close> shares standard input with the one inside
  \<open>entrar_recurso_critico\<close> (its effect is the operator's steps of \<open>passo\<close>);
  \<open>teste_automatico\<close> of p1.py and p2.py, which no main block starts (the lines that
  would start it are commented out, p1.py 228 and p2.py 253).  Two races stay outside the model.  First, the
  interleaving \<^emph>\<open>inside\<close> one handler between a peer's threads: every handler is one
  step.  Second, which thread of a p2.py peer reads a line when several call
  \<open>input()\<close> at once: the answers are parameters of the steps.  The operator loop of
  processo2.py differs from p1.py's only in its prompt text.  The unused
  \<open>threading.Lock\<close> and \<open>Condition\<close> globals of p1.py and p2.py are never acquired:
  nothing orders a peer's threads, and the atomic handlers of the model abstract from that
  (the first race above).
\<close>

end
